theory Spec2Isabelle
  imports Main "HOL-Library.AList" "HOL-Library.Word"
begin

unbundle bit_operations_syntax

section \<open>Values and element descriptors\<close>

text \<open>
  The repository holds two variants of the reconciler: \<^verbatim>\<open>src/index.ts\<close>, whose retained
  nodes are classes linked into sibling lists, and a second module whose retained tree is made
  of the \<^verbatim>\<open>Element\<close> objects themselves, with a \<^verbatim>\<open>flags\<close> bit field.  Definitions
  translated from the first keep the class and method name (\<open>ParentNode_commitChildren\<close>);
  definitions translated from the second keep the function name (\<open>prepareCommit\<close>).  Where both
  declare the same name the second carries the suffix \<open>2\<close>.
\<close>

datatype tag = HostTag string | ComponentTag nat | Fragment | Copy | Portal | Raw

text \<open>
  JavaScript values as far as the reconciler inspects them.  An object is the list of its
  enumerable entries in insertion order; a function is known by an identifier only.
\<close>

datatype jsval =
    JUndefined
  | JNull
  | JBool bool
  | JNum int
  | JStr string
  | JFun nat
  | JArr "jsval list"
  | JObj "(string \<times> jsval) list"
  | JElem (tag: tag) (props: "(string \<times> jsval) list") (key: jsval) (ref: jsval)

type_synonym obj = "(string \<times> jsval) list"

text \<open>\<^verbatim>\<open>o[k]\<close>: a missing property reads as \<^verbatim>\<open>undefined\<close>.\<close>

definition obj_get :: "obj \<Rightarrow> string \<Rightarrow> jsval" where
  "obj_get ob k = (case map_of ob k of None \<Rightarrow> JUndefined | Some v \<Rightarrow> v)"

text \<open>\<^verbatim>\<open>o[k] = v\<close>: overwrite in place, or append a new entry.\<close>

definition obj_set :: "obj \<Rightarrow> string \<Rightarrow> jsval \<Rightarrow> obj" where
  "obj_set ob k v = AList.update k v ob"

text \<open>\<^verbatim>\<open>v != null\<close> is false for both \<^verbatim>\<open>null\<close> and \<^verbatim>\<open>undefined\<close>.\<close>

definition not_nullish :: "jsval \<Rightarrow> bool" where
  "not_nullish v = (v \<noteq> JNull \<and> v \<noteq> JUndefined)"

fun is_function :: "jsval \<Rightarrow> bool" where
  "is_function (JFun f) = True"
| "is_function v = False"

text \<open>
  \<^verbatim>\<open>a[i] = v\<close> on a JavaScript array: an index past the end extends the array, the skipped
  slots reading as \<^verbatim>\<open>undefined\<close>.
\<close>

definition arr_set :: "jsval list \<Rightarrow> nat \<Rightarrow> jsval \<Rightarrow> jsval list" where
  "arr_set xs i v =
     (if i < length xs then xs[i := v]
      else xs @ replicate (i - length xs) JUndefined @ [v])"

section \<open>createElement\<close>

text \<open>
  The \<^verbatim>\<open>for (const key in props)\<close> loop of \<^verbatim>\<open>src/index.ts\<close>: every enumerable name other
  than the two reserved ones is copied into \<^verbatim>\<open>props1\<close>.
\<close>

fun copy_props :: "obj \<Rightarrow> string list \<Rightarrow> obj \<Rightarrow> obj" where
  "copy_props ps [] props1 = props1"
| "copy_props ps (k # ks) props1 =
     copy_props ps ks
       (if k \<noteq> ''crank-key'' \<and> k \<noteq> ''crank-ref'' then obj_set props1 k (obj_get ps k)
        else props1)"

text \<open>
  \<^verbatim>\<open>while (length-- > 2) children1[length - 2] = arguments[length]\<close>.  The arguments are
  \<^verbatim>\<open>tag\<close>, \<^verbatim>\<open>props\<close> and then the rest arguments \<open>rest\<close>, so \<^verbatim>\<open>arguments[n]\<close> for
  \<open>2 \<le> n\<close> is \<open>rest ! (n - 2)\<close>.
\<close>

function collect_children :: "nat \<Rightarrow> jsval list \<Rightarrow> jsval list \<Rightarrow> jsval list" where
  "collect_children len rest children1 =
     (if len > 2
      then collect_children (len - 1) rest
             (arr_set children1 (len - 1 - 2) (rest ! (len - 1 - 2)))
      else children1)"
  by pat_completeness auto
termination
  by (relation "measure (\<lambda>(len, rest, children1). len)") auto

declare collect_children.simps [simp del]

text \<open>
  The tail of \<^verbatim>\<open>createElement\<close>, shared by both variants.  \<open>rest\<close> are the arguments after
  \<^verbatim>\<open>props\<close>; with at least one of them \<^verbatim>\<open>arguments.length\<close> is \<open>2 + length rest\<close>, and
  with none it is at most 2, so that neither branch is taken.
\<close>

definition set_children :: "obj \<Rightarrow> jsval list \<Rightarrow> obj" where
  "set_children props1 rest =
     (let len = (if rest = [] then 2 else 2 + length rest) in
      if len > 3 then obj_set props1 ''children'' (JArr (collect_children len rest []))
      else if len > 2 then obj_set props1 ''children'' (rest ! 0)
      else props1)"

text \<open>\<^verbatim>\<open>createElement\<close> of \<^verbatim>\<open>src/index.ts\<close>; \<open>None\<close> is a \<^verbatim>\<open>props\<close> that is null or undefined.\<close>

definition createElement :: "tag \<Rightarrow> obj option \<Rightarrow> jsval list \<Rightarrow> jsval" where
  "createElement tg props0 rest =
     (let key1 = (case props0 of None \<Rightarrow> JUndefined
                  | Some ps \<Rightarrow> if not_nullish (obj_get ps ''crank-key'')
                               then obj_get ps ''crank-key'' else JUndefined);
          ref1 = (case props0 of None \<Rightarrow> JUndefined
                  | Some ps \<Rightarrow> if is_function (obj_get ps ''crank-ref'')
                               then obj_get ps ''crank-ref'' else JUndefined);
          props1 = (case props0 of None \<Rightarrow> []
                    | Some ps \<Rightarrow> copy_props ps (map fst ps) [])
      in JElem tg (set_children props1 rest) key1 ref1)"

text \<open>
  The loop of the second variant, which extracts the key and the ref while it copies; the
  state is \<^verbatim>\<open>(props1, key, ref)\<close>.
\<close>

fun copy_props2 :: "obj \<Rightarrow> string list \<Rightarrow> obj \<times> jsval \<times> jsval \<Rightarrow> obj \<times> jsval \<times> jsval" where
  "copy_props2 ps [] st = st"
| "copy_props2 ps (name # names) (props1, key1, ref1) =
     copy_props2 ps names
       (if name = ''crank-key''
        then (if not_nullish (obj_get ps name) then (props1, obj_get ps name, ref1)
              else (props1, key1, ref1))
        else if name = ''crank-ref''
        then (if is_function (obj_get ps ''crank-ref'') then (props1, key1, obj_get ps name)
              else (props1, key1, ref1))
        else (obj_set props1 name (obj_get ps name), key1, ref1))"

definition createElement2 :: "tag \<Rightarrow> obj option \<Rightarrow> jsval list \<Rightarrow> jsval" where
  "createElement2 tg props0 rest =
     (case (case props0 of None \<Rightarrow> ([], JUndefined, JUndefined)
            | Some ps \<Rightarrow> copy_props2 ps (map fst ps) ([], JUndefined, JUndefined)) of
        (props1, key1, ref1) \<Rightarrow> JElem tg (set_children props1 rest) key1 ref1)"

section \<open>The flags of the second variant\<close>

text \<open>
  The second variant keeps its per-element state in the bit field \<^verbatim>\<open>el.flags\<close>.  The module
  \<^verbatim>\<open>./flags\<close> that names the bits is not part of the sources, so the constants are a
  parameter of every definition that uses them; no property below depends on their values.
  JavaScript's bitwise operators work on 32-bit integers.
\<close>

record flag_consts =
  Initial :: "32 word"
  Mounted :: "32 word"
  Updating :: "32 word"
  Dirty :: "32 word"
  Moved :: "32 word"
  Removing :: "32 word"
  Handling :: "32 word"
  Unmounted :: "32 word"
  Finished :: "32 word"
  Stepping :: "32 word"
  Iterating :: "32 word"
  Available :: "32 word"
  SyncGen :: "32 word"
  AsyncGen :: "32 word"

text \<open>\<^verbatim>\<open>if (flags & mask)\<close>\<close>

definition has_flag :: "32 word \<Rightarrow> 32 word \<Rightarrow> bool" where
  "has_flag fl bits = (fl AND bits \<noteq> 0)"

text \<open>One assignment of distinct bits, for evaluating the second variant on concrete inputs.\<close>

definition flags0 :: flag_consts where
  "flags0 =
     \<lparr>Initial = 0, Mounted = 1, Updating = 2, Dirty = 4, Moved = 8, Removing = 16,
      Handling = 32, Unmounted = 64, Finished = 128, Stepping = 256, Iterating = 512,
      Available = 1024, SyncGen = 2048, AsyncGen = 4096\<rparr>"

section \<open>Error propagation\<close>

text \<open>
  An error value.  \<open>TypeError\<close> is what JavaScript raises when a method is called on
  \<^verbatim>\<open>undefined\<close>, as \<^verbatim>\<open>this.parent.catch(err)\<close> would on a component without a parent;
  the types of both variants rule that case out, and the model keeps it as an error.
\<close>

datatype error = Error nat | TypeError

text \<open>An iterator result \<^verbatim>\<open>{value, done}\<close>.\<close>

datatype iteration = Iteration (it_value: jsval) (it_done: bool)

text \<open>
  What a call of the generator's \<^verbatim>\<open>throw\<close> entry point does: it returns an iteration or
  raises, or (for an async generator) returns a promise that later fulfils with an iteration
  or rejects.
\<close>

datatype thrown = Returns iteration | Throws error | Resolves iteration | Rejects error

text \<open>
  The result of \<^verbatim>\<open>catch\<close> / \<^verbatim>\<open>handle\<close>: the error is raised to the caller; or the node
  with the given identity returns \<^verbatim>\<open>updateChildren(iteration.value)\<close>, having set its
  finished flag when the iteration is done; or a promise is returned whose continuation
  does one of these when the promise of \<^verbatim>\<open>throw\<close> settles (a raise inside it rejects the
  returned promise).
\<close>

datatype outcome = Raise error | UpdateChildren nat iteration | Later outcome

subsection \<open>\<^verbatim>\<open>src/index.ts\<close>: ParentNode.catch and ComponentNode.catch\<close>

text \<open>
  A node on the path to the root.  Fragment and host nodes inherit \<^verbatim>\<open>ParentNode.catch\<close>.
  A component's \<^verbatim>\<open>iterator\<close> is undefined (\<open>None\<close>), an iterator without a \<^verbatim>\<open>throw\<close>
  method (\<open>Some None\<close>), or one whose \<^verbatim>\<open>throw\<close> behaves as the given function.
\<close>

record component =
  k_id :: nat
  k_iterator :: "(error \<Rightarrow> thrown) option option"
  k_finished :: bool
  k_onProps :: bool

datatype pnode = OtherNode nat | ComponentNode component

text \<open>
  The guard of \<^verbatim>\<open>ComponentNode.catch\<close>: the component takes the error itself unless
  \<^verbatim>\<open>iterator === undefined || iterator.throw === undefined || finished\<close>.
\<close>

definition catching :: "component \<Rightarrow> (error \<Rightarrow> thrown) option" where
  "catching c =
     (case k_iterator c of
        None \<Rightarrow> None
      | Some None \<Rightarrow> None
      | Some (Some f) \<Rightarrow> if k_finished c then None else Some f)"

text \<open>
  \<^verbatim>\<open>catch(reason)\<close> on the first node of the list; the rest of the list are its ancestors,
  nearest first, the last one having no parent.  The result is paired with the nodes as the
  call leaves them.  The continuation of an asynchronous \<^verbatim>\<open>throw\<close> is evaluated on the
  ancestors as they are at the time of the call.
\<close>

fun node_catch :: "pnode list \<Rightarrow> error \<Rightarrow> outcome \<times> pnode list" where
  "node_catch [] reason = (Raise TypeError, [])"
| "node_catch (OtherNode i # parents) reason =
     (if parents = [] then (Raise reason, [OtherNode i])
      else (let (r, parents') = node_catch parents reason in (r, OtherNode i # parents')))"
| "node_catch (ComponentNode c # parents) reason =
     (case catching c of
        None \<Rightarrow>
          (if parents = [] then (Raise reason, [ComponentNode c])
           else (let (r, parents') = node_catch parents reason
                 in (r, ComponentNode c # parents')))
      | Some throw \<Rightarrow>
          (let c1 = c\<lparr>k_onProps := False\<rparr> in
           case throw reason of
             Throws err \<Rightarrow>
               (let (r, parents') = node_catch parents err
                in (r, ComponentNode c1 # parents'))
           | Resolves it \<Rightarrow>
               (Later (UpdateChildren (k_id c) it), ComponentNode c1 # parents)
           | Rejects err \<Rightarrow>
               (Later (fst (node_catch parents err)), ComponentNode c1 # parents)
           | Returns it \<Rightarrow>
               (UpdateChildren (k_id c) it,
                ComponentNode (c1\<lparr>k_finished := (k_finished c1 \<or> it_done it)\<rparr>) # parents)))"

subsection \<open>The second variant: handle\<close>

text \<open>
  An element on the path to the root: whether its tag is a function, its flags, whether its
  context holds a pending \<^verbatim>\<open>_onProps\<close> resolver, and its iterator as above.
\<close>

record element =
  l_id :: nat
  l_component :: bool
  l_flags :: "32 word"
  l_onProps :: bool
  l_iterator :: "(error \<Rightarrow> thrown) option option"

definition handling :: "flag_consts \<Rightarrow> element \<Rightarrow> (error \<Rightarrow> thrown) option" where
  "handling F el =
     (case l_iterator el of
        None \<Rightarrow> None
      | Some None \<Rightarrow> None
      | Some (Some f) \<Rightarrow>
          if l_component el \<and> \<not> has_flag (l_flags el) (Finished F) then Some f else None)"

fun handle :: "flag_consts \<Rightarrow> element list \<Rightarrow> error \<Rightarrow> outcome \<times> element list" where
  "handle F [] reason = (Raise TypeError, [])"
| "handle F (el # parents) reason =
     (let el1 = el\<lparr>l_flags := l_flags el OR Handling F, l_onProps := False\<rparr> in
      case handling F el1 of
        Some throw \<Rightarrow>
          (case throw reason of
             Throws err \<Rightarrow>
               (let (r, parents') = handle F parents err in (r, el1 # parents'))
           | Resolves it \<Rightarrow> (Later (UpdateChildren (l_id el) it), el1 # parents)
           | Rejects err \<Rightarrow> (Later (fst (handle F parents err)), el1 # parents)
           | Returns it \<Rightarrow>
               (UpdateChildren (l_id el) it,
                (if it_done it then el1\<lparr>l_flags := l_flags el1 OR Finished F\<rparr> else el1)
                  # parents))
      | None \<Rightarrow>
          (if parents = [] then (Raise reason, [el1])
           else (let (r, parents') = handle F parents reason in (r, el1 # parents'))))"

subsection \<open>Paths of nodes that pass an error on\<close>

text \<open>
  A node is inert when \<^verbatim>\<open>catch\<close> finds no live generator in it: it is not a component, or
  the guard sends the component to \<^verbatim>\<open>ParentNode.catch\<close>.
\<close>

fun inert :: "pnode \<Rightarrow> bool" where
  "inert (OtherNode i) = True"
| "inert (ComponentNode c) = (catching c = None)"

text \<open>
  The error a node hands to its parent within the call, if it hands one on: an inert node
  the error it was given, a component with a live generator the error that the generator's
  \<^verbatim>\<open>throw\<close> raises.
\<close>

fun passes_on :: "pnode \<Rightarrow> error \<Rightarrow> error option" where
  "passes_on (OtherNode i) r = Some r"
| "passes_on (ComponentNode c) r =
     (case catching c of
        None \<Rightarrow> Some r
      | Some throw \<Rightarrow> (case throw r of Throws err \<Rightarrow> Some err | _ \<Rightarrow> None))"

fun passed_up :: "pnode list \<Rightarrow> error \<Rightarrow> error option" where
  "passed_up [] r = Some r"
| "passed_up (n # ns) r = (case passes_on n r of None \<Rightarrow> None | Some r' \<Rightarrow> passed_up ns r')"

text \<open>The same for the second variant, whose guard is read after the Handling flag is set.\<close>

definition handling_el :: "flag_consts \<Rightarrow> element \<Rightarrow> (error \<Rightarrow> thrown) option" where
  "handling_el F el = handling F (el\<lparr>l_flags := l_flags el OR Handling F, l_onProps := False\<rparr>)"

definition passes_on2 :: "flag_consts \<Rightarrow> element \<Rightarrow> error \<Rightarrow> error option" where
  "passes_on2 F el r =
     (case handling_el F el of
        None \<Rightarrow> Some r
      | Some throw \<Rightarrow> (case throw r of Throws err \<Rightarrow> Some err | _ \<Rightarrow> None))"

fun passed_up2 :: "flag_consts \<Rightarrow> element list \<Rightarrow> error \<Rightarrow> error option" where
  "passed_up2 F [] r = Some r"
| "passed_up2 F (el # els) r =
     (case passes_on2 F el r of None \<Rightarrow> None | Some r' \<Rightarrow> passed_up2 F els r')"

section \<open>Committed values and the commit pass\<close>

text \<open>
  A committed value is a string, a backend value, an array of those, or undefined.  The
  code tells a string from anything else by \<^verbatim>\<open>typeof value === "string"\<close>, so a backend
  whose own values are strings produces \<open>VStr\<close> entries; \<open>VObj\<close> is a backend value that is
  not a string.
\<close>

datatype 'v cval = VStr string | VObj 'v

datatype 'v nvalue = NUndefined | NSingle "'v cval" | NArray "'v cval list"

fun is_str :: "'v cval \<Rightarrow> bool" where
  "is_str (VStr s) = True"
| "is_str (VObj v) = False"

subsection \<open>\<^verbatim>\<open>src/index.ts\<close>: ParentNode.commitChildren\<close>

text \<open>
  The fields of a retained node that the commit pass reads or writes.  A leaf node has
  \<open>n_internal = False\<close> and no tag; the flags \<open>n_moved\<close>, \<open>n_copied\<close> and \<open>n_dirtyStart\<close>
  exist on parent nodes only and are read only behind a test of \<open>n_internal\<close>.  A node
  carries the chain of its \<^verbatim>\<open>alternate\<close> links.
\<close>

record 'v nodeinfo =
  n_internal :: bool
  n_tag :: "tag option"
  n_value :: "'v nvalue"
  n_dirty :: bool
  n_moved :: bool
  n_copied :: bool
  n_dirtyStart :: "nat option"

datatype 'v node = Node (info: "'v nodeinfo") (alternate: "'v node option")

text \<open>\<^verbatim>\<open>while (child.alternate !== undefined) child = child.alternate\<close>\<close>

fun chain_end :: "'v node \<Rightarrow> 'v nodeinfo" where
  "chain_end (Node i None) = i"
| "chain_end (Node i (Some a)) = chain_end a"

fun map_chain_end :: "('v nodeinfo \<Rightarrow> 'v nodeinfo) \<Rightarrow> 'v node \<Rightarrow> 'v node" where
  "map_chain_end f (Node i None) = Node (f i) None"
| "map_chain_end f (Node i (Some a)) = Node i (Some (map_chain_end f a))"

record 'v commit_state =
  buffer :: "string option"
  childValues :: "'v cval list"
  oldLength :: nat
  this_dirty :: bool
  this_dirtyStart :: "nat option"

text \<open>
  \<^verbatim>\<open>for (let dirtyStart = oldLength - 1; dirtyStart >= 0; dirtyStart--)\<close>: the last index
  below \<open>n\<close> whose entry is not a string.  A read past the end of the array is undefined,
  which is not a string either.
\<close>

fun find_dirtyStart :: "'v cval list \<Rightarrow> nat \<Rightarrow> nat option" where
  "find_dirtyStart vs 0 = None"
| "find_dirtyStart vs (Suc d) =
     (if length vs \<le> d \<or> \<not> is_str (vs ! d) then Some d else find_dirtyStart vs d)"

text \<open>The part of the loop body that builds \<^verbatim>\<open>buffer\<close> and \<^verbatim>\<open>childValues\<close>.\<close>

definition push_value :: "'v nodeinfo \<Rightarrow> 'v commit_state \<Rightarrow> 'v commit_state" where
  "push_value child st =
     (case n_value child of
        NSingle (VStr s) \<Rightarrow>
          st\<lparr>buffer := Some (case buffer st of None \<Rightarrow> s | Some b \<Rightarrow> b @ s)\<rparr>
      | v \<Rightarrow>
          if n_tag child \<noteq> Some Portal then
            (let vs = (case buffer st of None \<Rightarrow> childValues st
                       | Some b \<Rightarrow> childValues st @ [VStr b])
             in st\<lparr>buffer := None,
                   childValues := (case v of NArray a \<Rightarrow> vs @ a
                                   | NSingle x \<Rightarrow> vs @ [x]
                                   | NUndefined \<Rightarrow> vs)\<rparr>)
          else st)"

text \<open>The part that raises the parent's dirty flag and its \<^verbatim>\<open>dirtyStart\<close> hint.\<close>

definition mark_dirty :: "'v nodeinfo \<Rightarrow> 'v commit_state \<Rightarrow> 'v commit_state" where
  "mark_dirty child st =
     (if n_dirty child \<or> (n_internal child \<and> n_moved child) then
        (if \<not> this_dirty st then
           (if n_internal child \<and> \<not> n_moved child \<and> n_dirtyStart child \<noteq> None
            then st\<lparr>this_dirtyStart := Some (oldLength st + the (n_dirtyStart child)),
                    this_dirty := True\<rparr>
            else (case find_dirtyStart (childValues st) (oldLength st) of
                    Some d \<Rightarrow> st\<lparr>this_dirtyStart := Some d, this_dirty := True\<rparr>
                  | None \<Rightarrow> st\<lparr>this_dirty := True\<rparr>))
         else st)
      else st)"

text \<open>The flags the loop clears on the child.\<close>

definition clear_child :: "'v nodeinfo \<Rightarrow> 'v nodeinfo" where
  "clear_child child =
     (if n_internal child
      then child\<lparr>n_dirty := False, n_copied := False, n_moved := False, n_dirtyStart := None\<rparr>
      else child\<lparr>n_dirty := False\<rparr>)"

text \<open>
  The loop over the sibling list, from \<^verbatim>\<open>firstChild\<close> along \<^verbatim>\<open>nextSibling\<close>.  Each
  child is first replaced by the end of its alternate chain, and the walk resumes from the
  child itself.  The result is the final state and the children with their flags cleared.
\<close>

fun commit_loop ::
  "'v node list \<Rightarrow> 'v commit_state \<Rightarrow> 'v commit_state \<times> 'v node list" where
  "commit_loop [] st = (st, [])"
| "commit_loop (child # siblings) st =
     (let c = chain_end child;
          st1 = push_value c st;
          st2 = mark_dirty c st1;
          st3 = st2\<lparr>oldLength := length (childValues st2)\<rparr>;
          (st4, siblings') = commit_loop siblings st3
      in (st4, map_chain_end clear_child child # siblings'))"

text \<open>
  \<^verbatim>\<open>commitChildren\<close>: the returned array, the parent's dirty flag and hint, and the
  children.  \<open>d\<close> and \<open>ds\<close> are the parent's \<^verbatim>\<open>dirty\<close> and \<^verbatim>\<open>dirtyStart\<close> on entry.
\<close>

definition ParentNode_commitChildren ::
  "bool \<Rightarrow> nat option \<Rightarrow> 'v node list
    \<Rightarrow> 'v cval list \<times> bool \<times> nat option \<times> 'v node list" where
  "ParentNode_commitChildren d ds children =
     (let (st, children') =
            commit_loop children
              \<lparr>buffer = None, childValues = [], oldLength = 0,
               this_dirty = d, this_dirtyStart = ds\<rparr>;
          vs = (case buffer st of None \<Rightarrow> childValues st
                | Some b \<Rightarrow> childValues st @ [VStr b])
      in (vs, (if children = [] then True else this_dirty st), this_dirtyStart st, children'))"

text \<open>
  \<^verbatim>\<open>this.value = childValues.length > 1 ? childValues : childValues[0]\<close>, as the fragment
  and component nodes commit it.
\<close>

definition value_of_childValues :: "'v cval list \<Rightarrow> 'v nvalue" where
  "value_of_childValues vs =
     (case vs of [] \<Rightarrow> NUndefined | [v] \<Rightarrow> NSingle v | _ \<Rightarrow> NArray vs)"

subsection \<open>The second variant: prepareCommit\<close>

text \<open>
  What the commit pass sees of a child in \<^verbatim>\<open>el.children\<close>: undefined, a string, or an
  element with its tag, flags and committed value.
\<close>

datatype 'v nchild =
    CUndefined
  | CText string
  | CElem (c_tag: tag) (c_flags: "32 word") (c_value: "'v nvalue")

text \<open>
  \<^verbatim>\<open>el.children\<close> is a single child or an array of children; undefined is
  \<open>Single CUndefined\<close>.
\<close>

datatype 'v nchildren = Single "'v nchild" | Many "'v nchild list"

text \<open>The flag updates at the head of both the single-child branch and the loop body.\<close>

fun commit_flags :: "flag_consts \<Rightarrow> 'v nchild \<Rightarrow> 32 word \<Rightarrow> 32 word \<times> 'v nchild" where
  "commit_flags F (CElem tg fl v) elf =
     ((if has_flag fl (Dirty F OR Moved F) then elf OR Dirty F else elf),
      CElem tg (fl AND NOT (Dirty F OR Moved F)) v)"
| "commit_flags F c elf = (elf OR Dirty F, c)"

text \<open>
  The loop over an array of children; the state is \<^verbatim>\<open>(el.flags, buffer, values)\<close>, and
  the children are returned with their flags cleared.
\<close>

fun prepare_loop ::
  "flag_consts \<Rightarrow> 'v nchild list \<Rightarrow> 32 word \<times> string option \<times> 'v cval list
    \<Rightarrow> (32 word \<times> string option \<times> 'v cval list) \<times> 'v nchild list" where
  "prepare_loop F [] st = (st, [])"
| "prepare_loop F (child # rest) (elf, buf, values) =
     (let (elf1, child1) = commit_flags F child elf;
          st1 =
            (case child of
               CElem Portal fl v \<Rightarrow> (elf1, buf, values)
             | _ \<Rightarrow>
               (case (case child of CElem tg fl v \<Rightarrow> v
                      | CText s \<Rightarrow> NSingle (VStr s)
                      | CUndefined \<Rightarrow> NUndefined) of
                  NSingle (VStr s) \<Rightarrow>
                    (elf1, Some (case buf of None \<Rightarrow> s | Some b \<Rightarrow> b @ s), values)
                | v \<Rightarrow>
                    (let vs = (case buf of None \<Rightarrow> values | Some b \<Rightarrow> values @ [VStr b])
                     in (elf1, None,
                         (case v of NArray a \<Rightarrow> vs @ a
                          | NSingle x \<Rightarrow> vs @ [x]
                          | NUndefined \<Rightarrow> vs)))));
          (st2, rest') = prepare_loop F rest st1
      in (st2, child1 # rest'))"

text \<open>
  \<^verbatim>\<open>prepareCommit(el)\<close>: from \<^verbatim>\<open>el.flags\<close> and \<^verbatim>\<open>el.children\<close> to the new
  \<^verbatim>\<open>el.flags\<close>, \<^verbatim>\<open>el.value\<close> and children.
\<close>

fun prepareCommit ::
  "flag_consts \<Rightarrow> 32 word \<Rightarrow> 'v nchildren \<Rightarrow> 32 word \<times> 'v nvalue \<times> 'v nchildren" where
  "prepareCommit F elf (Single CUndefined) = (elf OR Dirty F, NUndefined, Single CUndefined)"
| "prepareCommit F elf (Single child) =
     (let (elf1, child1) = commit_flags F child elf
      in (elf1,
          (case child of
             CElem tg fl v \<Rightarrow> if tg = Portal then NUndefined else v
           | CText s \<Rightarrow> NSingle (VStr s)
           | CUndefined \<Rightarrow> NUndefined),
          Single child1))"
| "prepareCommit F elf (Many cs) =
     (let ((elf1, buf, values), cs') = prepare_loop F cs (elf, None, []);
          values1 = (case buf of None \<Rightarrow> values | Some b \<Rightarrow> values @ [VStr b])
      in (case values1 of
            [] \<Rightarrow> (elf1 OR Dirty F, NUndefined, Many cs')
          | [v] \<Rightarrow> (elf1, NSingle v, Many cs')
          | _ \<Rightarrow> (elf1, NArray values1, Many cs')))"

subsection \<open>Text runs, as the specification words them\<close>

text \<open>
  The specification of the commit pass: walk the children's values left to right, concatenate
  adjacent string values into one merged string, and flatten multi-valued children.  Two
  strings in a row are one string; a string followed by anything else is emitted.
\<close>

fun flatten_value :: "'v nvalue \<Rightarrow> 'v cval list" where
  "flatten_value NUndefined = []"
| "flatten_value (NSingle x) = [x]"
| "flatten_value (NArray a) = a"

fun merge_text_runs :: "'v nvalue list \<Rightarrow> 'v cval list" where
  "merge_text_runs [] = []"
| "merge_text_runs (NSingle (VStr a) # NSingle (VStr b) # vs) =
     merge_text_runs (NSingle (VStr (a @ b)) # vs)"
| "merge_text_runs (NSingle (VStr a) # vs) = VStr a # merge_text_runs vs"
| "merge_text_runs (v # vs) = flatten_value v @ merge_text_runs vs"

text \<open>The values of the children that the specification lets through: all but Portals.\<close>

fun child_value :: "'v nchild \<Rightarrow> 'v nvalue" where
  "child_value CUndefined = NUndefined"
| "child_value (CText s) = NSingle (VStr s)"
| "child_value (CElem tg fl v) = v"

fun is_portal :: "'v nchild \<Rightarrow> bool" where
  "is_portal (CElem tg fl v) = (tg = Portal)"
| "is_portal c = False"

definition visible_values :: "'v nchild list \<Rightarrow> 'v nvalue list" where
  "visible_values cs = map child_value (filter (\<lambda>c. \<not> is_portal c) cs)"

text \<open>The same for the nodes of \<^verbatim>\<open>src/index.ts\<close>, each seen at the end of its alternate chain.\<close>

definition node_values :: "'v node list \<Rightarrow> 'v nvalue list" where
  "node_values ns =
     map n_value (filter (\<lambda>c. n_tag c \<noteq> Some Portal) (map chain_end ns))"

fun is_text :: "'v nvalue \<Rightarrow> bool" where
  "is_text (NSingle (VStr s)) = True"
| "is_text v = False"

text \<open>A pending \<^verbatim>\<open>buffer\<close> behaves as a text child in front of the remaining children.\<close>

fun buffered :: "string option \<Rightarrow> 'v nvalue list" where
  "buffered None = []"
| "buffered (Some b) = [NSingle (VStr b)]"

text \<open>The final \<^verbatim>\<open>if (buffer !== undefined) values.push(buffer)\<close>.\<close>

definition flush :: "string option \<Rightarrow> 'v cval list \<Rightarrow> 'v cval list" where
  "flush buf values = (case buf of None \<Rightarrow> values | Some b \<Rightarrow> values @ [VStr b])"

section \<open>Unmounting\<close>

text \<open>
  What a call of an iterator's \<^verbatim>\<open>return\<close> entry point does: it returns an iteration or
  raises, or (for an async generator) returns a promise that later fulfils or rejects.
\<close>

datatype returned = ReturnDone | ReturnThrows error | ReturnResolves | ReturnRejects error

text \<open>
  The observable effects of unmounting, in the order they happen.  \<open>Return i\<close> is a call of
  the \<^verbatim>\<open>return\<close> entry point of the iterator of node \<open>i\<close>; \<open>Caught i e\<close> is node \<open>i\<close> calling
  its parent's \<^verbatim>\<open>catch\<close> / \<^verbatim>\<open>handle\<close> with \<open>e\<close>; \<open>Deferred i\<close> is node \<open>i\<close> leaving the
  unmounting of its children to the continuation of the promise that \<^verbatim>\<open>return\<close> returned.
\<close>

datatype event =
    Cleanup nat nat
  | ClearEventListeners nat
  | OnProps nat
  | Return nat
  | Caught nat error
  | Deferred nat

subsection \<open>\<^verbatim>\<open>src/index.ts\<close>: the unmount methods of the three node classes\<close>

record fragment_node =
  f_id :: nat
  f_key :: jsval
  f_unmounted :: bool

text \<open>
  A host node's iterator is undefined (\<open>None\<close>), has no \<^verbatim>\<open>return\<close> method (\<open>Some None\<close>),
  or has one that behaves as given.  \<open>h_root\<close> holds for the node without a parent.
\<close>

record host_node =
  h_id :: nat
  h_key :: jsval
  h_tag :: tag
  h_root :: bool
  h_unmounted :: bool
  h_finished :: bool
  h_dirtyRemoval :: bool
  h_iterator :: "returned option option"

record component_node =
  c_id :: nat
  c_key :: jsval
  c_updating :: bool
  c_unmounted :: bool
  c_finished :: bool
  c_onProps :: bool
  c_cleanups :: "nat list option"
  c_iterator :: "returned option option"

text \<open>
  The retained tree below a node: each parent node with the list of its children, in
  sibling order.  A leaf node has no \<^verbatim>\<open>unmount\<close>.
\<close>

datatype rnode =
    LeafN
  | FragmentN fragment_node "rnode list"
  | HostN host_node "rnode list"
  | ComponentN component_node "rnode list"

text \<open>
  \<^verbatim>\<open>unmount(dirty)\<close> and \<^verbatim>\<open>unmountChildren(dirty)\<close>.  The result is the tree after the
  call, the effects, and the exception that leaves the call, if one does.  \<open>pcatch e\<close> is the
  outcome of calling the \<^verbatim>\<open>catch\<close> of the parent with \<open>e\<close>: \<open>Some e'\<close> when that raises \<open>e'\<close>
  (no ancestor takes the error), \<open>None\<close> when it returns.  An exception ends the loop of
  \<^verbatim>\<open>unmountChildren\<close> it passes through.  The cleanup callbacks are not called into; they
  are recorded.
\<close>

fun unmount :: "(error \<Rightarrow> error option) \<Rightarrow> bool \<Rightarrow> rnode \<Rightarrow> rnode \<times> event list \<times> error option"
  and unmountChildren ::
    "(error \<Rightarrow> error option) \<Rightarrow> bool \<Rightarrow> rnode list \<Rightarrow> rnode list \<times> event list \<times> error option"
where
  "unmountChildren pcatch dirty [] = ([], [], None)"
| "unmountChildren pcatch dirty (n # ns) =
     (case unmount pcatch dirty n of
        (n', es, Some e) \<Rightarrow> (n' # ns, es, Some e)
      | (n', es, None) \<Rightarrow>
          (case unmountChildren pcatch dirty ns of
             (ns', es', x) \<Rightarrow> (n' # ns', es @ es', x)))"
| "unmount pcatch dirty LeafN = (LeafN, [], None)"
| "unmount pcatch dirty (FragmentN f cs) =
     (if f_unmounted f then (FragmentN f cs, [], None)
      else (case unmountChildren pcatch dirty cs of
              (cs', es, x) \<Rightarrow> (FragmentN (f\<lparr>f_unmounted := True\<rparr>) cs', es, x)))"
| "unmount pcatch dirty (HostN h cs) =
     (if h_unmounted h then (HostN h cs, [], None)
      else
        (let h1 = (if \<not> h_finished h then h\<lparr>h_dirtyRemoval := dirty\<rparr> else h);
             ret = (if \<not> h_finished h
                    then (case h_iterator h of Some (Some r) \<Rightarrow> Some r | _ \<Rightarrow> None)
                    else None)
         in case ret of
              Some (ReturnThrows err) \<Rightarrow>
                (if h_root h then (HostN h1 cs, [Return (h_id h)], Some err)
                 else (HostN h1 cs, [Return (h_id h), Caught (h_id h) err], pcatch err))
            | _ \<Rightarrow>
                (case unmountChildren pcatch (h_tag h = Portal) cs of
                   (cs', es, x) \<Rightarrow>
                     (HostN (h1\<lparr>h_finished := True, h_unmounted := True\<rparr>) cs',
                      (if ret = None then [] else [Return (h_id h)]) @ es, x))))"
| "unmount pcatch dirty (ComponentN c cs) =
     (if c_unmounted c then (ComponentN c cs, [], None)
      else
        (let c1 = c\<lparr>c_updating := False, c_unmounted := True, c_cleanups := None\<rparr>;
             es1 = ClearEventListeners (c_id c)
                   # (case c_cleanups c of None \<Rightarrow> []
                      | Some cbs \<Rightarrow> map (Cleanup (c_id c)) cbs)
         in if c_finished c then (ComponentN c1 cs, es1, None)
            else
              (let c2 = c1\<lparr>c_finished := True, c_onProps := False\<rparr>;
                   es2 = es1 @ (if c_onProps c then [OnProps (c_id c)] else []);
                   ret = (case c_iterator c of Some (Some r) \<Rightarrow> Some r | _ \<Rightarrow> None)
               in case ret of
                    Some (ReturnThrows err) \<Rightarrow>
                      (ComponentN c2 cs, es2 @ [Return (c_id c), Caught (c_id c) err],
                       pcatch err)
                  | Some ReturnResolves \<Rightarrow>
                      (ComponentN c2 cs, es2 @ [Return (c_id c), Deferred (c_id c)], None)
                  | Some (ReturnRejects err) \<Rightarrow>
                      (ComponentN c2 cs, es2 @ [Return (c_id c), Deferred (c_id c)], None)
                  | _ \<Rightarrow>
                      (case unmountChildren pcatch dirty cs of
                         (cs', es, x) \<Rightarrow>
                           (ComponentN c2 cs',
                            es2 @ (if ret = None then [] else [Return (c_id c)]) @ es, x)))))"

subsection \<open>The second variant: unmount\<close>

text \<open>
  The fields of an element that \<^verbatim>\<open>unmount\<close> reads or writes.  \<open>u_ctx\<close> holds when
  \<^verbatim>\<open>el.ctx\<close> is an object, \<open>u_onProps\<close> when the context holds a pending \<^verbatim>\<open>_onProps\<close>
  resolver, \<open>u_root\<close> when the element has no parent.
\<close>

record el_node =
  u_id :: nat
  u_tag :: tag
  u_key :: jsval
  u_flags :: "32 word"
  u_cleanups :: "nat list option"
  u_ctx :: bool
  u_onProps :: bool
  u_iterator :: "returned option option"
  u_root :: bool

text \<open>
  The tree of elements: \<^verbatim>\<open>el.children\<close> as the list of its entries (a single child is a
  list of one, and \<^verbatim>\<open>unmountChildren\<close> skips whatever is not an element).
\<close>

datatype enode = UndefinedE | TextE string | ElementE el_node "enode list"

fun is_component_tag :: "tag \<Rightarrow> bool" where
  "is_component_tag (ComponentTag f) = True"
| "is_component_tag t = False"

text \<open>
  \<^verbatim>\<open>unmount(renderer, el, dirty)\<close> and \<^verbatim>\<open>unmountChildren(renderer, el, dirty)\<close>, with the
  same result triple and the same \<open>pcatch\<close> as above (here the outcome of
  \<^verbatim>\<open>handle(renderer, el.parent, err)\<close>).  Calling \<^verbatim>\<open>handle\<close> on the missing parent of a
  component raises a TypeError.
\<close>

fun unmount2 ::
    "flag_consts \<Rightarrow> (error \<Rightarrow> error option) \<Rightarrow> bool \<Rightarrow> enode
      \<Rightarrow> enode \<times> event list \<times> error option"
  and unmountChildren2 ::
    "flag_consts \<Rightarrow> (error \<Rightarrow> error option) \<Rightarrow> bool \<Rightarrow> enode list
      \<Rightarrow> enode list \<times> event list \<times> error option"
where
  "unmountChildren2 F pcatch dirty [] = ([], [], None)"
| "unmountChildren2 F pcatch dirty (n # ns) =
     (case unmount2 F pcatch dirty n of
        (n', es, Some e) \<Rightarrow> (n' # ns, es, Some e)
      | (n', es, None) \<Rightarrow>
          (case unmountChildren2 F pcatch dirty ns of
             (ns', es', x) \<Rightarrow> (n' # ns', es @ es', x)))"
| "unmount2 F pcatch dirty UndefinedE = (UndefinedE, [], None)"
| "unmount2 F pcatch dirty (TextE s) = (TextE s, [], None)"
| "unmount2 F pcatch dirty (ElementE el cs) =
     (let es0 = (case u_cleanups el of None \<Rightarrow> []
                 | Some cbs \<Rightarrow> map (Cleanup (u_id el)) cbs);
          el0 = el\<lparr>u_cleanups := None\<rparr>
      in if has_flag (u_flags el0) (Unmounted F) then (ElementE el0 cs, es0, None)
         else
           (let el1 = el0\<lparr>u_flags := u_flags el0 OR Unmounted F\<rparr> in
            if has_flag (u_flags el1) (Finished F) then
              (case unmountChildren2 F pcatch dirty cs of
                 (cs', es, x) \<Rightarrow>
                   (ElementE (el1\<lparr>u_flags := u_flags el1 AND NOT (Updating F)\<rparr>) cs',
                    es0 @ es, x))
            else
              (let el2 = el1\<lparr>u_flags := u_flags el1 OR Finished F,
                             u_onProps := (if u_ctx el1 then False else u_onProps el1)\<rparr>;
                   es1 = es0 @ (if u_ctx el1
                                then ClearEventListeners (u_id el)
                                     # (if u_onProps el1 then [OnProps (u_id el)] else [])
                                else []);
                   ret = (case u_iterator el of Some (Some r) \<Rightarrow> Some r | _ \<Rightarrow> None)
               in if u_tag el = Fragment then
                    (case unmountChildren2 F pcatch dirty cs of
                       (cs', es, x) \<Rightarrow>
                         (ElementE (el2\<lparr>u_flags := u_flags el2 AND NOT (Updating F)\<rparr>) cs',
                          es1 @ es, x))
                  else if is_component_tag (u_tag el) then
                    (case ret of
                       Some (ReturnThrows err) \<Rightarrow>
                         (ElementE el2 cs, es1 @ [Return (u_id el), Caught (u_id el) err],
                          if u_root el then Some TypeError else pcatch err)
                     | Some ReturnResolves \<Rightarrow>
                         (ElementE el2 cs, es1 @ [Return (u_id el), Deferred (u_id el)], None)
                     | Some (ReturnRejects err) \<Rightarrow>
                         (ElementE el2 cs, es1 @ [Return (u_id el), Deferred (u_id el)], None)
                     | _ \<Rightarrow>
                         (case unmountChildren2 F pcatch dirty cs of
                            (cs', es, x) \<Rightarrow>
                              (ElementE (el2\<lparr>u_flags := u_flags el2 AND NOT (Updating F)\<rparr>)
                                 cs',
                               es1 @ (if ret = None then [] else [Return (u_id el)]) @ es, x)))
                  else
                    (let el3 = el2\<lparr>u_flags := (if dirty then u_flags el2 OR Removing F
                                                 else u_flags el2 AND NOT (Removing F))\<rparr>
                     in case ret of
                          Some (ReturnThrows err) \<Rightarrow>
                            (if u_root el then (ElementE el3 cs, es1 @ [Return (u_id el)], Some err)
                             else (ElementE el3 cs,
                                   es1 @ [Return (u_id el), Caught (u_id el) err], pcatch err))
                        | _ \<Rightarrow>
                            (case unmountChildren2 F pcatch (u_tag el = Portal) cs of
                               (cs', es, x) \<Rightarrow>
                                 (ElementE
                                    (el3\<lparr>u_flags := u_flags el3 AND NOT (Updating F)\<rparr>) cs',
                                  es1 @ (if ret = None then [] else [Return (u_id el)]) @ es,
                                  x))))))"


section \<open>Clearing a root\<close>

subsection \<open>\<^verbatim>\<open>src/index.ts\<close>: render(null, root)\<close>

fun node_key :: "rnode \<Rightarrow> jsval" where
  "node_key LeafN = JUndefined"
| "node_key (FragmentN f cs) = f_key f"
| "node_key (HostN h cs) = h_key h"
| "node_key (ComponentN c cs) = c_key c"

fun node_id :: "rnode \<Rightarrow> nat option" where
  "node_id LeafN = None"
| "node_id (FragmentN f cs) = Some (f_id f)"
| "node_id (HostN h cs) = Some (h_id h)"
| "node_id (ComponentN c cs) = Some (c_id c)"

text \<open>
  The first trimming loop of \<^verbatim>\<open>updateChildren\<close>, from the cursor to the end of the sibling
  list: a node without a key is unmounted (with the default \<^verbatim>\<open>dirty = true\<close>) and removed,
  a node with a key stays.  The result is the remaining siblings and the unmounted nodes.
\<close>

fun trim_unkeyed ::
  "(error \<Rightarrow> error option) \<Rightarrow> rnode list
    \<Rightarrow> (rnode list \<times> rnode list) \<times> event list \<times> error option" where
  "trim_unkeyed pcatch [] = (([], []), [], None)"
| "trim_unkeyed pcatch (n # ns) =
     (if node_key n = JUndefined then
        (case unmount pcatch True n of
           (n', es, Some e) \<Rightarrow> ((n' # ns, []), es, Some e)
         | (n', es, None) \<Rightarrow>
             (case trim_unkeyed pcatch ns of
                ((keep, gone), es', x) \<Rightarrow> ((keep, n' # gone), es @ es', x)))
      else
        (case trim_unkeyed pcatch ns of
           ((keep, gone), es', x) \<Rightarrow> ((n # keep, gone), es', x)))"

text \<open>
  The second loop, over the values of the previous \<^verbatim>\<open>keyedChildren\<close> map that no new
  child has claimed: each is unmounted and removed.  The map is the list of its entries, a
  value being the identity of a node of the sibling list.
\<close>

fun trim_keyed ::
  "(error \<Rightarrow> error option) \<Rightarrow> nat list \<Rightarrow> rnode list
    \<Rightarrow> (rnode list \<times> rnode list) \<times> event list \<times> error option" where
  "trim_keyed pcatch [] siblings = ((siblings, []), [], None)"
| "trim_keyed pcatch (i # ids) siblings =
     (case filter (\<lambda>n. node_id n = Some i) siblings of
        [] \<Rightarrow> trim_keyed pcatch ids siblings
      | n # _ \<Rightarrow>
          (case unmount pcatch True n of
             (n', es, Some e) \<Rightarrow>
               ((map (\<lambda>m. if node_id m = Some i then n' else m) siblings, []), es, Some e)
           | (n', es, None) \<Rightarrow>
               (case trim_keyed pcatch ids (filter (\<lambda>m. node_id m \<noteq> Some i) siblings) of
                  ((keep, gone), es', x) \<Rightarrow> ((keep, n' # gone), es @ es', x))))"

text \<open>
  \<^verbatim>\<open>updateChildren(null)\<close> on a parent: \<^verbatim>\<open>flatten(null)\<close> yields nothing, so the cursor
  stays at \<^verbatim>\<open>firstChild\<close> and both trimming loops run over all the children.  The parent of
  the children is the root, which has no parent and no generator, so an error handed to it
  is raised.
\<close>

definition updateChildren_null ::
  "rnode list \<Rightarrow> (jsval \<times> nat) list
    \<Rightarrow> (rnode list \<times> rnode list) \<times> event list \<times> error option" where
  "updateChildren_null children keyedChildren =
     (case trim_unkeyed Some children of
        ((keep, gone), es, Some e) \<Rightarrow> ((keep, gone), es, Some e)
      | ((keep, gone), es, None) \<Rightarrow>
          (case trim_keyed Some (map snd keyedChildren) keep of
             ((keep', gone'), es', x) \<Rightarrow> ((keep', gone @ gone'), es @ es', x)))"

text \<open>
  A root node as the cache holds it: the host node of the Portal, its children and its
  \<^verbatim>\<open>keyedChildren\<close> map.
\<close>

record root_node =
  rn_host :: host_node
  rn_children :: "rnode list"
  rn_keyedChildren :: "(jsval \<times> nat) list"

text \<open>
  \<^verbatim>\<open>render(null, root)\<close> for a root object \<open>root\<close>.  The result is the cache, the root
  node after the call, the nodes taken out of the tree, the effects and the exception
  leaving the call, if any.  With no cached node for \<open>root\<close> a fresh root node is made and
  not cached.  The commits that follow the update call into the backend and are not part of
  the model; the root node itself is not unmounted, because \<^verbatim>\<open>portal.props.root\<close> is the
  given root.
\<close>

definition Renderer_render_null ::
  "(nat \<Rightarrow> root_node option) \<Rightarrow> nat
    \<Rightarrow> (nat \<Rightarrow> root_node option) \<times> root_node option \<times> rnode list \<times> event list \<times> error option"
  where
  "Renderer_render_null cache root =
     (case cache root of
        None \<Rightarrow> (cache, None, [], [], None)
      | Some rootNode \<Rightarrow>
          (case updateChildren_null (rn_children rootNode) (rn_keyedChildren rootNode) of
             ((keep, gone), es, x) \<Rightarrow>
               (cache(root := None),
                Some (rootNode\<lparr>rn_children := keep,
                               rn_keyedChildren := (if x = None then []
                                                    else rn_keyedChildren rootNode)\<rparr>),
                gone, es, x)))"

subsection \<open>The second variant: render(null, root)\<close>

fun enode_key :: "enode \<Rightarrow> jsval" where
  "enode_key (ElementE el cs) = u_key el"
| "enode_key n = JUndefined"

fun enode_id :: "enode \<Rightarrow> nat option" where
  "enode_id (ElementE el cs) = Some (u_id el)"
| "enode_id n = None"

fun is_element :: "enode \<Rightarrow> bool" where
  "is_element (ElementE el cs) = True"
| "is_element n = False"

text \<open>
  \<^verbatim>\<open>updateChildren\<close> with \<^verbatim>\<open>children = null\<close> runs its loop once, for the single new child
  \<^verbatim>\<open>null\<close>, which normalises to undefined: the old children with a key at the front are
  skipped, and the old child after them is unmounted if it is an element.  The trimming loop
  then unmounts every later element without a key, and the last loop every element left
  in \<^verbatim>\<open>childrenByKey\<close>.
\<close>

fun unmount_unkeyed ::
  "flag_consts \<Rightarrow> (error \<Rightarrow> error option) \<Rightarrow> enode list
    \<Rightarrow> enode list \<times> event list \<times> error option" where
  "unmount_unkeyed F pcatch [] = ([], [], None)"
| "unmount_unkeyed F pcatch (n # ns) =
     (if is_element n \<and> enode_key n = JUndefined then
        (case unmount2 F pcatch True n of
           (n', es, Some e) \<Rightarrow> (n' # ns, es, Some e)
         | (n', es, None) \<Rightarrow>
             (case unmount_unkeyed F pcatch ns of
                (ns', es', x) \<Rightarrow> (n' # ns', es @ es', x)))
      else
        (case unmount_unkeyed F pcatch ns of
           (ns', es', x) \<Rightarrow> (n # ns', es', x)))"

fun unmount_keyed ::
  "flag_consts \<Rightarrow> (error \<Rightarrow> error option) \<Rightarrow> nat list \<Rightarrow> enode list
    \<Rightarrow> enode list \<times> event list \<times> error option" where
  "unmount_keyed F pcatch [] old = (old, [], None)"
| "unmount_keyed F pcatch (i # ids) old =
     (case filter (\<lambda>n. enode_id n = Some i) old of
        [] \<Rightarrow> unmount_keyed F pcatch ids old
      | n # _ \<Rightarrow>
          (case unmount2 F pcatch True n of
             (n', es, x) \<Rightarrow>
               (let old' = map (\<lambda>m. if enode_id m = Some i then n' else m) old in
                if x \<noteq> None then (old', es, x)
                else (case unmount_keyed F pcatch ids old' of
                        (old'', es', x') \<Rightarrow> (old'', es @ es', x')))))"

text \<open>
  The old children after the call (they are no longer children of the root, whose
  \<^verbatim>\<open>children\<close> become undefined), the effects and the exception.
\<close>

definition updateChildren2_null ::
  "flag_consts \<Rightarrow> enode list \<Rightarrow> (jsval \<times> nat) list
    \<Rightarrow> enode list \<times> event list \<times> error option" where
  "updateChildren2_null F old childrenByKey =
     (case unmount_unkeyed F Some old of
        (old', es, Some e) \<Rightarrow> (old', es, Some e)
      | (old', es, None) \<Rightarrow>
          (case unmount_keyed F Some (map snd childrenByKey) old' of
             (old'', es', x) \<Rightarrow> (old'', es @ es', x)))"

record root_element =
  re_el :: el_node
  re_children :: "enode list"
  re_childrenByKey :: "(jsval \<times> nat) list"

definition render2_null ::
  "flag_consts \<Rightarrow> (nat \<Rightarrow> root_element option) \<Rightarrow> nat
    \<Rightarrow> (nat \<Rightarrow> root_element option) \<times> enode list \<times> event list \<times> error option" where
  "render2_null F cache root =
     (case cache root of
        None \<Rightarrow> (cache, [], [], None)
      | Some oldChild \<Rightarrow>
          (case updateChildren2_null F (re_children oldChild) (re_childrenByKey oldChild) of
             (old, es, x) \<Rightarrow> (cache(root := None), old, es, x)))"

subsection \<open>Two retained trees\<close>

text \<open>
  The tree that rendering \<^verbatim>\<open><P/>\<close> leaves below the root, for the sync generator components
  \<^verbatim>\<open>function* P() { return <C/>; }\<close> and \<^verbatim>\<open>function* C() { while (true) yield "x"; }\<close>:
  the first step of \<open>P\<close> returns an iteration that is done, so \<open>P\<close> is finished, and its
  child \<open>C\<close> holds a live generator.  Node 1 is \<open>P\<close>, node 2 is \<open>C\<close>; the text child of \<open>C\<close>
  is a leaf.
\<close>

definition finished_parent :: rnode where
  "finished_parent =
     ComponentN
       \<lparr>c_id = 1, c_key = JUndefined, c_updating = False, c_unmounted = False,
        c_finished = True, c_onProps = False, c_cleanups = None,
        c_iterator = Some (Some ReturnDone)\<rparr>
       [ComponentN
          \<lparr>c_id = 2, c_key = JUndefined, c_updating = False, c_unmounted = False,
           c_finished = False, c_onProps = False, c_cleanups = None,
           c_iterator = Some (Some ReturnDone)\<rparr>
          [LeafN]]"

definition finished_parent2 :: enode where
  "finished_parent2 =
     ElementE
       \<lparr>u_id = 1, u_tag = ComponentTag 0, u_key = JUndefined,
        u_flags = Mounted flags0 OR SyncGen flags0 OR Finished flags0,
        u_cleanups = None, u_ctx = True, u_onProps = False,
        u_iterator = Some (Some ReturnDone), u_root = False\<rparr>
       [ElementE
          \<lparr>u_id = 2, u_tag = ComponentTag 1, u_key = JUndefined,
           u_flags = Mounted flags0 OR SyncGen flags0,
           u_cleanups = None, u_ctx = True, u_onProps = False,
           u_iterator = Some (Some ReturnDone), u_root = False\<rparr>
          [TextE ''x'']]"

text \<open>The root nodes that hold these trees, as the cache has them for the root object 0.\<close>

definition root_of :: "rnode list \<Rightarrow> (jsval \<times> nat) list \<Rightarrow> nat \<Rightarrow> root_node option" where
  "root_of children keyed =
     (\<lambda>r. None)(0 := Some
        \<lparr>rn_host = \<lparr>h_id = 0, h_key = JUndefined, h_tag = Portal, h_root = True,
                     h_unmounted = False, h_finished = False, h_dirtyRemoval = True,
                     h_iterator = None\<rparr>,
         rn_children = children, rn_keyedChildren = keyed\<rparr>)"

definition root_of2 ::
  "enode list \<Rightarrow> (jsval \<times> nat) list \<Rightarrow> nat \<Rightarrow> root_element option" where
  "root_of2 children keyed =
     (\<lambda>r. None)(0 := Some
        \<lparr>re_el = \<lparr>u_id = 0, u_tag = Portal, u_key = JUndefined, u_flags = Mounted flags0,
                   u_cleanups = None, u_ctx = False, u_onProps = False,
                   u_iterator = None, u_root = True\<rparr>,
         re_children = children, re_childrenByKey = keyed\<rparr>)"

section \<open>Promises\<close>

text \<open>
  The reconciler has no scheduler of its own: its overlapping updates are arbitrated by
  promise chaining.  A promise is an identifier in a store.  The store keeps, for each
  promise, whether and how it has settled, the reactions registered on the promises still
  pending, and the queue of reaction jobs that the host runs one at a time after the
  current call returns.  What a reaction does is given by the code that registers it, so
  its type is a parameter here.
\<close>

type_synonym pid = nat

datatype payload = NoValue | Child jsval | Iter iteration

datatype settlement = Fulfilled payload | Rejected error

record 'r pstore =
  settled :: "pid \<Rightarrow> settlement option"
  reactions :: "(pid \<times> 'r) list"
  queue :: "('r \<times> settlement) list"
  next_pid :: pid

text \<open>A new pending promise.\<close>

definition new_promise :: "'r pstore \<Rightarrow> pid \<times> 'r pstore" where
  "new_promise st = (next_pid st, st\<lparr>next_pid := Suc (next_pid st)\<rparr>)"

text \<open>
  \<^verbatim>\<open>p.then(...)\<close>, \<^verbatim>\<open>p.catch(...)\<close>, \<^verbatim>\<open>p.finally(...)\<close>: the reaction waits for \<open>p\<close>, or is
  queued at once with the outcome of \<open>p\<close> when \<open>p\<close> has settled.
\<close>

definition subscribe :: "pid \<Rightarrow> 'r \<Rightarrow> 'r pstore \<Rightarrow> 'r pstore" where
  "subscribe p r st =
     (case settled st p of
        None \<Rightarrow> st\<lparr>reactions := reactions st @ [(p, r)]\<rparr>
      | Some out \<Rightarrow> st\<lparr>queue := queue st @ [(r, out)]\<rparr>)"

text \<open>
  A pending promise settles: its reactions are queued in the order of their registration.
  Settling a settled promise does nothing.
\<close>

definition settle :: "pid \<Rightarrow> settlement \<Rightarrow> 'r pstore \<Rightarrow> 'r pstore" where
  "settle p out st =
     (case settled st p of
        Some old \<Rightarrow> st
      | None \<Rightarrow>
          st\<lparr>settled := (settled st)(p := Some out),
             queue := queue st @ map (\<lambda>qr. (snd qr, out)) (filter (\<lambda>qr. fst qr = p) (reactions st)),
             reactions := filter (\<lambda>qr. fst qr \<noteq> p) (reactions st)\<rparr>)"

text \<open>
  \<^verbatim>\<open>resolve(x)\<close> of a promise \<open>q\<close>, for an \<open>x\<close> that is undefined or a promise: \<open>q\<close> is
  fulfilled, or follows \<open>x\<close> through the forwarding reaction \<open>fwd q\<close>.
\<close>

definition resolve :: "(pid \<Rightarrow> 'r) \<Rightarrow> pid \<Rightarrow> pid option \<Rightarrow> 'r pstore \<Rightarrow> 'r pstore" where
  "resolve fwd q x st =
     (case x of
        None \<Rightarrow> settle q (Fulfilled NoValue) st
      | Some p \<Rightarrow> subscribe p (fwd q) st)"

text \<open>\<^verbatim>\<open>p.then(f)\<close> and its like: a new promise, and the reaction that will settle it.\<close>

definition derive :: "pid \<Rightarrow> (pid \<Rightarrow> 'r) \<Rightarrow> 'r pstore \<Rightarrow> pid \<times> 'r pstore" where
  "derive p react st =
     (let (q, st1) = new_promise st in (q, subscribe p (react q) st1))"

section \<open>The component scheduler\<close>

datatype ctype = SyncFn | AsyncFn | SyncGen | AsyncGen

text \<open>
  The callbacks that the scheduler registers on promises, one constructor for each
  \<^verbatim>\<open>then\<close>, \<^verbatim>\<open>catch\<close> or \<^verbatim>\<open>finally\<close> in the code; the promise each carries is the one that
  the registration returns.

  \<^item> \<open>Forward\<close>: a promise resolved with another promise takes its outcome.
  \<^item> \<open>Void\<close>: \<^verbatim>\<open>p.then(() => undefined, () => undefined)\<close>.
  \<^item> \<open>Finally_advance\<close>: \<^verbatim>\<open>p.finally(() => this.advance())\<close>.
  \<^item> \<open>Enqueued_step r t\<close>: the callback of \<^verbatim>\<open>inflightPending.then\<close> in \<^verbatim>\<open>run\<close>, which steps
    the component, resolves the promise \<open>r\<close> (\<^verbatim>\<open>enqueuedResult\<close>) and returns \<^verbatim>\<open>pending\<close>.
  \<^item> \<open>Fn_result\<close>: \<^verbatim>\<open>value1.then((child) => updateChildren(child), (err) => parent.catch(err))\<close>.
  \<^item> \<open>Gen_catch\<close>, \<open>Done_iteration\<close>, \<open>Gen_result\<close>: the three callbacks on the promise of an
    async generator's \<^verbatim>\<open>next\<close>.
  \<^item> \<open>Old_value\<close>: \<^verbatim>\<open>oldResult.then(() => this.value)\<close>; \<open>Old_result\<close>:
    \<^verbatim>\<open>result.catch(() => undefined)\<close>.
  \<^item> \<open>Refresh_commit\<close>: \<^verbatim>\<open>result.then(() => this.commit())\<close> in \<^verbatim>\<open>refresh\<close>.
  \<^item> \<open>Advance_catch\<close>: the \<^verbatim>\<open>catch\<close> in \<^verbatim>\<open>advance\<close>, which rethrows unless the node is
    updating.
\<close>

datatype reaction =
    Forward pid
  | Void pid
  | Finally_advance pid
  | Enqueued_step pid pid
  | Fn_result pid
  | Gen_catch pid
  | Done_iteration pid
  | Gen_result pid
  | Old_value pid
  | Old_result pid
  | Refresh_commit pid
  | Advance_catch pid

text \<open>
  What the scheduler calls into and cannot see: the user's component function and the
  iterator it returns, the reconciliation of the component's children, and the parent's
  \<^verbatim>\<open>catch\<close>.  Each is given by what its k-th call does.  A call that returns a promise
  returns a new pending promise, which the host settles later.
\<close>

datatype call_result = Call_throws error | Call_iterator | Call_promise | Call_value jsval

datatype next_result = Next_throws error | Next_iteration iteration | Next_promise

datatype catch_result = Catch_returns | Catch_promise | Catch_raises error

record env =
  e_call :: "nat \<Rightarrow> call_result"
  e_next :: "nat \<Rightarrow> next_result"
  e_update :: "nat \<Rightarrow> bool"
  e_catch :: "nat \<Rightarrow> catch_result"

text \<open>The calls out of the scheduler, in order.\<close>

datatype sevent =
    Called
  | Nexted
  | Updated jsval
  | Committed
  | Parent_catch error
  | Props_delivered
  | Listeners_cleared

subsection \<open>\<^verbatim>\<open>src/index.ts\<close>: ComponentNode\<close>

text \<open>
  The scheduling state of a component node.  \<open>iterator\<close> holds when \<^verbatim>\<open>this.iterator\<close> is
  defined and \<open>onProps\<close> when a resolver is stored in \<^verbatim>\<open>this.onProps\<close>; \<open>calls\<close>, \<open>nexts\<close>,
  \<open>updates\<close> and \<open>catches\<close> count the calls out, and \<open>trace\<close> lists them.
\<close>

record cstate =
  iterating :: bool
  finished :: bool
  stepping :: bool
  available :: bool
  unmounted :: bool
  updating :: bool
  iterator :: bool
  oldResult :: "pid option"
  componentType :: "ctype option"
  inflightPending :: "pid option"
  enqueuedPending :: "pid option"
  inflightResult :: "pid option"
  enqueuedResult :: "pid option"
  onProps :: bool
  calls :: nat
  nexts :: nat
  updates :: nat
  catches :: nat
  trace :: "sevent list"
  store :: "reaction pstore"

text \<open>\<^verbatim>\<open>this.updateChildren(child)\<close>: undefined, or a promise.\<close>

definition update_children :: "env \<Rightarrow> jsval \<Rightarrow> cstate \<Rightarrow> pid option \<times> cstate" where
  "update_children E v s =
     (let s1 = s\<lparr>updates := Suc (updates s), trace := trace s @ [Updated v]\<rparr> in
      if e_update E (updates s)
      then (let (p, st) = new_promise (store s1) in (Some p, s1\<lparr>store := st\<rparr>))
      else (None, s1))"

text \<open>\<^verbatim>\<open>this.parent.catch(err)\<close>: undefined, a promise, or an exception.\<close>

definition parent_catch :: "env \<Rightarrow> error \<Rightarrow> cstate \<Rightarrow> (error + pid option) \<times> cstate" where
  "parent_catch E err s =
     (let s1 = s\<lparr>catches := Suc (catches s), trace := trace s @ [Parent_catch err]\<rparr> in
      case e_catch E (catches s) of
        Catch_returns \<Rightarrow> (Inr None, s1)
      | Catch_promise \<Rightarrow> (let (p, st) = new_promise (store s1) in (Inr (Some p), s1\<lparr>store := st\<rparr>))
      | Catch_raises e \<Rightarrow> (Inl e, s1))"

text \<open>
  The second half of \<^verbatim>\<open>step\<close>, from \<^verbatim>\<open>const oldValue = ...\<close>: the iterator is resumed.
\<close>

definition resume :: "env \<Rightarrow> cstate \<Rightarrow> (error + pid option \<times> pid option) \<times> cstate" where
  "resume E s =
     (let s1 = (case oldResult s of
                  None \<Rightarrow> s
                | Some old \<Rightarrow>
                    (let (q, st) = derive old Old_value (store s) in s\<lparr>store := st\<rparr>));
          s2 = s1\<lparr>oldResult := None, nexts := Suc (nexts s1), trace := trace s1 @ [Nexted]\<rparr>
      in case e_next E (nexts s) of
           Next_throws err \<Rightarrow>
             (case parent_catch E err s2 of
                (Inl e, s3) \<Rightarrow> (Inl e, s3)
              | (Inr caught, s3) \<Rightarrow> (Inr (caught, caught), s3))
         | Next_promise \<Rightarrow>
             (let s3 = s2\<lparr>stepping := False, componentType := Some AsyncGen\<rparr>;
                  (iteration, st1) = new_promise (store s3);
                  (iteration1, st2) = derive iteration Gen_catch st1;
                  (pending, st3) = derive iteration1 Void st2;
                  (result, st4) = derive iteration1 Gen_result st3
              in (Inr (Some pending, Some result), s3\<lparr>store := st4\<rparr>))
         | Next_iteration iteration \<Rightarrow>
             (let s3 = s2\<lparr>stepping := False, iterating := False,
                          componentType := Some SyncGen,
                          finished := (finished s2 \<or> it_done iteration)\<rparr>;
                  (result, s4) = update_children E (it_value iteration) s3
              in (Inr (result, result), s4)))"

text \<open>\<^verbatim>\<open>step()\<close>: the pair \<^verbatim>\<open>[pending, result]\<close>, or the exception that leaves the call.\<close>

definition ComponentNode_step ::
  "env \<Rightarrow> cstate \<Rightarrow> (error + pid option \<times> pid option) \<times> cstate" where
  "ComponentNode_step E s =
     (if finished s then (Inr (None, None), s)
      else
        (let s1 = s\<lparr>stepping := True\<rparr> in
         if \<not> iterator s1 then
           (let s2 = s1\<lparr>calls := Suc (calls s1),
                        trace := trace s1 @ [Listeners_cleared, Called]\<rparr>
            in case e_call E (calls s) of
                 Call_throws err \<Rightarrow>
                   (case parent_catch E err s2 of
                      (Inl e, s3) \<Rightarrow> (Inl e, s3)
                    | (Inr caught, s3) \<Rightarrow> (Inr (None, caught), s3))
               | Call_iterator \<Rightarrow> resume E (s2\<lparr>iterator := True\<rparr>)
               | Call_promise \<Rightarrow>
                   (let s3 = s2\<lparr>componentType := Some AsyncFn\<rparr>;
                        (value1, st1) = new_promise (store s3);
                        (pending, st2) = derive value1 Void st1;
                        (result, st3) = derive value1 Fn_result st2
                    in (Inr (Some pending, Some result),
                        s3\<lparr>store := st3, stepping := False\<rparr>))
               | Call_value v \<Rightarrow>
                   (let (result, s3) = update_children E v (s2\<lparr>componentType := Some SyncFn\<rparr>)
                    in (Inr (None, result), s3\<lparr>stepping := False\<rparr>)))
         else resume E s1))"

text \<open>\<^verbatim>\<open>run()\<close>\<close>

definition ComponentNode_run :: "env \<Rightarrow> cstate \<Rightarrow> (error + pid option) \<times> cstate" where
  "ComponentNode_run E s =
     (case inflightPending s of
        None \<Rightarrow>
          (case ComponentNode_step E s of
             (Inl e, s1) \<Rightarrow> (Inl e, s1)
           | (Inr (pending, result), s1) \<Rightarrow>
               (let s2 = (case pending of
                            None \<Rightarrow> s1
                          | Some p \<Rightarrow>
                              (let (q, st) = derive p Finally_advance (store s1)
                               in s1\<lparr>store := st, inflightPending := Some q\<rparr>))
                in (Inr result, s2\<lparr>inflightResult := result\<rparr>)))
      | Some inflight \<Rightarrow>
          if componentType s = Some AsyncGen then (Inr (inflightResult s), s)
          else if enqueuedPending s = None then
            (let (t, st1) = new_promise (store s);
                 (f, st2) = new_promise st1;
                 (r, st3) = new_promise st2;
                 st4 = subscribe inflight (Enqueued_step r t) st3;
                 st5 = subscribe t (Finally_advance f) st4
             in (Inr (Some r),
                 s\<lparr>store := st5, enqueuedPending := Some f, enqueuedResult := Some r\<rparr>))
          else (Inr (enqueuedResult s), s))"

text \<open>
  \<^verbatim>\<open>advance()\<close>.  For an async generator that is not finished it calls \<^verbatim>\<open>run()\<close> and
  \<^verbatim>\<open>catch\<close> on what that returns, which is a TypeError when \<^verbatim>\<open>run()\<close> returns undefined.
\<close>

definition ComponentNode_advance :: "env \<Rightarrow> cstate \<Rightarrow> error option \<times> cstate" where
  "ComponentNode_advance E s =
     (let s1 = s\<lparr>inflightPending := enqueuedPending s, inflightResult := enqueuedResult s,
                  enqueuedPending := None, enqueuedResult := None\<rparr>
      in if componentType s1 = Some AsyncGen \<and> \<not> finished s1 then
           (case ComponentNode_run E s1 of
              (Inl e, s2) \<Rightarrow> (Some e, s2)
            | (Inr None, s2) \<Rightarrow> (Some TypeError, s2)
            | (Inr (Some r), s2) \<Rightarrow>
                (let (q, st) = derive r Advance_catch (store s2) in (None, s2\<lparr>store := st\<rparr>)))
         else (None, s1))"

text \<open>The hand-over of props at the head of \<^verbatim>\<open>refresh\<close> and \<^verbatim>\<open>update\<close>.\<close>

definition deliver_props :: "cstate \<Rightarrow> cstate" where
  "deliver_props s =
     (if \<not> onProps s then s\<lparr>available := True\<rparr>
      else s\<lparr>onProps := False, trace := trace s @ [Props_delivered]\<rparr>)"

text \<open>\<^verbatim>\<open>refresh()\<close>\<close>

definition ComponentNode_refresh :: "env \<Rightarrow> cstate \<Rightarrow> (error + pid option) \<times> cstate" where
  "ComponentNode_refresh E s =
     (if stepping s \<or> unmounted s then (Inr None, s)
      else
        (case ComponentNode_run E (deliver_props s) of
           (Inl e, s1) \<Rightarrow> (Inl e, s1)
         | (Inr None, s1) \<Rightarrow> (Inr None, s1\<lparr>trace := trace s1 @ [Committed]\<rparr>)
         | (Inr (Some result), s1) \<Rightarrow>
             (let (q, st) = derive result Refresh_commit (store s1)
              in (Inr (Some q), s1\<lparr>store := st\<rparr>))))"

text \<open>\<^verbatim>\<open>update(props, ref)\<close>\<close>

definition ComponentNode_update :: "env \<Rightarrow> cstate \<Rightarrow> (error + pid option) \<times> cstate" where
  "ComponentNode_update E s = ComponentNode_run E (deliver_props (s\<lparr>updating := True\<rparr>))"

text \<open>The values a settled promise hands to the callbacks that read them.\<close>

fun child_of :: "payload \<Rightarrow> jsval" where
  "child_of (Child v) = v"
| "child_of p = JUndefined"

fun iteration_of :: "payload \<Rightarrow> iteration" where
  "iteration_of (Iter it) = it"
| "iteration_of p = Iteration JUndefined False"

definition done_iteration :: settlement where
  "done_iteration = Fulfilled (Iter (Iteration JUndefined True))"

text \<open>
  One reaction job: the callback runs with the outcome of the promise it was registered on,
  and the promise that the registration returned is settled by what the callback returns or
  raises.
\<close>

definition ComponentNode_job :: "env \<Rightarrow> reaction \<Rightarrow> settlement \<Rightarrow> cstate \<Rightarrow> cstate" where
  "ComponentNode_job E r out s =
     (case r of
        Forward q \<Rightarrow> s\<lparr>store := settle q out (store s)\<rparr>
      | Void q \<Rightarrow> s\<lparr>store := settle q (Fulfilled NoValue) (store s)\<rparr>
      | Finally_advance q \<Rightarrow>
          (case ComponentNode_advance E s of
             (Some e, s1) \<Rightarrow> s1\<lparr>store := settle q (Rejected e) (store s1)\<rparr>
           | (None, s1) \<Rightarrow> s1\<lparr>store := settle q out (store s1)\<rparr>)
      | Enqueued_step res t \<Rightarrow>
          (case out of
             Rejected e \<Rightarrow> s\<lparr>store := settle t (Rejected e) (store s)\<rparr>
           | Fulfilled v \<Rightarrow>
               (case ComponentNode_step E s of
                  (Inl e, s1) \<Rightarrow> s1\<lparr>store := settle t (Rejected e) (store s1)\<rparr>
                | (Inr (pending, result), s1) \<Rightarrow>
                    s1\<lparr>store := resolve Forward t pending
                                    (resolve Forward res result (store s1))\<rparr>))
      | Fn_result q \<Rightarrow>
          (case out of
             Fulfilled v \<Rightarrow>
               (let (result, s1) = update_children E (child_of v) s
                in s1\<lparr>store := resolve Forward q result (store s1)\<rparr>)
           | Rejected err \<Rightarrow>
               (case parent_catch E err s of
                  (Inl e, s1) \<Rightarrow> s1\<lparr>store := settle q (Rejected e) (store s1)\<rparr>
                | (Inr caught, s1) \<Rightarrow> s1\<lparr>store := resolve Forward q caught (store s1)\<rparr>))
      | Gen_catch c \<Rightarrow>
          (case out of
             Fulfilled v \<Rightarrow> s\<lparr>store := settle c out (store s)\<rparr>
           | Rejected err \<Rightarrow>
               (case parent_catch E err s of
                  (Inl e, s1) \<Rightarrow> s1\<lparr>store := settle c (Rejected e) (store s1)\<rparr>
                | (Inr None, s1) \<Rightarrow> s1\<lparr>store := settle c done_iteration (store s1)\<rparr>
                | (Inr (Some p), s1) \<Rightarrow>
                    s1\<lparr>store := subscribe p (Done_iteration c) (store s1)\<rparr>))
      | Done_iteration c \<Rightarrow>
          (case out of
             Fulfilled v \<Rightarrow> s\<lparr>store := settle c done_iteration (store s)\<rparr>
           | Rejected e \<Rightarrow> s\<lparr>store := settle c (Rejected e) (store s)\<rparr>)
      | Gen_result q \<Rightarrow>
          (case out of
             Rejected e \<Rightarrow> s\<lparr>store := settle q (Rejected e) (store s)\<rparr>
           | Fulfilled v \<Rightarrow>
               (let s1 = s\<lparr>iterating := False,
                            finished := (finished s \<or> it_done (iteration_of v))\<rparr>;
                    (result, s2) = update_children E (it_value (iteration_of v)) s1;
                    s3 = (case result of
                            None \<Rightarrow> s2
                          | Some p \<Rightarrow>
                              (let (old, st) = derive p Old_result (store s2)
                               in s2\<lparr>store := st, oldResult := Some old\<rparr>))
                in s3\<lparr>store := resolve Forward q result (store s3)\<rparr>))
      | Old_value q \<Rightarrow>
          (case out of
             Fulfilled v \<Rightarrow> s\<lparr>store := settle q (Fulfilled NoValue) (store s)\<rparr>
           | Rejected e \<Rightarrow> s\<lparr>store := settle q (Rejected e) (store s)\<rparr>)
      | Old_result q \<Rightarrow> s\<lparr>store := settle q (Fulfilled NoValue) (store s)\<rparr>
      | Refresh_commit q \<Rightarrow>
          (case out of
             Fulfilled v \<Rightarrow>
               s\<lparr>trace := trace s @ [Committed],
                 store := settle q (Fulfilled NoValue) (store s)\<rparr>
           | Rejected e \<Rightarrow> s\<lparr>store := settle q (Rejected e) (store s)\<rparr>)
      | Advance_catch q \<Rightarrow>
          (case out of
             Fulfilled v \<Rightarrow> s\<lparr>store := settle q out (store s)\<rparr>
           | Rejected err \<Rightarrow>
               if \<not> updating s then s\<lparr>store := settle q (Rejected err) (store s)\<rparr>
               else s\<lparr>store := settle q (Fulfilled NoValue) (store s)\<rparr>))"

text \<open>The host runs the first job of the queue, if there is one.\<close>

definition tick :: "env \<Rightarrow> cstate \<Rightarrow> cstate" where
  "tick E s =
     (case queue (store s) of
        [] \<Rightarrow> s
      | (r, out) # jobs \<Rightarrow> ComponentNode_job E r out (s\<lparr>store := (store s)\<lparr>queue := jobs\<rparr>\<rparr>))"

fun ticks :: "env \<Rightarrow> nat \<Rightarrow> cstate \<Rightarrow> cstate" where
  "ticks E 0 s = s"
| "ticks E (Suc n) s = ticks E n (tick E s)"

text \<open>The host settles a promise that the user's code or a child returned.\<close>

definition host_settles :: "pid \<Rightarrow> settlement \<Rightarrow> cstate \<Rightarrow> cstate" where
  "host_settles p out s = s\<lparr>store := settle p out (store s)\<rparr>"

text \<open>A component node as its constructor leaves it, with an empty promise store.\<close>

definition new_ComponentNode :: cstate where
  "new_ComponentNode =
     \<lparr>iterating = False, finished = False, stepping = False, available = False,
      unmounted = False, updating = False, iterator = False, oldResult = None,
      componentType = None, inflightPending = None, enqueuedPending = None,
      inflightResult = None, enqueuedResult = None, onProps = False,
      calls = 0, nexts = 0, updates = 0, catches = 0, trace = [],
      store = \<lparr>settled = (\<lambda>p. None), reactions = [], queue = [], next_pid = 0\<rparr>\<rparr>"

subsection \<open>The second variant: Context, run, step and advance\<close>

text \<open>
  The scheduling state of a component element and its context: the element's flags and
  whether it has an iterator, and the context's private fields.  The same callbacks are
  registered on promises as in the first variant; \<open>Refresh_commit\<close> is not used, because
  \<^verbatim>\<open>Context.refresh\<close> returns what \<^verbatim>\<open>run\<close> returns.
\<close>

record xstate =
  el_flags :: "32 word"
  el_iterator :: bool
  ctx_onProps :: bool
  ctx_oldResult :: "pid option"
  ctx_inflightPending :: "pid option"
  ctx_enqueuedPending :: "pid option"
  ctx_inflightResult :: "pid option"
  ctx_enqueuedResult :: "pid option"
  x_calls :: nat
  x_nexts :: nat
  x_updates :: nat
  x_catches :: nat
  x_trace :: "sevent list"
  x_store :: "reaction pstore"

text \<open>\<^verbatim>\<open>updateChildren(ctx.renderer, el, child, ctx)\<close>: undefined, or a promise.\<close>

definition update_children2 :: "env \<Rightarrow> jsval \<Rightarrow> xstate \<Rightarrow> pid option \<times> xstate" where
  "update_children2 E v s =
     (let s1 = s\<lparr>x_updates := Suc (x_updates s), x_trace := x_trace s @ [Updated v]\<rparr> in
      if e_update E (x_updates s)
      then (let (p, st) = new_promise (x_store s1) in (Some p, s1\<lparr>x_store := st\<rparr>))
      else (None, s1))"

text \<open>\<^verbatim>\<open>handle(ctx.renderer, el.parent, err)\<close>: undefined, a promise, or an exception.\<close>

definition parent_handle :: "env \<Rightarrow> error \<Rightarrow> xstate \<Rightarrow> (error + pid option) \<times> xstate" where
  "parent_handle E err s =
     (let s1 = s\<lparr>x_catches := Suc (x_catches s), x_trace := x_trace s @ [Parent_catch err]\<rparr> in
      case e_catch E (x_catches s) of
        Catch_returns \<Rightarrow> (Inr None, s1)
      | Catch_promise \<Rightarrow>
          (let (p, st) = new_promise (x_store s1) in (Inr (Some p), s1\<lparr>x_store := st\<rparr>))
      | Catch_raises e \<Rightarrow> (Inl e, s1))"

text \<open>The second half of \<^verbatim>\<open>step\<close>, from \<^verbatim>\<open>let oldValue\<close>.\<close>

definition resume2 ::
  "flag_consts \<Rightarrow> env \<Rightarrow> xstate \<Rightarrow> (error + pid option \<times> pid option) \<times> xstate" where
  "resume2 F E s =
     (let s1 = (case ctx_oldResult s of
                  None \<Rightarrow> s
                | Some old \<Rightarrow>
                    (let (q, st) = derive old Old_value (x_store s)
                     in s\<lparr>x_store := st, ctx_oldResult := None\<rparr>));
          s2 = s1\<lparr>x_nexts := Suc (x_nexts s1), x_trace := x_trace s1 @ [Nexted]\<rparr>
      in case e_next E (x_nexts s) of
           Next_throws err \<Rightarrow>
             (case parent_handle E err s2 of
                (Inl e, s3) \<Rightarrow> (Inl e, s3)
              | (Inr caught, s3) \<Rightarrow> (Inr (caught, caught), s3))
         | Next_promise \<Rightarrow>
             (let s3 = s2\<lparr>el_flags := (el_flags s2 AND NOT (Stepping F)) OR flag_consts.AsyncGen F\<rparr>;
                  (iteration, st1) = new_promise (x_store s3);
                  (iteration1, st2) = derive iteration Gen_catch st1;
                  (pending, st3) = derive iteration1 Void st2;
                  (result, st4) = derive iteration1 Gen_result st3
              in (Inr (Some pending, Some result), s3\<lparr>x_store := st4\<rparr>))
         | Next_iteration iteration \<Rightarrow>
             (let fl1 = ((el_flags s2 AND NOT (Stepping F)) AND NOT (Iterating F)) OR flag_consts.SyncGen F;
                  s3 = s2\<lparr>el_flags := (if it_done iteration then fl1 OR Finished F else fl1)\<rparr>;
                  (result, s4) = update_children2 E (it_value iteration) s3
              in (Inr (result, result), s4)))"

text \<open>\<^verbatim>\<open>step(ctx)\<close>\<close>

definition step ::
  "flag_consts \<Rightarrow> env \<Rightarrow> xstate \<Rightarrow> (error + pid option \<times> pid option) \<times> xstate" where
  "step F E s =
     (if has_flag (el_flags s) (Finished F) then (Inr (None, None), s)
      else
        (let s1 = s\<lparr>el_flags := el_flags s OR Stepping F\<rparr> in
         if \<not> el_iterator s1 then
           (let s2 = s1\<lparr>x_calls := Suc (x_calls s1),
                        x_trace := x_trace s1 @ [Listeners_cleared, Called]\<rparr>
            in case e_call E (x_calls s) of
                 Call_throws err \<Rightarrow>
                   (case parent_handle E err s2 of
                      (Inl e, s3) \<Rightarrow> (Inl e, s3)
                    | (Inr caught, s3) \<Rightarrow> (Inr (None, caught), s3))
               | Call_iterator \<Rightarrow> resume2 F E (s2\<lparr>el_iterator := True\<rparr>)
               | Call_promise \<Rightarrow>
                   (let (value1, st1) = new_promise (x_store s2);
                        (pending, st2) = derive value1 Void st1;
                        (result, st3) = derive value1 Fn_result st2
                    in (Inr (Some pending, Some result),
                        s2\<lparr>x_store := st3, el_flags := el_flags s2 AND NOT (Stepping F)\<rparr>))
               | Call_value v \<Rightarrow>
                   (let (result, s3) = update_children2 E v s2
                    in (Inr (None, result),
                        s3\<lparr>el_flags := el_flags s3 AND NOT (Stepping F)\<rparr>)))
         else resume2 F E s1))"

text \<open>\<^verbatim>\<open>run(ctx)\<close>\<close>

definition run :: "flag_consts \<Rightarrow> env \<Rightarrow> xstate \<Rightarrow> (error + pid option) \<times> xstate" where
  "run F E s =
     (case ctx_inflightPending s of
        None \<Rightarrow>
          (case step F E s of
             (Inl e, s1) \<Rightarrow> (Inl e, s1)
           | (Inr (pending, result), s1) \<Rightarrow>
               (let s2 = (case pending of
                            None \<Rightarrow> s1
                          | Some p \<Rightarrow>
                              (let (q, st) = derive p Finally_advance (x_store s1)
                               in s1\<lparr>x_store := st, ctx_inflightPending := Some q\<rparr>));
                    s3 = (case result of
                            None \<Rightarrow> s2
                          | Some r \<Rightarrow> s2\<lparr>ctx_inflightResult := Some r\<rparr>)
                in (Inr result, s3)))
      | Some inflight \<Rightarrow>
          if has_flag (el_flags s) (flag_consts.AsyncGen F) then (Inr (ctx_inflightResult s), s)
          else if ctx_enqueuedPending s = None then
            (let (t, st1) = new_promise (x_store s);
                 (f, st2) = new_promise st1;
                 (r, st3) = new_promise st2;
                 st4 = subscribe inflight (Enqueued_step r t) st3;
                 st5 = subscribe t (Finally_advance f) st4
             in (Inr (Some r),
                 s\<lparr>x_store := st5, ctx_enqueuedPending := Some f,
                   ctx_enqueuedResult := Some r\<rparr>))
          else (Inr (ctx_enqueuedResult s), s))"

text \<open>\<^verbatim>\<open>advance(ctx)\<close>\<close>

definition advance :: "flag_consts \<Rightarrow> env \<Rightarrow> xstate \<Rightarrow> error option \<times> xstate" where
  "advance F E s =
     (let s1 = s\<lparr>ctx_inflightPending := ctx_enqueuedPending s,
                  ctx_inflightResult := ctx_enqueuedResult s,
                  ctx_enqueuedPending := None, ctx_enqueuedResult := None\<rparr>
      in if has_flag (el_flags s1) (flag_consts.AsyncGen F) \<and> \<not> has_flag (el_flags s1) (Finished F) then
           (case run F E s1 of
              (Inl e, s2) \<Rightarrow> (Some e, s2)
            | (Inr None, s2) \<Rightarrow> (Some TypeError, s2)
            | (Inr (Some r), s2) \<Rightarrow>
                (let (q, st) = derive r Advance_catch (x_store s2)
                 in (None, s2\<lparr>x_store := st\<rparr>)))
         else (None, s1))"

text \<open>\<^verbatim>\<open>Context.refresh()\<close>\<close>

definition Context_refresh ::
  "flag_consts \<Rightarrow> env \<Rightarrow> xstate \<Rightarrow> (error + pid option) \<times> xstate" where
  "Context_refresh F E s =
     (if has_flag (el_flags s) (Stepping F OR Unmounted F) then (Inr None, s)
      else
        run F E
          (if ctx_onProps s
           then s\<lparr>ctx_onProps := False, x_trace := x_trace s @ [Props_delivered]\<rparr>
           else s\<lparr>el_flags := el_flags s OR Available F\<rparr>))"

text \<open>\<^verbatim>\<open>update(renderer, el, ctx)\<close> for a component element, whose \<^verbatim>\<open>el.ctx\<close> is an object.\<close>

definition update :: "flag_consts \<Rightarrow> env \<Rightarrow> xstate \<Rightarrow> (error + pid option) \<times> xstate" where
  "update F E s = Context_refresh F E (s\<lparr>el_flags := el_flags s OR Updating F\<rparr>)"

text \<open>One reaction job of the second variant.\<close>

definition job :: "flag_consts \<Rightarrow> env \<Rightarrow> reaction \<Rightarrow> settlement \<Rightarrow> xstate \<Rightarrow> xstate" where
  "job F E r out s =
     (case r of
        Forward q \<Rightarrow> s\<lparr>x_store := settle q out (x_store s)\<rparr>
      | Void q \<Rightarrow> s\<lparr>x_store := settle q (Fulfilled NoValue) (x_store s)\<rparr>
      | Finally_advance q \<Rightarrow>
          (case advance F E s of
             (Some e, s1) \<Rightarrow> s1\<lparr>x_store := settle q (Rejected e) (x_store s1)\<rparr>
           | (None, s1) \<Rightarrow> s1\<lparr>x_store := settle q out (x_store s1)\<rparr>)
      | Enqueued_step res t \<Rightarrow>
          (case out of
             Rejected e \<Rightarrow> s\<lparr>x_store := settle t (Rejected e) (x_store s)\<rparr>
           | Fulfilled v \<Rightarrow>
               (case step F E s of
                  (Inl e, s1) \<Rightarrow> s1\<lparr>x_store := settle t (Rejected e) (x_store s1)\<rparr>
                | (Inr (pending, result), s1) \<Rightarrow>
                    s1\<lparr>x_store := resolve Forward t pending
                                      (resolve Forward res result (x_store s1))\<rparr>))
      | Fn_result q \<Rightarrow>
          (case out of
             Fulfilled v \<Rightarrow>
               (let (result, s1) = update_children2 E (child_of v) s
                in s1\<lparr>x_store := resolve Forward q result (x_store s1)\<rparr>)
           | Rejected err \<Rightarrow>
               (case parent_handle E err s of
                  (Inl e, s1) \<Rightarrow> s1\<lparr>x_store := settle q (Rejected e) (x_store s1)\<rparr>
                | (Inr caught, s1) \<Rightarrow>
                    s1\<lparr>x_store := resolve Forward q caught (x_store s1)\<rparr>))
      | Gen_catch c \<Rightarrow>
          (case out of
             Fulfilled v \<Rightarrow> s\<lparr>x_store := settle c out (x_store s)\<rparr>
           | Rejected err \<Rightarrow>
               (case parent_handle E err s of
                  (Inl e, s1) \<Rightarrow> s1\<lparr>x_store := settle c (Rejected e) (x_store s1)\<rparr>
                | (Inr None, s1) \<Rightarrow> s1\<lparr>x_store := settle c done_iteration (x_store s1)\<rparr>
                | (Inr (Some p), s1) \<Rightarrow>
                    s1\<lparr>x_store := subscribe p (Done_iteration c) (x_store s1)\<rparr>))
      | Done_iteration c \<Rightarrow>
          (case out of
             Fulfilled v \<Rightarrow> s\<lparr>x_store := settle c done_iteration (x_store s)\<rparr>
           | Rejected e \<Rightarrow> s\<lparr>x_store := settle c (Rejected e) (x_store s)\<rparr>)
      | Gen_result q \<Rightarrow>
          (case out of
             Rejected e \<Rightarrow> s\<lparr>x_store := settle q (Rejected e) (x_store s)\<rparr>
           | Fulfilled v \<Rightarrow>
               (let fl1 = el_flags s AND NOT (Iterating F);
                    s1 = s\<lparr>el_flags := (if it_done (iteration_of v) then fl1 OR Finished F
                                         else fl1)\<rparr>;
                    (result, s2) = update_children2 E (it_value (iteration_of v)) s1;
                    s3 = (case result of
                            None \<Rightarrow> s2
                          | Some p \<Rightarrow>
                              (let (old, st) = derive p Old_result (x_store s2)
                               in s2\<lparr>x_store := st, ctx_oldResult := Some old\<rparr>))
                in s3\<lparr>x_store := resolve Forward q result (x_store s3)\<rparr>))
      | Old_value q \<Rightarrow>
          (case out of
             Fulfilled v \<Rightarrow> s\<lparr>x_store := settle q (Fulfilled NoValue) (x_store s)\<rparr>
           | Rejected e \<Rightarrow> s\<lparr>x_store := settle q (Rejected e) (x_store s)\<rparr>)
      | Old_result q \<Rightarrow> s\<lparr>x_store := settle q (Fulfilled NoValue) (x_store s)\<rparr>
      | Refresh_commit q \<Rightarrow> s
      | Advance_catch q \<Rightarrow>
          (case out of
             Fulfilled v \<Rightarrow> s\<lparr>x_store := settle q out (x_store s)\<rparr>
           | Rejected err \<Rightarrow>
               if \<not> has_flag (el_flags s) (Updating F)
               then s\<lparr>x_store := settle q (Rejected err) (x_store s)\<rparr>
               else s\<lparr>x_store := settle q (Fulfilled NoValue) (x_store s)\<rparr>))"

definition tick2 :: "flag_consts \<Rightarrow> env \<Rightarrow> xstate \<Rightarrow> xstate" where
  "tick2 F E s =
     (case queue (x_store s) of
        [] \<Rightarrow> s
      | (r, out) # jobs \<Rightarrow> job F E r out (s\<lparr>x_store := (x_store s)\<lparr>queue := jobs\<rparr>\<rparr>))"

fun ticks2 :: "flag_consts \<Rightarrow> env \<Rightarrow> nat \<Rightarrow> xstate \<Rightarrow> xstate" where
  "ticks2 F E 0 s = s"
| "ticks2 F E (Suc n) s = ticks2 F E n (tick2 F E s)"

definition host_settles2 :: "pid \<Rightarrow> settlement \<Rightarrow> xstate \<Rightarrow> xstate" where
  "host_settles2 p out s = s\<lparr>x_store := settle p out (x_store s)\<rparr>"

text \<open>A component element as \<^verbatim>\<open>mount\<close> leaves it, with an empty promise store.\<close>

definition mounted_component :: "flag_consts \<Rightarrow> xstate" where
  "mounted_component F =
     \<lparr>el_flags = Initial F OR Mounted F, el_iterator = False, ctx_onProps = False,
      ctx_oldResult = None, ctx_inflightPending = None, ctx_enqueuedPending = None,
      ctx_inflightResult = None, ctx_enqueuedResult = None,
      x_calls = 0, x_nexts = 0, x_updates = 0, x_catches = 0, x_trace = [],
      x_store = \<lparr>settled = (\<lambda>p. None), reactions = [], queue = [], next_pid = 0\<rparr>\<rparr>"

subsection \<open>Consecutive calls of run\<close>

text \<open>
  The results of \<open>n\<close> calls of \<^verbatim>\<open>run()\<close> in a row, with no reaction job in between, as
  repeated prop updates or refreshes within one turn of the host make them; an exception
  ends the row.
\<close>

fun ComponentNode_runs ::
  "env \<Rightarrow> nat \<Rightarrow> cstate \<Rightarrow> (error + pid option) list \<times> cstate" where
  "ComponentNode_runs E 0 s = ([], s)"
| "ComponentNode_runs E (Suc n) s =
     (case ComponentNode_run E s of
        (Inl e, s1) \<Rightarrow> ([Inl e], s1)
      | (Inr r, s1) \<Rightarrow>
          (case ComponentNode_runs E n s1 of (rs, s2) \<Rightarrow> (Inr r # rs, s2)))"

fun runs ::
  "flag_consts \<Rightarrow> env \<Rightarrow> nat \<Rightarrow> xstate \<Rightarrow> (error + pid option) list \<times> xstate" where
  "runs F E 0 s = ([], s)"
| "runs F E (Suc n) s =
     (case run F E s of
        (Inl e, s1) \<Rightarrow> ([Inl e], s1)
      | (Inr r, s1) \<Rightarrow>
          (case runs F E n s1 of (rs, s2) \<Rightarrow> (Inr r # rs, s2)))"


text \<open>
  An environment for evaluation: the component is an async function, every call of it
  returns a promise, and its children reconcile synchronously.
\<close>

definition async_function :: env where
  "async_function =
     \<lparr>e_call = (\<lambda>k. Call_promise), e_next = (\<lambda>k. Next_promise),
      e_update = (\<lambda>k. False), e_catch = (\<lambda>k. Catch_returns)\<rparr>"


text \<open>
  A second one: the component is a sync generator that yields the child \<^verbatim>\<open>"a"\<close> for ever,
  and its children reconcile asynchronously.  And a third, an async generator.
\<close>

definition sync_generator :: env where
  "sync_generator =
     \<lparr>e_call = (\<lambda>k. Call_iterator),
      e_next = (\<lambda>k. Next_iteration (Iteration (JStr ''a'') False)),
      e_update = (\<lambda>k. True), e_catch = (\<lambda>k. Catch_returns)\<rparr>"

section \<open>Reconciling the children of a parent\<close>

subsection \<open>Normalised children\<close>

text \<open>
  \<^verbatim>\<open>normalize\<close> and \<^verbatim>\<open>flatten\<close> turn the \<^verbatim>\<open>children\<close> prop into the sequence of new
  children, each an element, a string or undefined.  An array stands for any iterable that
  is not a string.  \<open>to_string\<close> is \<^verbatim>\<open>child.toString()\<close> on a child that is neither nullish,
  boolean, string nor element.
\<close>

fun normalize :: "(jsval \<Rightarrow> string) \<Rightarrow> jsval \<Rightarrow> jsval" where
  "normalize to_string JUndefined = JUndefined"
| "normalize to_string JNull = JUndefined"
| "normalize to_string (JBool b) = JUndefined"
| "normalize to_string (JStr s) = JStr s"
| "normalize to_string (JElem tg ps k r) = JElem tg ps k r"
| "normalize to_string v = JStr (to_string v)"

fun flatten :: "(jsval \<Rightarrow> string) \<Rightarrow> jsval \<Rightarrow> jsval list" where
  "flatten to_string JUndefined = []"
| "flatten to_string JNull = []"
| "flatten to_string (JArr cs) =
     map (\<lambda>child. case child of
                    JArr inner \<Rightarrow> createElement Fragment None [child]
                  | _ \<Rightarrow> normalize to_string child) cs"
| "flatten to_string v = [normalize to_string v]"

text \<open>
  \<^verbatim>\<open>typeof child === "object" ? child.tag : undefined\<close> and the same for the key; a
  normalised child is an object exactly when it is an element.
\<close>

fun child_tag :: "jsval \<Rightarrow> tag option" where
  "child_tag (JElem tg ps k r) = Some tg"
| "child_tag v = None"

fun child_key :: "jsval \<Rightarrow> jsval" where
  "child_key (JElem tg ps k r) = k"
| "child_key v = JUndefined"

subsection \<open>\<^verbatim>\<open>src/index.ts\<close>: the retained children of a parent\<close>

type_synonym nid = nat

text \<open>
  A retained child as its parent sees it.  The parent's children are kept as the list of
  their identities in sibling order, which is the doubly linked list from \<^verbatim>\<open>firstChild\<close>
  along \<^verbatim>\<open>nextSibling\<close>; the nodes themselves are in a heap.  What goes on inside a child
  when it is updated or unmounted is not part of this model: both are calls out, and only
  the child's \<^verbatim>\<open>unmounted\<close> flag is kept of what an unmount does to it.
\<close>

record vnode =
  v_internal :: bool
  v_tag :: "tag option"
  v_key :: jsval
  v_value :: jsval
  v_dirty :: bool
  v_moved :: bool
  v_copied :: bool
  v_unmounted :: bool
  v_alternate :: "nid option"

datatype uevent =
    Created nid
  | Update_called nid
  | Unmount_called nid
  | Commit_called "nid list"

text \<open>
  The callbacks that \<^verbatim>\<open>updateChildren\<close> registers on promises.

  \<^item> \<open>Race\<close>: \<^verbatim>\<open>Promise.race\<close> and \<^verbatim>\<open>resolve\<close> with a promise: the first outcome to arrive
    settles the promise.
  \<^item> \<open>Then_result r q\<close>: \<^verbatim>\<open>result.then(() => result1)\<close>, with \<open>r\<close> for \<^verbatim>\<open>result1\<close>.
  \<^item> \<open>Unmount_alternates n q\<close>: the callback that unmounts the alternates of the new node
    \<open>n\<close>.
  \<^item> \<open>Then_commit q\<close>: \<^verbatim>\<open>result.then(() => this.commit())\<close>.
\<close>

datatype ureaction =
    Race pid
  | Then_result pid pid
  | Unmount_alternates nid pid
  | Then_commit pid

text \<open>
  What a call of \<^verbatim>\<open>update\<close> on a child does, as seen by the parent: it returns undefined
  or a promise, or raises.  The k-th such call of the parent is given by \<open>r_update k\<close>;
  \<open>r_text\<close> is \<^verbatim>\<open>renderer.text\<close>.
\<close>

datatype update_result = Update_sync | Update_async | Update_raises error

text \<open>
  What a call of \<^verbatim>\<open>unmount\<close> on a child that is not unmounted does, as seen by the parent:
  it returns or raises, and it leaves the child's \<^verbatim>\<open>unmounted\<close> flag set or not.  A fragment
  node and a component node set the flag first, and raise what the unmounting of their
  children raises.  A host node sets the flag last: when its iterator's \<^verbatim>\<open>return\<close> raises,
  the call ends with the flag unset, returning if an ancestor takes the error and raising
  if none does.  The k-th such call of the parent is given by \<open>r_unmount k\<close>.
\<close>

datatype unmount_result = Unmount_returns bool | Unmount_raises error bool

record renderer_env =
  r_text :: "string \<Rightarrow> string"
  r_update :: "nat \<Rightarrow> update_result"
  r_unmount :: "nat \<Rightarrow> unmount_result"

record pstate =
  nodes :: "nid \<Rightarrow> vnode"
  next_node :: nid
  siblings :: "nid list"
  keyedChildren :: "(jsval \<times> nid) list option"
  onNewResult :: "pid option"
  p_updates :: nat
  p_unmounts :: nat
  p_log :: "uevent list"
  p_store :: "ureaction pstore"

text \<open>The four list operations of \<^verbatim>\<open>ParentNode\<close>.\<close>

definition appendChild :: "nid \<Rightarrow> pstate \<Rightarrow> pstate" where
  "appendChild child p = p\<lparr>siblings := siblings p @ [child]\<rparr>"

definition insertBefore :: "nid \<Rightarrow> nid option \<Rightarrow> pstate \<Rightarrow> pstate" where
  "insertBefore child reference p =
     (case reference of
        None \<Rightarrow> appendChild child p
      | Some r \<Rightarrow>
          if child = r then p
          else p\<lparr>siblings := takeWhile (\<lambda>n. n \<noteq> r) (siblings p) @ child
                              # dropWhile (\<lambda>n. n \<noteq> r) (siblings p)\<rparr>)"

definition removeChild :: "nid \<Rightarrow> pstate \<Rightarrow> pstate" where
  "removeChild child p = p\<lparr>siblings := filter (\<lambda>n. n \<noteq> child) (siblings p)\<rparr>"

definition replaceChild :: "nid \<Rightarrow> nid \<Rightarrow> pstate \<Rightarrow> pstate" where
  "replaceChild child reference p = removeChild reference (insertBefore child (Some reference) p)"

text \<open>\<^verbatim>\<open>node.nextSibling\<close>\<close>

definition nextSibling :: "pstate \<Rightarrow> nid \<Rightarrow> nid option" where
  "nextSibling p n =
     (case dropWhile (\<lambda>m. m \<noteq> n) (siblings p) of
        a # b # rest \<Rightarrow> Some b
      | _ \<Rightarrow> None)"

text \<open>
  \<^verbatim>\<open>createNode(this, this.renderer, child)\<close>: a leaf for a string or undefined, a parent
  node with the child's tag and key otherwise; both are born dirty, a parent node moved.
\<close>

definition createNode :: "jsval \<Rightarrow> pstate \<Rightarrow> nid \<times> pstate" where
  "createNode child p =
     (let n = next_node p;
          v = (case child_tag child of
                 None \<Rightarrow> \<lparr>v_internal = False, v_tag = None, v_key = JUndefined,
                          v_value = JUndefined, v_dirty = True, v_moved = False,
                          v_copied = False, v_unmounted = False, v_alternate = None\<rparr>
               | Some tg \<Rightarrow> \<lparr>v_internal = True, v_tag = Some tg, v_key = child_key child,
                          v_value = JUndefined, v_dirty = True, v_moved = True,
                          v_copied = False, v_unmounted = False, v_alternate = None\<rparr>)
      in (n, p\<lparr>nodes := (nodes p)(n := v), next_node := Suc n,
                p_log := p_log p @ [Created n]\<rparr>))"

text \<open>
  \<^verbatim>\<open>node.unmount()\<close> on a child, which returns at once on an unmounted node: the state
  after the call, and the exception that leaves it, if one does.
\<close>

definition unmount_child :: "renderer_env \<Rightarrow> nid \<Rightarrow> pstate \<Rightarrow> error option \<times> pstate" where
  "unmount_child R n p =
     (if v_unmounted (nodes p n) then (None, p)
      else
        (let p1 = p\<lparr>p_unmounts := Suc (p_unmounts p), p_log := p_log p @ [Unmount_called n]\<rparr>
         in case r_unmount R (p_unmounts p) of
              Unmount_returns flag \<Rightarrow>
                (None, p1\<lparr>nodes := (nodes p1)(n := (nodes p1 n)\<lparr>v_unmounted := flag\<rparr>)\<rparr>)
            | Unmount_raises e flag \<Rightarrow>
                (Some e, p1\<lparr>nodes := (nodes p1)(n := (nodes p1 n)\<lparr>v_unmounted := flag\<rparr>)\<rparr>)))"

text \<open>\<^verbatim>\<open>node.update(props, ref)\<close> on a child.\<close>

definition update_child :: "renderer_env \<Rightarrow> nid \<Rightarrow> pstate \<Rightarrow> (error + pid option) \<times> pstate" where
  "update_child R n p =
     (let p1 = p\<lparr>p_updates := Suc (p_updates p), p_log := p_log p @ [Update_called n]\<rparr> in
      case r_update R (p_updates p) of
        Update_sync \<Rightarrow> (Inr None, p1)
      | Update_async \<Rightarrow>
          (let (q, st) = new_promise (p_store p1) in (Inr (Some q), p1\<lparr>p_store := st\<rparr>))
      | Update_raises e \<Rightarrow> (Inl e, p1))"

subsection \<open>\<^verbatim>\<open>src/index.ts\<close>: ParentNode.updateChildren\<close>

text \<open>
  The variables of the loop: the parent, the cursor \<^verbatim>\<open>node\<close>, the new
  \<^verbatim>\<open>keyedChildren\<close> map under construction and the aggregate \<^verbatim>\<open>result\<close>.
\<close>

record lstate =
  l_parent :: pstate
  l_node :: "nid option"
  l_keyed :: "(jsval \<times> nid) list option"
  l_result :: "pid option"

text \<open>
  The key a new child is aligned by: its own key, unless an earlier child of this pass has
  claimed that key, in which case the child is aligned as one without a key.
\<close>

definition pass_key :: "jsval \<Rightarrow> (jsval \<times> nid) list option \<Rightarrow> jsval" where
  "pass_key child keyed =
     (if child_key child \<noteq> JUndefined \<and> keyed \<noteq> None
         \<and> map_of (the keyed) (child_key child) \<noteq> None
      then JUndefined else child_key child)"

text \<open>\<^verbatim>\<open>this.keyedChildren && this.keyedChildren.get(key)\<close>\<close>

definition keyed_get :: "pstate \<Rightarrow> jsval \<Rightarrow> nid option" where
  "keyed_get p k = (case keyedChildren p of None \<Rightarrow> None | Some m \<Rightarrow> map_of m k)"

definition keyed_delete :: "jsval \<Rightarrow> pstate \<Rightarrow> pstate" where
  "keyed_delete k p =
     p\<lparr>keyedChildren := (case keyedChildren p of None \<Rightarrow> None
                           | Some m \<Rightarrow> Some (AList.delete k m))\<rparr>"

definition set_moved :: "nid \<Rightarrow> pstate \<Rightarrow> pstate" where
  "set_moved n p = p\<lparr>nodes := (nodes p)(n := (nodes p n)\<lparr>v_moved := True\<rparr>)\<rparr>"

text \<open>
  \<^verbatim>\<open>while (node !== undefined && node.key !== undefined) node = node.nextSibling\<close>, as a
  walk down the siblings from the cursor on.
\<close>

fun skip_keyed :: "(nid \<Rightarrow> vnode) \<Rightarrow> nid list \<Rightarrow> nid option" where
  "skip_keyed ns [] = None"
| "skip_keyed ns (n # rest) = (if v_key (ns n) \<noteq> JUndefined then skip_keyed ns rest else Some n)"

text \<open>
  The alignment half of the loop body.  The result is the node the child is aligned with,
  or \<open>None\<close> where the code says \<^verbatim>\<open>continue\<close>; the state then holds the cursor as the
  \<^verbatim>\<open>continue\<close> leaves it.
\<close>

definition align :: "jsval \<Rightarrow> lstate \<Rightarrow> nid option \<times> lstate" where
  "align child l =
     (let p = l_parent l; tg = child_tag child; k = pass_key child (l_keyed l) in
      case l_node l of
        None \<Rightarrow>
          if k = JUndefined then
            (if tg = Some Copy then (None, l)
             else (let (n, p1) = createNode child p
                   in (Some n, l\<lparr>l_parent := appendChild n p1\<rparr>)))
          else
            (case keyed_get p k of
               None \<Rightarrow>
                 if tg = Some Copy then (None, l)
                 else (let (n, p1) = createNode child p
                       in (Some n, l\<lparr>l_parent := appendChild n p1\<rparr>))
             | Some n \<Rightarrow>
                 (Some n,
                  l\<lparr>l_parent := appendChild n (removeChild n (set_moved n (keyed_delete k p)))\<rparr>))
      | Some node \<Rightarrow>
          if k \<noteq> JUndefined then
            (case keyed_get p k of
               None \<Rightarrow>
                 if tg = Some Copy then (None, l)
                 else (let (n, p1) = createNode child p
                       in (Some n, l\<lparr>l_parent := insertBefore n (Some node) p1\<rparr>))
             | Some keyedNode \<Rightarrow>
                 (Some keyedNode,
                  l\<lparr>l_parent :=
                      (if node \<noteq> keyedNode
                       then insertBefore keyedNode (Some node)
                              (removeChild keyedNode (set_moved keyedNode (keyed_delete k p)))
                       else keyed_delete k p)\<rparr>))
          else if v_key (nodes p node) \<noteq> JUndefined then
            (case skip_keyed (nodes p) (dropWhile (\<lambda>m. m \<noteq> node) (siblings p)) of
               None \<Rightarrow>
                 if tg = Some Copy then (None, l\<lparr>l_node := None\<rparr>)
                 else (let (n, p1) = createNode child p
                       in (Some n, l\<lparr>l_parent := appendChild n p1\<rparr>))
             | Some n \<Rightarrow> (Some n, l))
          else (Some node, l))"

text \<open>\<^verbatim>\<open>result = result === undefined ? result1 : result.then(() => result1)\<close>\<close>

definition join_result :: "pid option \<Rightarrow> pid \<Rightarrow> ureaction pstore \<Rightarrow> pid option \<times> ureaction pstore" where
  "join_result result result1 st =
     (case result of
        None \<Rightarrow> (Some result1, st)
      | Some r \<Rightarrow> (let (q, st1) = derive r (Then_result result1) st in (Some q, st1)))"

text \<open>The value a leaf is given for a new child that is a string or undefined.\<close>

fun leaf_value :: "renderer_env \<Rightarrow> jsval \<Rightarrow> jsval" where
  "leaf_value R (JStr s) = JStr (r_text R s)"
| "leaf_value R v = JUndefined"

text \<open>
  The updating half of the loop body, for the child and the node it is aligned with.  The
  result is the node that stands at the child's place afterwards, or the exception that a
  child's \<^verbatim>\<open>update\<close> raised.
\<close>

definition update_or_replace :: "renderer_env \<Rightarrow> jsval \<Rightarrow> nid \<Rightarrow> lstate \<Rightarrow> (error + nid) \<times> lstate" where
  "update_or_replace R child node l =
     (let p = l_parent l in
      if child_tag child = Some Copy then
        (Inr node,
         (if v_internal (nodes p node)
          then l\<lparr>l_parent := p\<lparr>nodes := (nodes p)(node := (nodes p node)\<lparr>v_copied := True\<rparr>)\<rparr>\<rparr>
          else l))
      else if v_tag (nodes p node) = child_tag child then
        (if v_internal (nodes p node) then
           (case update_child R node p of
              (Inl e, p1) \<Rightarrow> (Inl e, l\<lparr>l_parent := p1\<rparr>)
            | (Inr None, p1) \<Rightarrow> (Inr node, l\<lparr>l_parent := p1\<rparr>)
            | (Inr (Some result1), p1) \<Rightarrow>
                (let (res, st) = join_result (l_result l) result1 (p_store p1)
                 in (Inr node, l\<lparr>l_parent := p1\<lparr>p_store := st\<rparr>, l_result := res\<rparr>)))
         else
           (Inr node,
            l\<lparr>l_parent := p\<lparr>nodes := (nodes p)(node := (nodes p node)
                    \<lparr>v_dirty := (v_value (nodes p node) \<noteq> leaf_value R child),
                     v_value := leaf_value R child\<rparr>)\<rparr>\<rparr>))
      else
        (let (newNode, p1) = createNode child p in
         if v_internal (nodes p1 newNode) then
           (case update_child R newNode p1 of
              (Inl e, p2) \<Rightarrow> (Inl e, l\<lparr>l_parent := p2\<rparr>)
            | (Inr None, p2) \<Rightarrow>
                (case (if v_internal (nodes p2 node) then unmount_child R node p2
                       else (None, p2)) of
                   (Some e, p3) \<Rightarrow> (Inl e, l\<lparr>l_parent := p3\<rparr>)
                 | (None, p3) \<Rightarrow> (Inr newNode, l\<lparr>l_parent := replaceChild newNode node p3\<rparr>))
            | (Inr (Some result1), p2) \<Rightarrow>
                (let p3 = p2\<lparr>nodes := (nodes p2)(newNode :=
                                (nodes p2 newNode)\<lparr>v_alternate := Some node\<rparr>)\<rparr>;
                     (result2, st1) = derive result1 (Unmount_alternates newNode) (p_store p3);
                     (res, st2) = join_result (l_result l) result2 st1
                 in (Inr newNode,
                     l\<lparr>l_parent := replaceChild newNode node (p3\<lparr>p_store := st2\<rparr>),
                       l_result := res\<rparr>)))
         else
           (let p2 = p1\<lparr>nodes := (nodes p1)(newNode :=
                            (nodes p1 newNode)\<lparr>v_value := leaf_value R child\<rparr>)\<rparr>
            in case (if v_internal (nodes p2 node) then unmount_child R node p2
                     else (None, p2)) of
                 (Some e, p3) \<Rightarrow> (Inl e, l\<lparr>l_parent := p3\<rparr>)
               | (None, p3) \<Rightarrow> (Inr newNode, l\<lparr>l_parent := replaceChild newNode node p3\<rparr>))))"

text \<open>
  The loop body: align, update, record the key, and move the cursor to the next sibling of
  the node at the child's place.
\<close>

definition loop_body :: "renderer_env \<Rightarrow> jsval \<Rightarrow> lstate \<Rightarrow> error option \<times> lstate" where
  "loop_body R child l =
     (case align child l of
        (None, l1) \<Rightarrow> (None, l1)
      | (Some node, l1) \<Rightarrow>
          (case update_or_replace R child node l1 of
             (Inl e, l2) \<Rightarrow> (Some e, l2)
           | (Inr node1, l2) \<Rightarrow>
               (let k = pass_key child (l_keyed l);
                    l3 = (if k \<noteq> JUndefined
                          then l2\<lparr>l_keyed := Some (AList.update k node1
                                  (case l_keyed l2 of None \<Rightarrow> [] | Some m \<Rightarrow> m))\<rparr>
                          else l2)
                in (None, l3\<lparr>l_node := nextSibling (l_parent l3) node1\<rparr>))))"

fun children_loop :: "renderer_env \<Rightarrow> jsval list \<Rightarrow> lstate \<Rightarrow> error option \<times> lstate" where
  "children_loop R [] l = (None, l)"
| "children_loop R (child # rest) l =
     (case loop_body R child l of
        (Some e, l1) \<Rightarrow> (Some e, l1)
      | (None, l1) \<Rightarrow> children_loop R rest l1)"

text \<open>
  The first trimming loop, from the cursor to the end of the siblings: a node without a key
  is unmounted, if it is a parent node, and removed.  An exception of an unmount ends the
  loop.
\<close>

fun trim_rest :: "renderer_env \<Rightarrow> nid list \<Rightarrow> pstate \<Rightarrow> error option \<times> pstate" where
  "trim_rest R [] p = (None, p)"
| "trim_rest R (n # rest) p =
     (if v_key (nodes p n) = JUndefined then
        (case (if v_internal (nodes p n) then unmount_child R n p else (None, p)) of
           (Some e, p1) \<Rightarrow> (Some e, p1)
         | (None, p1) \<Rightarrow> trim_rest R rest (removeChild n p1))
      else trim_rest R rest p)"

text \<open>The second: every node left in the previous \<^verbatim>\<open>keyedChildren\<close> is unmounted and removed.\<close>

fun trim_keyedChildren :: "renderer_env \<Rightarrow> nid list \<Rightarrow> pstate \<Rightarrow> error option \<times> pstate" where
  "trim_keyedChildren R [] p = (None, p)"
| "trim_keyedChildren R (n # rest) p =
     (case unmount_child R n p of
        (Some e, p1) \<Rightarrow> (Some e, p1)
      | (None, p1) \<Rightarrow> trim_keyedChildren R rest (removeChild n p1))"

text \<open>\<^verbatim>\<open>this.commit()\<close>, recorded with the children it walks.\<close>

definition commit_parent :: "pstate \<Rightarrow> pstate" where
  "commit_parent p = p\<lparr>p_log := p_log p @ [Commit_called (siblings p)]\<rparr>"

text \<open>
  The end of \<^verbatim>\<open>updateChildren\<close>, from \<^verbatim>\<open>if (this.onNewResult !== undefined)\<close>: the
  promise that the previous call is raced against is resolved with this call's result, and
  then this call either commits at once or returns the race of its own commit against a new
  such promise.
\<close>

definition finish_update :: "pid option \<Rightarrow> pstate \<Rightarrow> pid option \<times> pstate" where
  "finish_update result p =
     (let p1 = (case onNewResult p of
                  None \<Rightarrow> p
                | Some newResult \<Rightarrow>
                    p\<lparr>p_store := resolve Race newResult result (p_store p),
                      onNewResult := None\<rparr>)
      in case result of
           None \<Rightarrow> (None, commit_parent p1)
         | Some r \<Rightarrow>
             (let (result1, st1) = derive r Then_commit (p_store p1);
                  (newResult, st2) = new_promise st1;
                  (race, st3) = new_promise st2;
                  st4 = subscribe newResult (Race race) (subscribe result1 (Race race) st3)
              in (Some race, p1\<lparr>p_store := st4, onNewResult := Some newResult\<rparr>)))"

text \<open>
  \<^verbatim>\<open>updateChildren\<close> for a sequence of normalised children: the promise returned or
  undefined, or the exception of a child's \<^verbatim>\<open>update\<close> or \<^verbatim>\<open>unmount\<close>, which leaves the
  pass where it stands.
\<close>

definition ParentNode_updateChildren ::
  "renderer_env \<Rightarrow> jsval list \<Rightarrow> pstate \<Rightarrow> (error + pid option) \<times> pstate" where
  "ParentNode_updateChildren R children p =
     (case children_loop R children
             \<lparr>l_parent = p, l_node = (case siblings p of [] \<Rightarrow> None | n # ns \<Rightarrow> Some n),
              l_keyed = None, l_result = None\<rparr> of
        (Some e, l) \<Rightarrow> (Inl e, l_parent l)
      | (None, l) \<Rightarrow>
          (case (case l_node l of
                   None \<Rightarrow> (None, l_parent l)
                 | Some node \<Rightarrow>
                     trim_rest R (dropWhile (\<lambda>m. m \<noteq> node) (siblings (l_parent l)))
                       (l_parent l)) of
             (Some e, p1) \<Rightarrow> (Inl e, p1)
           | (None, p1) \<Rightarrow>
               (case (case keyedChildren p1 of
                        None \<Rightarrow> (None, p1)
                      | Some m \<Rightarrow> trim_keyedChildren R (map snd m) p1) of
                  (Some e, p2) \<Rightarrow> (Inl e, p2)
                | (None, p2) \<Rightarrow>
                    (let (out, p3) = finish_update (l_result l) (p2\<lparr>keyedChildren := l_keyed l\<rparr>)
                     in (Inr out, p3)))))"

text \<open>
  The loop of the callback that unmounts the alternates of a new node:
  \<^verbatim>\<open>for (let node = newNode.alternate; node !== undefined; node = node.alternate)\<close>.  An
  alternate is always an older node, so the chain is shorter than the number of nodes, which
  bounds the walk.  An exception of an unmount ends it.
\<close>

fun unmount_chain :: "renderer_env \<Rightarrow> nat \<Rightarrow> nid option \<Rightarrow> pstate \<Rightarrow> error option \<times> pstate" where
  "unmount_chain R fuel None p = (None, p)"
| "unmount_chain R 0 (Some n) p = (None, p)"
| "unmount_chain R (Suc fuel) (Some n) p =
     (case (if v_internal (nodes p n) then unmount_child R n p else (None, p)) of
        (Some e, p1) \<Rightarrow> (Some e, p1)
      | (None, p1) \<Rightarrow> unmount_chain R fuel (v_alternate (nodes p1 n)) p1)"

text \<open>
  One reaction job of the parent.  A callback that raises rejects the promise that its
  registration returned.
\<close>

definition ParentNode_job :: "renderer_env \<Rightarrow> ureaction \<Rightarrow> settlement \<Rightarrow> pstate \<Rightarrow> pstate" where
  "ParentNode_job R r out p =
     (case r of
        Race q \<Rightarrow> p\<lparr>p_store := settle q out (p_store p)\<rparr>
      | Then_result r1 q \<Rightarrow>
          (case out of
             Fulfilled v \<Rightarrow> p\<lparr>p_store := subscribe r1 (Race q) (p_store p)\<rparr>
           | Rejected e \<Rightarrow> p\<lparr>p_store := settle q (Rejected e) (p_store p)\<rparr>)
      | Unmount_alternates newNode q \<Rightarrow>
          (case out of
             Fulfilled v \<Rightarrow>
               (case unmount_chain R (next_node p) (v_alternate (nodes p newNode)) p of
                  (Some e, p1) \<Rightarrow> p1\<lparr>p_store := settle q (Rejected e) (p_store p1)\<rparr>
                | (None, p1) \<Rightarrow>
                    p1\<lparr>nodes := (nodes p1)(newNode := (nodes p1 newNode)\<lparr>v_alternate := None\<rparr>),
                       p_store := settle q (Fulfilled NoValue) (p_store p1)\<rparr>)
           | Rejected e \<Rightarrow> p\<lparr>p_store := settle q (Rejected e) (p_store p)\<rparr>)
      | Then_commit q \<Rightarrow>
          (case out of
             Fulfilled v \<Rightarrow>
               (let p1 = commit_parent p
                in p1\<lparr>p_store := settle q (Fulfilled NoValue) (p_store p1)\<rparr>)
           | Rejected e \<Rightarrow> p\<lparr>p_store := settle q (Rejected e) (p_store p)\<rparr>))"

definition ptick :: "renderer_env \<Rightarrow> pstate \<Rightarrow> pstate" where
  "ptick R p =
     (case queue (p_store p) of
        [] \<Rightarrow> p
      | (r, out) # jobs \<Rightarrow> ParentNode_job R r out (p\<lparr>p_store := (p_store p)\<lparr>queue := jobs\<rparr>\<rparr>))"

fun pticks :: "renderer_env \<Rightarrow> nat \<Rightarrow> pstate \<Rightarrow> pstate" where
  "pticks R 0 p = p"
| "pticks R (Suc n) p = pticks R n (ptick R p)"

definition psettles :: "pid \<Rightarrow> settlement \<Rightarrow> pstate \<Rightarrow> pstate" where
  "psettles q out p = p\<lparr>p_store := settle q out (p_store p)\<rparr>"

text \<open>A parent without children, with an empty promise store.\<close>

definition new_parent :: pstate where
  "new_parent =
     \<lparr>nodes = (\<lambda>n. \<lparr>v_internal = False, v_tag = None, v_key = JUndefined,
                     v_value = JUndefined, v_dirty = True, v_moved = False,
                     v_copied = False, v_unmounted = False, v_alternate = None\<rparr>),
      next_node = 0, siblings = [], keyedChildren = None, onNewResult = None,
      p_updates = 0, p_unmounts = 0, p_log = [],
      p_store = \<lparr>settled = (\<lambda>q. None), reactions = [], queue = [], next_pid = 0\<rparr>\<rparr>"

subsection \<open>The second variant: updateChildren\<close>

text \<open>
  In the second variant the retained nodes are the elements themselves.  An element is an
  object in a heap; \<^verbatim>\<open>el.children\<close> holds, for each child, the identity of an element, a
  string, or undefined.  Every new child that is an element is taken to be a new object,
  not one that has been mounted before.  As above, what goes on inside a child when it is
  updated or unmounted is not part of the model.  \<open>m_replaced\<close> is the variable
  \<^verbatim>\<open>fulfilled\<close> of the closures made when the element replaced another one, and
  \<open>m_schedules\<close> are the elements whose value a scheduled callback of this element sets.
\<close>

type_synonym eid = nat

record elem =
  m_tag :: tag
  m_key :: jsval
  m_flags :: "32 word"
  m_value :: jsval
  m_replaced :: bool
  m_schedules :: "eid list"

datatype entry = Undef | Text string | Ref eid

datatype xevent =
    Mount_called eid
  | Update_called2 eid
  | Unmount_called2 eid
  | Commit_called2 "entry list"

datatype xreaction =
    Race2 pid
  | Then_result2 pid pid
  | Unmount_old eid eid pid
  | Then_commit2 pid

text \<open>
  The parent element: the heap, its \<^verbatim>\<open>children\<close> (undefined is the empty list, a single
  child a list of one), its \<^verbatim>\<open>childrenByKey\<close> and \<^verbatim>\<open>onNewResult\<close>.
\<close>

record estate =
  elems :: "eid \<Rightarrow> elem"
  next_elem :: eid
  children_of :: "entry list"
  childrenByKey :: "(jsval \<times> eid) list option"
  onNewResult2 :: "pid option"
  e_updates :: nat
  e_unmounts :: nat
  e_log :: "xevent list"
  e_store :: "xreaction pstore"

text \<open>
  \<^verbatim>\<open>el.children[i]\<close>, or \<^verbatim>\<open>el.children\<close> itself for a single child and \<^verbatim>\<open>i === 0\<close>:
  undefined past the end.
\<close>

definition old_child :: "entry list \<Rightarrow> nat \<Rightarrow> entry" where
  "old_child cs i = (if i < length cs then cs ! i else Undef)"

text \<open>\<^verbatim>\<open>typeof oldChild === "object" && oldChild.key !== undefined\<close>\<close>

fun keyed_entry :: "(eid \<Rightarrow> elem) \<Rightarrow> entry \<Rightarrow> bool" where
  "keyed_entry h (Ref e) = (m_key (h e) \<noteq> JUndefined)"
| "keyed_entry h c = False"

text \<open>
  \<^verbatim>\<open>while (typeof oldChild === "object" && oldChild.key !== undefined) { i++; ... }\<close>: the
  first index from \<open>i\<close> on whose entry is not an element with a key.  The walk ends at the
  end of the array at the latest, where the entry read is undefined.
\<close>

function skip_keyed2 :: "(eid \<Rightarrow> elem) \<Rightarrow> entry list \<Rightarrow> nat \<Rightarrow> nat" where
  "skip_keyed2 h cs i =
     (if i < length cs \<and> keyed_entry h (cs ! i) then skip_keyed2 h cs (Suc i) else i)"
  by pat_completeness auto
termination
  by (relation "measure (\<lambda>(h, cs, i). length cs - i)") auto

declare skip_keyed2.simps [simp del]

text \<open>
  \<^verbatim>\<open>mount(renderer, el, scope, parent, ctx)\<close> of a new child: the element enters the heap
  with the Mounted flag.
\<close>

definition mount :: "flag_consts \<Rightarrow> jsval \<Rightarrow> estate \<Rightarrow> eid \<times> estate" where
  "mount F child s =
     (let e = next_elem s;
          el = \<lparr>m_tag = (case child_tag child of Some tg \<Rightarrow> tg | None \<Rightarrow> Fragment),
                m_key = child_key child, m_flags = Initial F OR Mounted F,
                m_value = JUndefined, m_replaced = False, m_schedules = []\<rparr>
      in (e, s\<lparr>elems := (elems s)(e := el), next_elem := Suc e,
                e_log := e_log s @ [Mount_called e]\<rparr>))"

text \<open>\<^verbatim>\<open>update(renderer, el, ctx)\<close> on a child.\<close>

definition update_entry ::
  "flag_consts \<Rightarrow> renderer_env \<Rightarrow> eid \<Rightarrow> estate \<Rightarrow> (error + pid option) \<times> estate" where
  "update_entry F R e s =
     (let s1 = s\<lparr>elems := (elems s)(e := (elems s e)\<lparr>m_flags := m_flags (elems s e) OR Updating F\<rparr>),
                 e_updates := Suc (e_updates s), e_log := e_log s @ [Update_called2 e]\<rparr> in
      case r_update R (e_updates s) of
        Update_sync \<Rightarrow> (Inr None, s1)
      | Update_async \<Rightarrow>
          (let (q, st) = new_promise (e_store s1) in (Inr (Some q), s1\<lparr>e_store := st\<rparr>))
      | Update_raises err \<Rightarrow> (Inl err, s1))"

text \<open>
  \<^verbatim>\<open>unmount(renderer, oldChild)\<close> on a child: the state after the call, and the exception
  that leaves it, if one does.  Of what the call does to an element that is not flagged
  Unmounted only the flag is kept.  The function sets the flag before it calls the
  iterator's \<^verbatim>\<open>return\<close>, so a call that gets as far ends with the flag set, whether it
  returns or raises; the \<open>r_unmount\<close> of the environment says which, as above.  The cleanup
  callbacks of an element that is flagged already are not followed.
\<close>

definition unmount_entry ::
  "flag_consts \<Rightarrow> renderer_env \<Rightarrow> eid \<Rightarrow> estate \<Rightarrow> error option \<times> estate" where
  "unmount_entry F R e s =
     (if has_flag (m_flags (elems s e)) (Unmounted F) then (None, s)
      else
        (let s1 = s\<lparr>e_unmounts := Suc (e_unmounts s), e_log := e_log s @ [Unmount_called2 e]\<rparr>;
             flagged = s1\<lparr>elems := (elems s1)
                          (e := (elems s1 e)\<lparr>m_flags := m_flags (elems s1 e) OR Unmounted F\<rparr>)\<rparr>
         in case r_unmount R (e_unmounts s) of
              Unmount_returns flag \<Rightarrow> (None, if flag then flagged else s1)
            | Unmount_raises err flag \<Rightarrow> (Some err, if flag then flagged else s1)))"

text \<open>The variables of the loop.\<close>

record xlstate =
  xl_parent :: estate
  xl_i :: nat
  xl_children1 :: "entry list"
  xl_byKey :: "(jsval \<times> eid) list option"
  xl_result :: "pid option"

text \<open>
  The alignment half of the loop body: the old child the new one is aligned with.
\<close>

definition align2 :: "flag_consts \<Rightarrow> jsval \<Rightarrow> xlstate \<Rightarrow> entry \<times> xlstate" where
  "align2 F newChild l =
     (let s = xl_parent l; i = xl_i l; oldChild = old_child (children_of s) i in
      if child_tag newChild \<noteq> None \<and> child_key newChild \<noteq> JUndefined then
        (case (case childrenByKey s of None \<Rightarrow> None
               | Some m \<Rightarrow> map_of m (child_key newChild)) of
           None \<Rightarrow> (Undef, l)
         | Some oldChild1 \<Rightarrow>
             (let s1 = s\<lparr>childrenByKey :=
                          Some (AList.delete (child_key newChild) (the (childrenByKey s)))\<rparr>
              in if oldChild = Ref oldChild1 then (Ref oldChild1, l\<lparr>xl_parent := s1, xl_i := Suc i\<rparr>)
                 else (Ref oldChild1,
                       l\<lparr>xl_parent := s1\<lparr>elems := (elems s1)(oldChild1 :=
                             (elems s1 oldChild1)\<lparr>m_flags := m_flags (elems s1 oldChild1)
                                                               OR Moved F\<rparr>)\<rparr>\<rparr>)))
      else
        (if keyed_entry (elems s) oldChild then
           (let j = skip_keyed2 (elems s) (children_of s) i
            in (old_child (children_of s) j, l\<lparr>xl_i := Suc j\<rparr>))
         else (oldChild, l\<lparr>xl_i := Suc i\<rparr>)))"

definition join_result2 ::
  "pid option \<Rightarrow> pid \<Rightarrow> xreaction pstore \<Rightarrow> pid option \<times> xreaction pstore" where
  "join_result2 result result1 st =
     (case result of
        None \<Rightarrow> (Some result1, st)
      | Some r \<Rightarrow> (let (q, st1) = derive r (Then_result2 result1) st in (Some q, st1)))"

text \<open>The value of an old child that is not an element, as a new element takes it over.\<close>

fun entry_value :: "(eid \<Rightarrow> elem) \<Rightarrow> entry \<Rightarrow> jsval" where
  "entry_value h Undef = JUndefined"
| "entry_value h (Text s) = JStr s"
| "entry_value h (Ref e) = m_value (h e)"

text \<open>
  The updating half: the entry that goes into the new \<^verbatim>\<open>children\<close>, or the exception of a
  child's \<^verbatim>\<open>update\<close>.
\<close>

definition update_or_replace2 ::
  "flag_consts \<Rightarrow> renderer_env \<Rightarrow> jsval \<Rightarrow> entry \<Rightarrow> xlstate \<Rightarrow> (error + entry) \<times> xlstate" where
  "update_or_replace2 F R newChild oldChild l =
     (let s = xl_parent l in
      case child_tag newChild of
        None \<Rightarrow>
          (case (case oldChild of Ref old \<Rightarrow> unmount_entry F R old s | _ \<Rightarrow> (None, s)) of
             (Some err, s1) \<Rightarrow> (Inl err, l\<lparr>xl_parent := s1\<rparr>)
           | (None, s1) \<Rightarrow>
               (Inr (case newChild of JStr t \<Rightarrow> Text (r_text R t) | _ \<Rightarrow> Undef),
                l\<lparr>xl_parent := s1\<rparr>))
      | Some tg \<Rightarrow>
          if tg = Copy then (Inr oldChild, l)
          else
            (case oldChild of
               Ref old \<Rightarrow>
                 if m_tag (elems s old) = tg then
                   (case update_entry F R old s of
                      (Inl err, s1) \<Rightarrow> (Inl err, l\<lparr>xl_parent := s1\<rparr>)
                    | (Inr None, s1) \<Rightarrow> (Inr (Ref old), l\<lparr>xl_parent := s1\<rparr>)
                    | (Inr (Some result1), s1) \<Rightarrow>
                        (let (res, st) = join_result2 (xl_result l) result1 (e_store s1)
                         in (Inr (Ref old),
                             l\<lparr>xl_parent := s1\<lparr>e_store := st\<rparr>, xl_result := res\<rparr>)))
                 else
                   (let (new, s1) = mount F newChild s in
                    case update_entry F R new s1 of
                      (Inl err, s2) \<Rightarrow> (Inl err, l\<lparr>xl_parent := s2\<rparr>)
                    | (Inr None, s2) \<Rightarrow>
                        (case unmount_entry F R old s2 of
                           (Some err, s3) \<Rightarrow> (Inl err, l\<lparr>xl_parent := s3\<rparr>)
                         | (None, s3) \<Rightarrow> (Inr (Ref new), l\<lparr>xl_parent := s3\<rparr>))
                    | (Inr (Some result1), s2) \<Rightarrow>
                        (let s3 = s2\<lparr>elems := (elems s2)
                                    (new := (elems s2 new)\<lparr>m_value := m_value (elems s2 old)\<rparr>,
                                     old := (elems s2 old)\<lparr>m_schedules :=
                                               m_schedules (elems s2 old) @ [new]\<rparr>)\<rparr>;
                             (q, st1) = derive result1 (Unmount_old old new) (e_store s3);
                             (res, st2) = join_result2 (xl_result l) result1 st1
                         in (Inr (Ref new),
                             l\<lparr>xl_parent := s3\<lparr>e_store := st2\<rparr>, xl_result := res\<rparr>)))
             | _ \<Rightarrow>
                 (let (new, s1) = mount F newChild s in
                  case update_entry F R new s1 of
                    (Inl err, s2) \<Rightarrow> (Inl err, l\<lparr>xl_parent := s2\<rparr>)
                  | (Inr None, s2) \<Rightarrow> (Inr (Ref new), l\<lparr>xl_parent := s2\<rparr>)
                  | (Inr (Some result1), s2) \<Rightarrow>
                      (let s3 = s2\<lparr>elems := (elems s2)
                                  (new := (elems s2 new)
                                     \<lparr>m_value := entry_value (elems s2) oldChild\<rparr>)\<rparr>;
                           (res, st) = join_result2 (xl_result l) result1 (e_store s3)
                       in (Inr (Ref new),
                           l\<lparr>xl_parent := s3\<lparr>e_store := st\<rparr>, xl_result := res\<rparr>)))))"

text \<open>
  \<^verbatim>\<open>children1\<close> grows by the new entry: from undefined to the entry itself, which leaves
  it undefined when the entry is, and to an array from the second entry on.
\<close>

definition push_child :: "entry \<Rightarrow> entry list \<Rightarrow> entry list" where
  "push_child c children1 = (if children1 = [] then (if c = Undef then [] else [c]) else children1 @ [c])"

text \<open>
  The key under which the entry is recorded in the new \<^verbatim>\<open>childrenByKey\<close>, unless an
  earlier child of the pass has it.
\<close>

fun entry_key :: "(eid \<Rightarrow> elem) \<Rightarrow> entry \<Rightarrow> (jsval \<times> eid) option" where
  "entry_key h (Ref e) = (if m_key (h e) \<noteq> JUndefined then Some (m_key (h e), e) else None)"
| "entry_key h c = None"

definition loop_body2 ::
  "flag_consts \<Rightarrow> renderer_env \<Rightarrow> jsval \<Rightarrow> xlstate \<Rightarrow> error option \<times> xlstate" where
  "loop_body2 F R newChild l =
     (case align2 F newChild l of
        (oldChild, l1) \<Rightarrow>
          (case update_or_replace2 F R newChild oldChild l1 of
             (Inl err, l2) \<Rightarrow> (Some err, l2)
           | (Inr newChild1, l2) \<Rightarrow>
               (let l3 = l2\<lparr>xl_children1 := push_child newChild1 (xl_children1 l2)\<rparr>
                in (None,
                    (case entry_key (elems (xl_parent l3)) newChild1 of
                       None \<Rightarrow> l3
                     | Some (k, e) \<Rightarrow>
                         (case xl_byKey l3 of
                            None \<Rightarrow> l3\<lparr>xl_byKey := Some [(k, e)]\<rparr>
                          | Some m \<Rightarrow>
                              if map_of m k = None then l3\<lparr>xl_byKey := Some (m @ [(k, e)])\<rparr>
                              else l3))))))"

fun children_loop2 ::
  "flag_consts \<Rightarrow> renderer_env \<Rightarrow> jsval list \<Rightarrow> xlstate \<Rightarrow> error option \<times> xlstate" where
  "children_loop2 F R [] l = (None, l)"
| "children_loop2 F R (child # rest) l =
     (case loop_body2 F R child l of
        (Some err, l1) \<Rightarrow> (Some err, l1)
      | (None, l1) \<Rightarrow> children_loop2 F R rest l1)"

text \<open>
  The sequence of new children that the loop of the second variant walks: nothing for
  undefined, the members of an array, and otherwise the one child, \<^verbatim>\<open>null\<close> included.
  Each is normalised inside the loop, a nested array becoming a Fragment element.
\<close>

fun flatten2 :: "(jsval \<Rightarrow> string) \<Rightarrow> jsval \<Rightarrow> jsval list" where
  "flatten2 to_string JUndefined = []"
| "flatten2 to_string (JArr cs) =
     map (\<lambda>child. case child of
                    JArr inner \<Rightarrow> createElement2 Fragment None [child]
                  | _ \<Rightarrow> normalize to_string child) cs"
| "flatten2 to_string v = [normalize to_string v]"

text \<open>
  The trimming loop: every old child from index \<open>i\<close> on that is an element without a key
  is unmounted.  An exception of an unmount ends the loop, and the loop over the keyed
  children that are left.
\<close>

fun trim_from :: "flag_consts \<Rightarrow> renderer_env \<Rightarrow> entry list \<Rightarrow> estate \<Rightarrow> error option \<times> estate" where
  "trim_from F R [] s = (None, s)"
| "trim_from F R (Ref e # rest) s =
     (if m_key (elems s e) = JUndefined then
        (case unmount_entry F R e s of
           (Some err, s1) \<Rightarrow> (Some err, s1)
         | (None, s1) \<Rightarrow> trim_from F R rest s1)
      else trim_from F R rest s)"
| "trim_from F R (c # rest) s = trim_from F R rest s"

fun unmount_all :: "flag_consts \<Rightarrow> renderer_env \<Rightarrow> eid list \<Rightarrow> estate \<Rightarrow> error option \<times> estate" where
  "unmount_all F R [] s = (None, s)"
| "unmount_all F R (e # rest) s =
     (case unmount_entry F R e s of
        (Some err, s1) \<Rightarrow> (Some err, s1)
      | (None, s1) \<Rightarrow> unmount_all F R rest s1)"

definition commit_element :: "estate \<Rightarrow> estate" where
  "commit_element s = s\<lparr>e_log := e_log s @ [Commit_called2 (children_of s)]\<rparr>"

text \<open>The end of \<^verbatim>\<open>updateChildren\<close>, from \<^verbatim>\<open>if (el.onNewResult !== undefined)\<close>.\<close>

definition finish_update2 :: "pid option \<Rightarrow> estate \<Rightarrow> pid option \<times> estate" where
  "finish_update2 result s =
     (let s1 = (case onNewResult2 s of
                  None \<Rightarrow> s
                | Some newResult \<Rightarrow>
                    s\<lparr>e_store := resolve Race2 newResult result (e_store s),
                      onNewResult2 := None\<rparr>)
      in case result of
           None \<Rightarrow> (None, commit_element s1)
         | Some r \<Rightarrow>
             (let (result1, st1) = derive r Then_commit2 (e_store s1);
                  (newResult, st2) = new_promise st1;
                  (race, st3) = new_promise st2;
                  st4 = subscribe newResult (Race2 race) (subscribe result1 (Race2 race) st3)
              in (Some race, s1\<lparr>e_store := st4, onNewResult2 := Some newResult\<rparr>)))"

text \<open>
  \<^verbatim>\<open>updateChildren(renderer, el, children, ctx)\<close> for a sequence of new children, in a
  pass during which no error is handled by the element itself.
\<close>

definition updateChildren ::
  "flag_consts \<Rightarrow> renderer_env \<Rightarrow> jsval list \<Rightarrow> estate \<Rightarrow> (error + pid option) \<times> estate" where
  "updateChildren F R children s =
     (case children_loop2 F R children
             \<lparr>xl_parent = s, xl_i = 0, xl_children1 = [], xl_byKey = None, xl_result = None\<rparr> of
        (Some err, l) \<Rightarrow> (Inl err, xl_parent l)
      | (None, l) \<Rightarrow>
          (case trim_from F R (drop (xl_i l) (children_of (xl_parent l))) (xl_parent l) of
             (Some err, s1) \<Rightarrow> (Inl err, s1)
           | (None, s1) \<Rightarrow>
               (case (case childrenByKey s1 of
                        None \<Rightarrow> (None, s1)
                      | Some m \<Rightarrow> unmount_all F R (map snd m) s1) of
                  (Some err, s2) \<Rightarrow> (Inl err, s2)
                | (None, s2) \<Rightarrow>
                    (let (out, s3) = finish_update2 (xl_result l)
                           (s2\<lparr>children_of := xl_children1 l, childrenByKey := xl_byKey l\<rparr>)
                     in (Inr out, s3)))))"

text \<open>One reaction job of the parent element.\<close>

definition job2 :: "flag_consts \<Rightarrow> renderer_env \<Rightarrow> xreaction \<Rightarrow> settlement \<Rightarrow> estate \<Rightarrow> estate" where
  "job2 F R r out s =
     (case r of
        Race2 q \<Rightarrow> s\<lparr>e_store := settle q out (e_store s)\<rparr>
      | Then_result2 r1 q \<Rightarrow>
          (case out of
             Fulfilled v \<Rightarrow> s\<lparr>e_store := subscribe r1 (Race2 q) (e_store s)\<rparr>
           | Rejected e \<Rightarrow> s\<lparr>e_store := settle q (Rejected e) (e_store s)\<rparr>)
      | Unmount_old old new q \<Rightarrow>
          (case out of
             Fulfilled v \<Rightarrow>
               (case unmount_entry F R old
                       (s\<lparr>elems := (elems s)(new := (elems s new)\<lparr>m_replaced := True\<rparr>)\<rparr>) of
                  (Some err, s1) \<Rightarrow> s1\<lparr>e_store := settle q (Rejected err) (e_store s1)\<rparr>
                | (None, s1) \<Rightarrow> s1\<lparr>e_store := settle q (Fulfilled NoValue) (e_store s1)\<rparr>)
           | Rejected e \<Rightarrow> s\<lparr>e_store := settle q (Rejected e) (e_store s)\<rparr>)
      | Then_commit2 q \<Rightarrow>
          (case out of
             Fulfilled v \<Rightarrow>
               (let s1 = commit_element s
                in s1\<lparr>e_store := settle q (Fulfilled NoValue) (e_store s1)\<rparr>)
           | Rejected e \<Rightarrow> s\<lparr>e_store := settle q (Rejected e) (e_store s)\<rparr>))"

definition etick :: "flag_consts \<Rightarrow> renderer_env \<Rightarrow> estate \<Rightarrow> estate" where
  "etick F R s =
     (case queue (e_store s) of
        [] \<Rightarrow> s
      | (r, out) # jobs \<Rightarrow> job2 F R r out (s\<lparr>e_store := (e_store s)\<lparr>queue := jobs\<rparr>\<rparr>))"

fun eticks :: "flag_consts \<Rightarrow> renderer_env \<Rightarrow> nat \<Rightarrow> estate \<Rightarrow> estate" where
  "eticks F R 0 s = s"
| "eticks F R (Suc n) s = eticks F R n (etick F R s)"

definition esettles :: "pid \<Rightarrow> settlement \<Rightarrow> estate \<Rightarrow> estate" where
  "esettles q out s = s\<lparr>e_store := settle q out (e_store s)\<rparr>"

text \<open>A parent element without children, with an empty promise store.\<close>

definition new_element :: "flag_consts \<Rightarrow> estate" where
  "new_element F =
     \<lparr>elems = (\<lambda>e. \<lparr>m_tag = Fragment, m_key = JUndefined, m_flags = Initial F,
                     m_value = JUndefined, m_replaced = False, m_schedules = []\<rparr>),
      next_elem = 0, children_of = [], childrenByKey = None, onNewResult2 = None,
      e_updates = 0, e_unmounts = 0, e_log = [],
      e_store = \<lparr>settled = (\<lambda>q. None), reactions = [], queue = [], next_pid = 0\<rparr>\<rparr>"

text \<open>
  Inputs for evaluation: host elements, and children that all update synchronously or all
  asynchronously, and whose unmounting returns with the flag set.
\<close>

definition host_element :: "string \<Rightarrow> jsval \<Rightarrow> jsval" where
  "host_element name k = JElem (HostTag name) [] k JUndefined"

definition sync_children :: renderer_env where
  "sync_children =
     \<lparr>r_text = (\<lambda>t. t), r_update = (\<lambda>k. Update_sync),
      r_unmount = (\<lambda>k. Unmount_returns True)\<rparr>"

definition async_children :: renderer_env where
  "async_children =
     \<lparr>r_text = (\<lambda>t. t), r_update = (\<lambda>k. Update_async),
      r_unmount = (\<lambda>k. Unmount_returns True)\<rparr>"

section \<open>The host between two passes\<close>

text \<open>
  Between two calls into the reconciler the host does two things that a parent can see: it
  runs the next reaction job, and it settles a promise that a child's update returned.
\<close>

datatype hevent = Tick | Settles pid settlement

fun settles :: "pid \<Rightarrow> hevent \<Rightarrow> bool" where
  "settles r Tick = False"
| "settles r (Settles q out) = (q = r)"

fun pevent :: "renderer_env \<Rightarrow> hevent \<Rightarrow> pstate \<Rightarrow> pstate" where
  "pevent R Tick p = ptick R p"
| "pevent R (Settles q out) p = psettles q out p"

fun pevents :: "renderer_env \<Rightarrow> hevent list \<Rightarrow> pstate \<Rightarrow> pstate" where
  "pevents R [] p = p"
| "pevents R (e # es) p = pevents R es (pevent R e p)"

fun eevent :: "flag_consts \<Rightarrow> renderer_env \<Rightarrow> hevent \<Rightarrow> estate \<Rightarrow> estate" where
  "eevent F R Tick s = etick F R s"
| "eevent F R (Settles q out) s = esettles q out s"

fun eevents :: "flag_consts \<Rightarrow> renderer_env \<Rightarrow> hevent list \<Rightarrow> estate \<Rightarrow> estate" where
  "eevents F R [] s = s"
| "eevents F R (e # es) s = eevents F R es (eevent F R e s)"

subsection \<open>States of a parent that the code can reach\<close>

text \<open>
  What holds of every state of a parent node that the code builds, as far as the proofs
  below need it.  The nodes in the sibling list and in \<^verbatim>\<open>keyedChildren\<close> have been
  created; an alternate is an older node than the node it is the alternate of; the
  callbacks in the promise store are about nodes that have been created and settle
  promises that have been made; the promise that will be made next has not settled, and no
  callback waits for it.
\<close>

fun utarget :: "ureaction \<Rightarrow> pid" where
  "utarget (Race q) = q"
| "utarget (Then_result r1 q) = q"
| "utarget (Unmount_alternates n q) = q"
| "utarget (Then_commit q) = q"

fun unmounts_of :: "nid \<Rightarrow> ureaction \<Rightarrow> bool" where
  "unmounts_of M (Unmount_alternates n q) = (n = M)"
| "unmounts_of M rc = False"

definition known :: "pstate \<Rightarrow> ureaction \<Rightarrow> bool" where
  "known p rc \<longleftrightarrow>
     utarget rc < next_pid (p_store p)
     \<and> (case rc of Unmount_alternates n q \<Rightarrow> n < next_node p | _ \<Rightarrow> True)"

definition keyed_nodes :: "pstate \<Rightarrow> nid list" where
  "keyed_nodes p = (case keyedChildren p of None \<Rightarrow> [] | Some m \<Rightarrow> map snd m)"

definition well_formed :: "pstate \<Rightarrow> bool" where
  "well_formed p \<longleftrightarrow>
     (\<forall>n\<in>set (siblings p). n < next_node p)
     \<and> (\<forall>n\<in>set (keyed_nodes p). n < next_node p)
     \<and> (\<forall>m\<in>set [0..<next_node p].
           case v_alternate (nodes p m) of None \<Rightarrow> True | Some a \<Rightarrow> a < m)
     \<and> (\<forall>xr\<in>set (reactions (p_store p)).
           fst xr < next_pid (p_store p) \<and> known p (snd xr))
     \<and> (\<forall>ro\<in>set (queue (p_store p)). known p (fst ro))
     \<and> settled (p_store p) (next_pid (p_store p)) = None
     \<and> (case onNewResult p of None \<Rightarrow> True | Some nr \<Rightarrow> nr < next_pid (p_store p))"

text \<open>
  The state of a parent while the node \<open>M\<close>, which has replaced the node \<open>N\<close>, waits for
  the promise \<open>r\<close> of its first update: \<open>N\<close> is out of the sibling list and of
  \<^verbatim>\<open>keyedChildren\<close>, it is the alternate of \<open>M\<close> and of no other node, and the callback that
  unmounts the alternates of \<open>M\<close> is the first that waits for \<open>r\<close>, and waits nowhere else.
\<close>

definition pending_replace :: "nid \<Rightarrow> nid \<Rightarrow> pid \<Rightarrow> pstate \<Rightarrow> bool" where
  "pending_replace N M r p \<longleftrightarrow>
     N < M \<and> M < next_node p \<and> r < next_pid (p_store p) \<and> settled (p_store p) r = None
     \<and> N \<notin> set (siblings p) \<and> (\<forall>n\<in>set (siblings p). n < next_node p)
     \<and> (\<forall>n\<in>set (keyed_nodes p). n < next_node p \<and> n \<noteq> N)
     \<and> v_alternate (nodes p M) = Some N \<and> v_internal (nodes p N)
     \<and> (\<forall>m\<in>set [0..<next_node p].
           case v_alternate (nodes p m) of None \<Rightarrow> True
           | Some a \<Rightarrow> a < m \<and> (a = N \<longrightarrow> m = M))
     \<and> (\<forall>xr\<in>set (reactions (p_store p)).
           known p (snd xr) \<and> utarget (snd xr) \<noteq> r
           \<and> (unmounts_of M (snd xr) \<longrightarrow> fst xr = r))
     \<and> (\<forall>ro\<in>set (queue (p_store p)).
           known p (fst ro) \<and> utarget (fst ro) \<noteq> r \<and> \<not> unmounts_of M (fst ro))
     \<and> (case filter (\<lambda>xr. fst xr = r) (reactions (p_store p)) of
           [] \<Rightarrow> False | xr # rest \<Rightarrow> unmounts_of M (snd xr))
     \<and> (case onNewResult p of None \<Rightarrow> True
         | Some nr \<Rightarrow> nr < next_pid (p_store p) \<and> nr \<noteq> r)"
section \<open>Flag arithmetic\<close>






section \<open>Properties of the component scheduler\<close>

lemma has_flag_either:
  "has_flag fl a \<or> has_flag fl b \<Longrightarrow> has_flag fl (b OR a)"
  by (auto simp: has_flag_def bit.conj_disj_distrib or_eq_0_iff)












text \<open>
  Claim C9.  In both variants \<^verbatim>\<open>refresh()\<close> on a component whose unmounted flag or whose
  stepping flag is set returns undefined and leaves the whole state as it was: the
  component is not stepped, the user's function and iterator are not called (the counters
  and the trace of calls are part of the state), no promise is made and nothing is
  committed.
\<close>

theorem refresh_unmounted_noop:
  assumes "unmounted s \<or> stepping s"
    and "has_flag (el_flags x) (Unmounted F) \<or> has_flag (el_flags x) (Stepping F)"
  shows "ComponentNode_refresh E s = (Inr None, s) \<and> Context_refresh F E x = (Inr None, x)"
  using assms has_flag_either [of "el_flags x" "Unmounted F" "Stepping F"]
  by (auto simp: ComponentNode_refresh_def Context_refresh_def)

theorem refresh_unmounted_noop_witness:
  "ComponentNode_refresh async_function (new_ComponentNode\<lparr>unmounted := True\<rparr>)
     = (Inr None, new_ComponentNode\<lparr>unmounted := True\<rparr>)
   \<and> Context_refresh flags0 async_function
       ((mounted_component flags0)\<lparr>el_flags := Mounted flags0 OR Unmounted flags0\<rparr>)
     = (Inr None, (mounted_component flags0)\<lparr>el_flags := Mounted flags0 OR Unmounted flags0\<rparr>)"
proof -
  have h1: "unmounted (new_ComponentNode\<lparr>unmounted := True\<rparr>)
            \<or> stepping (new_ComponentNode\<lparr>unmounted := True\<rparr>)"
    by simp
  have h2: "has_flag (el_flags ((mounted_component flags0)
                \<lparr>el_flags := Mounted flags0 OR Unmounted flags0\<rparr>)) (Unmounted flags0)
            \<or> has_flag (el_flags ((mounted_component flags0)
                \<lparr>el_flags := Mounted flags0 OR Unmounted flags0\<rparr>)) (Stepping flags0)"
    by (simp add: has_flag_def flags0_def)
  show ?thesis
    using refresh_unmounted_noop [OF h1 h2] by simp
qed

subsection \<open>The enqueued step\<close>













text \<open>
  The course with the jobs the host runs, for an async function component that is updated
  once and then three more times.  When promise 0 then fulfils with the child \<^verbatim>\<open>"a"\<close>,
  the first three jobs reconcile that child and advance the scheduler; the component
  function is called again, once, in the fourth job.
\<close>

lemma enqueued_step_after_inflight:
  "trace (ticks async_function 3 (host_settles 0 (Fulfilled (Child (JStr ''a'')))
      (snd (ComponentNode_runs async_function 3
         (snd (ComponentNode_update async_function new_ComponentNode))))))
     = [Listeners_cleared, Called, Updated (JStr ''a'')]
   \<and> trace (ticks async_function 4 (host_settles 0 (Fulfilled (Child (JStr ''a'')))
      (snd (ComponentNode_runs async_function 3
         (snd (ComponentNode_update async_function new_ComponentNode))))))
     = [Listeners_cleared, Called, Updated (JStr ''a''), Listeners_cleared, Called]
   \<and> x_trace (ticks2 flags0 async_function 3 (host_settles2 0 (Fulfilled (Child (JStr ''a'')))
      (snd (runs flags0 async_function 3
         (snd (update flags0 async_function (mounted_component flags0)))))))
     = [Listeners_cleared, Called, Updated (JStr ''a'')]
   \<and> x_trace (ticks2 flags0 async_function 4 (host_settles2 0 (Fulfilled (Child (JStr ''a'')))
      (snd (runs flags0 async_function 3
         (snd (update flags0 async_function (mounted_component flags0)))))))
     = [Listeners_cleared, Called, Updated (JStr ''a''), Listeners_cleared, Called]"
  by code_simp

text \<open>
  And for the sync generator component above, when the promise of its children (promise 0)
  is rejected: the host runs three jobs, none of which resumes the generator, and then has
  none left, with promise 4 still pending.
\<close>

lemma enqueued_step_after_rejection:
  "trace (ticks sync_generator 3 (host_settles 0 (Rejected (Error 0))
      (snd (ComponentNode_runs sync_generator 3
         (snd (ComponentNode_update sync_generator new_ComponentNode))))))
     = [Listeners_cleared, Called, Nexted, Updated (JStr ''a'')]
   \<and> queue (store (ticks sync_generator 3 (host_settles 0 (Rejected (Error 0))
      (snd (ComponentNode_runs sync_generator 3
         (snd (ComponentNode_update sync_generator new_ComponentNode)))))))
     = []
   \<and> settled (store (ticks sync_generator 3 (host_settles 0 (Rejected (Error 0))
      (snd (ComponentNode_runs sync_generator 3
         (snd (ComponentNode_update sync_generator new_ComponentNode))))))) 4
     = None
   \<and> x_trace (ticks2 flags0 sync_generator 3 (host_settles2 0 (Rejected (Error 0))
      (snd (runs flags0 sync_generator 3
         (snd (update flags0 sync_generator (mounted_component flags0)))))))
     = [Listeners_cleared, Called, Nexted, Updated (JStr ''a'')]
   \<and> queue (x_store (ticks2 flags0 sync_generator 3 (host_settles2 0 (Rejected (Error 0))
      (snd (runs flags0 sync_generator 3
         (snd (update flags0 sync_generator (mounted_component flags0))))))))
     = []
   \<and> settled (x_store (ticks2 flags0 sync_generator 3 (host_settles2 0 (Rejected (Error 0))
      (snd (runs flags0 sync_generator 3
         (snd (update flags0 sync_generator (mounted_component flags0)))))))) 4
     = None"
  by code_simp
section \<open>Properties of error propagation\<close>

lemma node_catch_Other:
  "fst (node_catch (OtherNode i # ps) r) = (if ps = [] then Raise r else fst (node_catch ps r))"
  by (simp add: case_prod_beta)

lemma node_catch_Component:
  "fst (node_catch (ComponentNode c # ps) r) =
     (case catching c of
        None \<Rightarrow> if ps = [] then Raise r else fst (node_catch ps r)
      | Some throw \<Rightarrow>
         (case throw r of
            Returns it \<Rightarrow> UpdateChildren (k_id c) it
          | Resolves it \<Rightarrow> Later (UpdateChildren (k_id c) it)
          | Throws err \<Rightarrow> fst (node_catch ps err)
          | Rejects err \<Rightarrow> Later (fst (node_catch ps err))))"
  by (simp add: case_prod_beta Let_def split: option.splits thrown.splits)


lemma node_catch_inert:
  "inert n \<Longrightarrow> ps \<noteq> [] \<Longrightarrow> fst (node_catch (n # ps) r) = fst (node_catch ps r)"
  by (cases n) (simp_all add: node_catch_Other node_catch_Component del: node_catch.simps)

lemma node_catch_inert_prefix:
  "\<forall>n \<in> set pre. inert n \<Longrightarrow> ps \<noteq> [] \<Longrightarrow>
   fst (node_catch (pre @ ps) r) = fst (node_catch ps r)"
  by (induction pre) (simp_all add: node_catch_inert del: node_catch.simps)

lemma node_catch_escape:
  "fst (node_catch (ps @ [OtherNode root]) r) = Raise e \<longleftrightarrow> passed_up ps r = Some e"
proof (induction ps arbitrary: r)
  case Nil
  then show ?case by (auto simp: node_catch_Other simp del: node_catch.simps)
next
  case (Cons n ps)
  show ?case
  proof (cases n)
    case (OtherNode i)
    then show ?thesis using Cons.IH [of r]
      by (simp add: node_catch_Other del: node_catch.simps)
  next
    case (ComponentNode c)
    show ?thesis
    proof (cases "catching c")
      case None
      then show ?thesis using Cons.IH [of r] ComponentNode
        by (simp add: node_catch_Component del: node_catch.simps)
    next
      case (Some throw)
      then show ?thesis using Cons.IH ComponentNode
        by (cases "throw r") (simp_all add: node_catch_Component del: node_catch.simps)
    qed
  qed
qed

lemma handle_step:
  "fst (handle F (el # ps) r) =
     (case handling_el F el of
        None \<Rightarrow> if ps = [] then Raise r else fst (handle F ps r)
      | Some throw \<Rightarrow>
         (case throw r of
            Returns it \<Rightarrow> UpdateChildren (l_id el) it
          | Resolves it \<Rightarrow> Later (UpdateChildren (l_id el) it)
          | Throws err \<Rightarrow> fst (handle F ps err)
          | Rejects err \<Rightarrow> Later (fst (handle F ps err))))"
  by (simp add: handling_el_def case_prod_beta Let_def split: option.splits thrown.splits)

lemma handle_inert_prefix:
  "\<forall>el \<in> set pre. handling_el F el = None \<Longrightarrow> ps \<noteq> [] \<Longrightarrow>
   fst (handle F (pre @ ps) r) = fst (handle F ps r)"
  by (induction pre) (simp_all add: handle_step del: handle.simps)

lemma handle_escape:
  "handling_el F root = None \<Longrightarrow>
   fst (handle F (ps @ [root]) r) = Raise e \<longleftrightarrow> passed_up2 F ps r = Some e"
proof (induction ps arbitrary: r)
  case Nil
  then show ?case by (auto simp: handle_step simp del: handle.simps)
next
  case (Cons el ps)
  show ?case
  proof (cases "handling_el F el")
    case None
    then show ?thesis using Cons.IH [OF Cons.prems, of r]
      by (simp add: handle_step passes_on2_def del: handle.simps)
  next
    case (Some throw)
    then show ?thesis using Cons.IH [OF Cons.prems]
      by (cases "throw r") (simp_all add: handle_step passes_on2_def del: handle.simps)
  qed
qed

text \<open>
  Claim C4, as stated, at a component whose generator answers \<^verbatim>\<open>throw(e1)\<close> by raising
  another error \<open>e2\<close>, below a root host node: the call neither reconciles a child value of
  the component nor does what the parent does with the unchanged error \<open>e1\<close>; the parent is
  given \<open>e2\<close>, and \<open>e2\<close> is what reaches the host environment.
\<close>

theorem catch_changed_error_counterexample:
  "fst (node_catch
         [ComponentNode \<lparr>k_id = 1, k_iterator = Some (Some (\<lambda>r. Throws (Error 2))),
                          k_finished = False, k_onProps = False\<rparr>,
          OtherNode 0] (Error 1)) = Raise (Error 2)
   \<and> fst (node_catch [OtherNode 0] (Error 1)) = Raise (Error 1)
   \<and> fst (handle flags0
         [\<lparr>l_id = 1, l_component = True, l_flags = 1, l_onProps = False,
           l_iterator = Some (Some (\<lambda>r. Throws (Error 2)))\<rparr>,
          \<lparr>l_id = 0, l_component = False, l_flags = 1, l_onProps = False,
           l_iterator = None\<rparr>] (Error 1)) = Raise (Error 2)
   \<and> fst (handle flags0
         [\<lparr>l_id = 0, l_component = False, l_flags = 1, l_onProps = False,
           l_iterator = None\<rparr>] (Error 1)) = Raise (Error 1)"
  by (simp add: catching_def handling_def has_flag_def flags0_def)

text \<open>
  Claim C4, amended.  In both variants, \<^verbatim>\<open>catch\<close> / \<^verbatim>\<open>handle\<close> hands the error unchanged
  past every node without a live generator (not a component, no iterator, no \<^verbatim>\<open>throw\<close>
  entry point, or finished).  Past such nodes \<open>pre\<close>: a node without a parent re-raises the
  error; a component with a live generator is given the error through \<^verbatim>\<open>throw\<close>, and
  when that returns an iteration, at once or through a promise, the component returns
  \<^verbatim>\<open>updateChildren(iteration.value)\<close>; when \<^verbatim>\<open>throw\<close> itself raises, or its promise
  rejects, the error it raised, which need not be the original one, is delegated to the
  component's parent.  An error is raised out of the call exactly when every node on the
  path has passed an error on to its parent, up to the node without a parent.
\<close>

theorem catch_chain:
  assumes "\<forall>n \<in> set pre. inert n" and "\<forall>el \<in> set prel. handling_el F el = None"
    and "catching c = Some throw" and "handling_el F el = Some throwl"
    and "handling_el F rootl = None"
  shows
    "fst (node_catch (pre @ [OtherNode root]) r) = Raise r
     \<and> fst (node_catch (pre @ ComponentNode c # post) r) =
         (case throw r of
            Returns it \<Rightarrow> UpdateChildren (k_id c) it
          | Resolves it \<Rightarrow> Later (UpdateChildren (k_id c) it)
          | Throws err \<Rightarrow> fst (node_catch post err)
          | Rejects err \<Rightarrow> Later (fst (node_catch post err)))
     \<and> (fst (node_catch (ps @ [OtherNode root]) r) = Raise e \<longleftrightarrow> passed_up ps r = Some e)
     \<and> fst (handle F (prel @ [rootl]) r) = Raise r
     \<and> fst (handle F (prel @ el # postl) r) =
         (case throwl r of
            Returns it \<Rightarrow> UpdateChildren (l_id el) it
          | Resolves it \<Rightarrow> Later (UpdateChildren (l_id el) it)
          | Throws err \<Rightarrow> fst (handle F postl err)
          | Rejects err \<Rightarrow> Later (fst (handle F postl err)))
     \<and> (fst (handle F (psl @ [rootl]) r) = Raise e \<longleftrightarrow> passed_up2 F psl r = Some e)"
proof -
  have a: "fst (node_catch (pre @ [OtherNode root]) r) = Raise r"
    using assms(1) by (simp add: node_catch_inert_prefix node_catch_Other del: node_catch.simps)
  have b: "fst (node_catch (pre @ ComponentNode c # post) r) =
         (case throw r of
            Returns it \<Rightarrow> UpdateChildren (k_id c) it
          | Resolves it \<Rightarrow> Later (UpdateChildren (k_id c) it)
          | Throws err \<Rightarrow> fst (node_catch post err)
          | Rejects err \<Rightarrow> Later (fst (node_catch post err)))"
    using assms(1,3)
    by (simp add: node_catch_inert_prefix node_catch_Component del: node_catch.simps)
  have c: "fst (handle F (prel @ [rootl]) r) = Raise r"
    using assms(2,5) by (simp add: handle_inert_prefix handle_step del: handle.simps)
  have d: "fst (handle F (prel @ el # postl) r) =
         (case throwl r of
            Returns it \<Rightarrow> UpdateChildren (l_id el) it
          | Resolves it \<Rightarrow> Later (UpdateChildren (l_id el) it)
          | Throws err \<Rightarrow> fst (handle F postl err)
          | Rejects err \<Rightarrow> Later (fst (handle F postl err)))"
    using assms(2,4) by (simp add: handle_inert_prefix handle_step del: handle.simps)
  show ?thesis
    using a b c d node_catch_escape [of ps root r e] handle_escape [OF assms(5), of psl r e]
    by simp
qed

text \<open>
  An instance: a fragment inside a generator component inside the root.  The component's
  generator answers \<^verbatim>\<open>throw\<close> by yielding the text \<^verbatim>\<open>"fallback"\<close>, which is reconciled as
  its children.
\<close>

theorem catch_chain_witness:
  "fst (node_catch
         [OtherNode 2,
          ComponentNode \<lparr>k_id = 1,
            k_iterator = Some (Some (\<lambda>r. Returns (Iteration (JStr ''fallback'') False))),
            k_finished = False, k_onProps = False\<rparr>,
          OtherNode 0] (Error 1))
     = UpdateChildren 1 (Iteration (JStr ''fallback'') False)
   \<and> fst (handle flags0
         [\<lparr>l_id = 2, l_component = False, l_flags = 1, l_onProps = False, l_iterator = None\<rparr>,
          \<lparr>l_id = 1, l_component = True, l_flags = 1, l_onProps = False,
           l_iterator = Some (Some (\<lambda>r. Returns (Iteration (JStr ''fallback'') False)))\<rparr>,
          \<lparr>l_id = 0, l_component = False, l_flags = 1, l_onProps = False, l_iterator = None\<rparr>]
         (Error 1))
     = UpdateChildren 1 (Iteration (JStr ''fallback'') False)"
proof -
  let ?c = "\<lparr>k_id = 1,
            k_iterator = Some (Some (\<lambda>r. Returns (Iteration (JStr ''fallback'') False))),
            k_finished = False, k_onProps = False\<rparr>"
  let ?f = "\<lparr>l_id = 2, l_component = False, l_flags = 1, l_onProps = False,
            l_iterator = None\<rparr> :: element"
  let ?el = "\<lparr>l_id = 1, l_component = True, l_flags = 1, l_onProps = False,
           l_iterator = Some (Some (\<lambda>r. Returns (Iteration (JStr ''fallback'') False)))\<rparr>"
  let ?root = "\<lparr>l_id = 0, l_component = False, l_flags = 1, l_onProps = False,
           l_iterator = None\<rparr> :: element"
  have h1: "\<forall>n \<in> set [OtherNode 2]. inert n" by simp
  have h2: "\<forall>el \<in> set [?f]. handling_el flags0 el = None"
    by (simp add: handling_el_def handling_def)
  have h3: "catching ?c = Some (\<lambda>r. Returns (Iteration (JStr ''fallback'') False))"
    by (simp add: catching_def)
  have h4: "handling_el flags0 ?el = Some (\<lambda>r. Returns (Iteration (JStr ''fallback'') False))"
    by (simp add: handling_el_def handling_def has_flag_def flags0_def)
  have h5: "handling_el flags0 ?root = None"
    by (simp add: handling_el_def handling_def)
  show ?thesis
    using catch_chain [OF h1 h2 h3 h4 h5, where root = 0 and r = "Error 1"
        and post = "[OtherNode 0]" and postl = "[?root]" and ps = "[]" and psl = "[]"
        and e = "Error 1"]
    by simp
qed

section \<open>Properties of the commit pass\<close>

subsection \<open>Text runs\<close>

lemma merge_str_nonstr:
  "\<not> is_text v \<Longrightarrow>
   merge_text_runs (NSingle (VStr a) # v # vs) = VStr a # flatten_value v @ merge_text_runs vs"
  by (cases "(v # vs)" rule: merge_text_runs.cases) auto

lemma merge_nonstr:
  "\<not> is_text v \<Longrightarrow> merge_text_runs (v # vs) = flatten_value v @ merge_text_runs vs"
  by (cases "(v # vs)" rule: merge_text_runs.cases) auto

text \<open>
  Two adjacent string values, anywhere in the sequence, commit as their concatenation does;
  a maximal run of strings commits as one string.
\<close>

lemma merge_adjacent:
  "merge_text_runs (xs @ NSingle (VStr a) # NSingle (VStr b) # ys)
   = merge_text_runs (xs @ NSingle (VStr (a @ b)) # ys)"
  by (induction xs rule: merge_text_runs.induct) auto

lemma merge_run_Cons:
  "\<not> is_text v \<Longrightarrow>
   merge_text_runs (map (\<lambda>s. NSingle (VStr s)) (s # ss) @ v # rest)
   = VStr (concat (s # ss)) # flatten_value v @ merge_text_runs rest"
proof (induction ss arbitrary: s)
  case Nil
  then show ?case by (simp add: merge_str_nonstr)
next
  case (Cons t ss)
  from Cons.IH [of "s @ t"] Cons.prems show ?case by simp
qed

lemma merge_run_end:
  "merge_text_runs (map (\<lambda>s. NSingle (VStr s)) (s # ss)) = [VStr (concat (s # ss))]"
proof (induction ss arbitrary: s)
  case Nil
  then show ?case by simp
next
  case (Cons t ss)
  from Cons.IH [of "s @ t"] show ?case by simp
qed

lemma merge_buffered_text:
  "merge_text_runs (buffered buf @ NSingle (VStr s) # ws)
   = merge_text_runs (buffered (Some (case buf of None \<Rightarrow> s | Some b \<Rightarrow> b @ s)) @ ws)"
  by (cases buf) auto

lemma merge_buffered_other:
  "\<not> is_text v \<Longrightarrow>
   merge_text_runs (buffered buf @ v # ws) = flush buf [] @ flatten_value v @ merge_text_runs ws"
  by (cases buf) (auto simp: flush_def merge_str_nonstr merge_nonstr)

subsection \<open>Both loops compute the text runs\<close>

lemma mark_dirty_values [simp]:
  "buffer (mark_dirty c st) = buffer st" "childValues (mark_dirty c st) = childValues st"
  by (auto simp: mark_dirty_def split: option.splits)

lemma is_text_iff: "is_text v \<longleftrightarrow> (\<exists>s. v = NSingle (VStr s))"
  by (cases v rule: is_text.cases) auto

lemma push_value_step:
  "childValues (push_value c st) @ merge_text_runs (buffered (buffer (push_value c st)) @ ws)
   = childValues st @ merge_text_runs (buffered (buffer st) @
        (if n_tag c = Some Portal \<and> \<not> is_text (n_value c) then [] else [n_value c]) @ ws)"
proof (cases "is_text (n_value c)")
  case True
  then obtain s where s: "n_value c = NSingle (VStr s)" by (auto simp: is_text_iff)
  then show ?thesis
    by (simp add: push_value_def merge_buffered_text)
next
  case False
  then have "push_value c st = (if n_tag c \<noteq> Some Portal then
      st\<lparr>buffer := None, childValues := flush (buffer st) (childValues st) @ flatten_value (n_value c)\<rparr>
      else st)"
    by (cases "n_value c" rule: is_text.cases) (auto simp: push_value_def flush_def Let_def split: option.splits)
  with False show ?thesis
    by (auto simp: merge_buffered_other flush_def split: option.splits)
qed

lemma commit_loop_values:
  "flush (buffer (fst (commit_loop cs st))) (childValues (fst (commit_loop cs st)))
   = childValues st @ merge_text_runs (buffered (buffer st) @
       map n_value (filter (\<lambda>c. \<not> (n_tag c = Some Portal \<and> \<not> is_text (n_value c))) (map chain_end cs)))"
proof (induction cs arbitrary: st)
  case Nil
  then show ?case by (cases "buffer st") (simp_all add: flush_def)
next
  case (Cons c cs)
  let ?st3 = "(mark_dirty (chain_end c) (push_value (chain_end c) st))\<lparr>oldLength :=
      length (childValues (mark_dirty (chain_end c) (push_value (chain_end c) st)))\<rparr>"
  have "fst (commit_loop (c # cs) st) = fst (commit_loop cs ?st3)"
    by (simp add: Let_def split: prod.splits)
  then show ?case
    using Cons.IH [of ?st3] push_value_step [of "chain_end c" st]
    by (simp del: commit_loop.simps)
qed


lemma prepare_loop_values:
  "(case fst (prepare_loop F cs (elf, buf, values)) of (elf', buf', values') \<Rightarrow> flush buf' values')
   = values @ merge_text_runs (buffered buf @ visible_values cs)"
proof (induction cs arbitrary: elf buf "values")
  case Nil
  then show ?case by (cases buf) (simp_all add: flush_def visible_values_def)
next
  case (Cons c cs)
  show ?case
  proof (cases "is_portal c")
    case True
    then obtain fl v where c: "c = CElem Portal fl v" by (cases c) auto
    have "fst (prepare_loop F (c # cs) (elf, buf, values))
            = fst (prepare_loop F cs (fst (commit_flags F c elf), buf, values))"
      by (simp add: c split: prod.splits)
    then show ?thesis
      using Cons.IH [of "fst (commit_flags F c elf)" buf "values"] True
      by (simp add: visible_values_def del: prepare_loop.simps commit_flags.simps)
  next
    case False
    then have np: "\<And>fl v. c \<noteq> CElem Portal fl v" by auto
    show ?thesis
    proof (cases "is_text (child_value c)")
      case True
      then obtain s where s: "child_value c = NSingle (VStr s)" by (auto simp: is_text_iff)
      have "fst (prepare_loop F (c # cs) (elf, buf, values))
            = fst (prepare_loop F cs (fst (commit_flags F c elf),
                     Some (case buf of None \<Rightarrow> s | Some b \<Rightarrow> b @ s), values))"
        using s np by (cases c; cases "c_tag c") (auto split: prod.splits)
      then show ?thesis
        using Cons.IH [of "fst (commit_flags F c elf)" "Some (case buf of None \<Rightarrow> s | Some b \<Rightarrow> b @ s)" "values"]
          False s
        by (simp add: visible_values_def merge_buffered_text del: prepare_loop.simps commit_flags.simps)
    next
      case nt: False
      have "fst (prepare_loop F (c # cs) (elf, buf, values))
            = fst (prepare_loop F cs (fst (commit_flags F c elf), None,
                     flush buf values @ flatten_value (child_value c)))"
        using nt np
        by (cases c; cases "c_tag c"; cases "child_value c" rule: is_text.cases)
           (auto simp: flush_def split: prod.splits option.splits)
      then show ?thesis
        using Cons.IH [of "fst (commit_flags F c elf)" None "flush buf values @ flatten_value (child_value c)"]
          False nt
        by (simp add: visible_values_def merge_buffered_other flush_def del: prepare_loop.simps commit_flags.simps split: option.splits)
    qed
  qed
qed

lemma prepareCommit_Many_value:
  "fst (snd (prepareCommit F elf (Many cs))) = value_of_childValues (merge_text_runs (visible_values cs))"
proof -
  obtain elf1 buf vs cs' where l: "prepare_loop F cs (elf, None, []) = ((elf1, buf, vs), cs')"
    by (metis prod.exhaust)
  have "flush buf vs = merge_text_runs (visible_values cs)"
    using prepare_loop_values [of F cs elf None "[]"] l by simp
  then show ?thesis
    using l by (simp add: value_of_childValues_def flush_def split: list.splits option.splits)
qed

lemma ParentNode_commitChildren_values:
  "fst (ParentNode_commitChildren d ds ns)
   = merge_text_runs (map n_value
       (filter (\<lambda>c. \<not> (n_tag c = Some Portal \<and> \<not> is_text (n_value c))) (map chain_end ns)))"
proof -
  let ?st0 = "\<lparr>buffer = None, childValues = [], oldLength = 0,
               this_dirty = d, this_dirtyStart = ds\<rparr> :: 'a commit_state"
  obtain st ns' where l: "commit_loop ns ?st0 = (st, ns')" by (metis prod.exhaust)
  have "fst (ParentNode_commitChildren d ds ns) = flush (buffer st) (childValues st)"
    by (simp add: ParentNode_commitChildren_def l flush_def)
  then show ?thesis
    using commit_loop_values [of ns ?st0] l by simp
qed

text \<open>
  In the second variant the committed value of an element with an array of children is
  exactly the text runs of its children that are not Portals: adjacent string children are
  merged, and a Portal child contributes nothing, whatever its value.
\<close>

lemma prepareCommit_text_runs:
  "fst (snd (prepareCommit F elf (Many cs)))
   = value_of_childValues (merge_text_runs (visible_values cs))"
  by (rule prepareCommit_Many_value)

lemma prepareCommit_foo_bar:
  "fst (snd (prepareCommit F elf (Many [CText ''foo'', CText ''bar''])))
   = NSingle (VStr ''foobar'')"
  by (simp add: prepareCommit_Many_value visible_values_def value_of_childValues_def)

text \<open>
  In \<^verbatim>\<open>src/index.ts\<close> the same holds as long as no Portal child has a string for its
  value.
\<close>

lemma ParentNode_commitChildren_text_runs:
  assumes "\<forall>n \<in> set ns. n_tag (chain_end n) = Some Portal \<longrightarrow> \<not> is_text (n_value (chain_end n))"
  shows "fst (ParentNode_commitChildren d ds ns) = merge_text_runs (node_values ns)"
proof -
  have "filter (\<lambda>c. \<not> (n_tag c = Some Portal \<and> \<not> is_text (n_value c))) (map chain_end ns)
        = filter (\<lambda>c. n_tag c \<noteq> Some Portal) (map chain_end ns)"
    using assms by (intro filter_cong) auto
  then show ?thesis
    by (simp add: ParentNode_commitChildren_values node_values_def)
qed

text \<open>
  Claim C5 at a Portal child whose committed value is a string, as a backend whose values
  are strings produces it.  The children are the text \<^verbatim>\<open>"a"\<close> and a Portal host node with
  value \<^verbatim>\<open>"x"\<close>.  \<^verbatim>\<open>ParentNode.commitChildren\<close> tests \<^verbatim>\<open>typeof child.value === "string"\<close>
  before it looks at the tag, so the Portal's string joins the text run and the parent
  commits \<^verbatim>\<open>"ax"\<close>; \<^verbatim>\<open>prepareCommit\<close> skips a Portal first and commits \<^verbatim>\<open>"a"\<close>.
\<close>

theorem ParentNode_commitChildren_portal_string:
  "fst (ParentNode_commitChildren False None
     [Node \<lparr>n_internal = False, n_tag = None, n_value = NSingle (VStr ''a''),
            n_dirty = False, n_moved = False, n_copied = False, n_dirtyStart = None\<rparr> None,
      Node \<lparr>n_internal = True, n_tag = Some Portal, n_value = NSingle (VStr ''x''),
            n_dirty = False, n_moved = False, n_copied = False, n_dirtyStart = None\<rparr> None])
   = [VStr ''ax'' :: unit cval]
   \<and> fst (snd (prepareCommit F elf
         (Many [CText ''a'', CElem Portal fl (NSingle (VStr ''x''))])))
   = (NSingle (VStr ''a'') :: unit nvalue)"
  by (simp add: ParentNode_commitChildren_def push_value_def mark_dirty_def
      prepareCommit_Many_value visible_values_def value_of_childValues_def)

section \<open>Properties of clearing a root\<close>

text \<open>In both variants \<^verbatim>\<open>render(null, root)\<close> leaves no cached node for the root.\<close>

lemma render_null_clears_cache:
  "fst (Renderer_render_null cache root) root = None"
  "fst (render2_null F cache2 root) root = None"
  by (auto simp: Renderer_render_null_def render2_null_def split: option.splits prod.splits)

text \<open>
  Claim C6 on the tree of a finished generator component \<open>P\<close> (node 1) whose child \<open>C\<close>
  (node 2) holds a live generator.  In \<^verbatim>\<open>src/index.ts\<close>, \<^verbatim>\<open>ComponentNode.unmount\<close> calls
  \<^verbatim>\<open>unmountChildren\<close> only inside \<^verbatim>\<open>if (!this.finished)\<close>: \<open>P\<close> is marked unmounted, \<open>C\<close>
  is left mounted and the \<^verbatim>\<open>return\<close> entry point of its generator is never called.  The
  second variant unmounts the children of a finished component and calls \<^verbatim>\<open>return\<close> on
  \<open>C\<close>.
\<close>

theorem render_null_finished_parent:
  "snd (snd (Renderer_render_null (root_of [finished_parent] []) 0))
     = ([ComponentN
           \<lparr>c_id = 1, c_key = JUndefined, c_updating = False, c_unmounted = True,
            c_finished = True, c_onProps = False, c_cleanups = None,
            c_iterator = Some (Some ReturnDone)\<rparr>
           [ComponentN
              \<lparr>c_id = 2, c_key = JUndefined, c_updating = False, c_unmounted = False,
               c_finished = False, c_onProps = False, c_cleanups = None,
               c_iterator = Some (Some ReturnDone)\<rparr>
              [LeafN]]],
        [ClearEventListeners 1], None)
   \<and> snd (snd (render2_null flags0 (root_of2 [finished_parent2] []) 0))
     = ([ClearEventListeners 2, Return 2], None)"
  by (simp add: Renderer_render_null_def updateChildren_null_def root_of_def finished_parent_def
      render2_null_def updateChildren2_null_def root_of2_def finished_parent2_def
      has_flag_def flags0_def Let_def)

section \<open>Two children of one pass with the same key\<close>

subsection \<open>\<^verbatim>\<open>src/index.ts\<close>: the later child is aligned by position\<close>

lemma pass_key_collision:
  "child_key child \<noteq> JUndefined \<Longrightarrow> map_of m (child_key child) = Some n
     \<Longrightarrow> pass_key child (Some m) = JUndefined"
  by (simp add: pass_key_def)

lemma pass_key_free:
  "map_of m (child_key child) = None \<Longrightarrow> pass_key child (Some m) = child_key child"
  by (simp add: pass_key_def)

lemma align_collision:
  assumes "l_keyed l = Some m" "map_of m (child_key child) = Some n"
  shows "align child l =
     (case l_node l of
        None \<Rightarrow>
          if child_tag child = Some Copy then (None, l)
          else (let (n, p1) = createNode child (l_parent l)
                in (Some n, l\<lparr>l_parent := appendChild n p1\<rparr>))
      | Some node \<Rightarrow>
          if v_key (nodes (l_parent l) node) \<noteq> JUndefined then
            (case skip_keyed (nodes (l_parent l))
                    (dropWhile (\<lambda>m. m \<noteq> node) (siblings (l_parent l))) of
               None \<Rightarrow>
                 if child_tag child = Some Copy then (None, l\<lparr>l_node := None\<rparr>)
                 else (let (n, p1) = createNode child (l_parent l)
                       in (Some n, l\<lparr>l_parent := appendChild n p1\<rparr>))
             | Some n \<Rightarrow> (Some n, l))
          else (Some node, l))"
  using assms by (simp add: align_def pass_key_def Let_def split: option.splits)

lemma align_keyed:
  "l_keyed (snd (align child l)) = l_keyed l"
  by (simp add: align_def Let_def case_prod_beta split: option.splits)

lemma update_or_replace_keyed:
  "l_keyed (snd (update_or_replace R child node l)) = l_keyed l"
  by (simp add: update_or_replace_def Let_def case_prod_beta
      split: option.splits sum.splits prod.splits)

lemma loop_body_collision:
  assumes "l_keyed l = Some m" "child_key child \<noteq> JUndefined"
    "map_of m (child_key child) = Some n"
  shows "l_keyed (snd (loop_body R child l)) = Some m"
proof -
  obtain a l1 where al: "align child l = (a, l1)"
    by (cases "align child l")
  have k1: "l_keyed l1 = Some m"
    using align_keyed [of child l] al assms(1) by simp
  have pk: "pass_key child (l_keyed l) = JUndefined"
    using assms by (simp add: pass_key_def)
  show ?thesis
  proof (cases a)
    case None
    then show ?thesis using al k1 by (simp add: loop_body_def)
  next
    case (Some node)
    obtain r l2 where up: "update_or_replace R child node l1 = (r, l2)"
      by (cases "update_or_replace R child node l1")
    have k2: "l_keyed l2 = Some m"
      using update_or_replace_keyed [of R child node l1] up k1 by simp
    show ?thesis
    proof (cases r)
      case (Inl e)
      then show ?thesis using al Some up k2 by (simp add: loop_body_def)
    next
      case (Inr node1)
      then show ?thesis using al Some up k2 pk by (simp add: loop_body_def Let_def)
    qed
  qed
qed

subsection \<open>\<^verbatim>\<open>src/unnamed/part_000\<close>: the later child is looked up in the old map\<close>

text \<open>
  The alignment of the second variant never reads the map of the keys claimed in the
  present pass: a new child with a key is looked up in the element's previous
  \<^verbatim>\<open>childrenByKey\<close>, whatever the pass has claimed so far.
\<close>

lemma align2_ignores_claims:
  "align2 F newChild (l\<lparr>xl_byKey := m\<rparr>)
     = (fst (align2 F newChild l), (snd (align2 F newChild l))\<lparr>xl_byKey := m\<rparr>)"
  by (simp add: align2_def Let_def split: option.splits)

lemma align2_keyed_miss:
  assumes "child_tag newChild \<noteq> None" "child_key newChild \<noteq> JUndefined"
    "childrenByKey (xl_parent l) = None
       \<or> map_of (the (childrenByKey (xl_parent l))) (child_key newChild) = None"
  shows "align2 F newChild l = (Undef, l)"
  using assms by (auto simp: align2_def Let_def split: option.splits)

subsection \<open>The two variants on the same children\<close>

text \<open>
  Claim C7 on a parent whose only child is a \<^verbatim>\<open>span\<close> without a key, updated with a
  \<^verbatim>\<open>div\<close> and a \<^verbatim>\<open>span\<close> that both have the key 1.  For each variant: what the pass
  returns, the calls it makes, the children and the keyed map it leaves, and whether the
  old \<^verbatim>\<open>span\<close> is unmounted.  Neither variant raises, and in both the \<^verbatim>\<open>div\<close> keeps the key
  in the new map.  In \<^verbatim>\<open>src/index.ts\<close> the second child is
  aligned with the node at its position: the old \<^verbatim>\<open>span\<close> (node 0) is updated and stays.  In
  \<^verbatim>\<open>src/unnamed/part_000\<close> the second child is aligned with nothing: a new \<^verbatim>\<open>span\<close>
  (element 2) is mounted and the old one (element 0) is unmounted.
\<close>

theorem key_collision_alignment:
  "(case ParentNode_updateChildren sync_children
           [host_element ''div'' (JNum 1), host_element ''span'' (JNum 1)]
           (snd (ParentNode_updateChildren sync_children [host_element ''span'' JUndefined]
                   new_parent)) of
      (res, P) \<Rightarrow> (res, p_log P, siblings P, keyedChildren P, v_unmounted (nodes P 0)))
     = (Inr None,
        [Created 0, Update_called 0, Commit_called [0],
         Created 1, Update_called 1, Update_called 0, Commit_called [1, 0]],
        [1, 0], Some [(JNum 1, 1)], False)
   \<and> (case updateChildren flags0 sync_children
           [host_element ''div'' (JNum 1), host_element ''span'' (JNum 1)]
           (snd (updateChildren flags0 sync_children [host_element ''span'' JUndefined]
                   (new_element flags0))) of
      (res, S) \<Rightarrow> (res, e_log S, children_of S, childrenByKey S,
                    has_flag (m_flags (elems S 0)) (Unmounted flags0)))
     = (Inr None,
        [Mount_called 0, Update_called2 0, Commit_called2 [Ref 0],
         Mount_called 1, Update_called2 1, Mount_called 2, Update_called2 2,
         Unmount_called2 0, Commit_called2 [Ref 1, Ref 2]],
        [Ref 1, Ref 2], Some [(JNum 1, 1)], True)"
  by code_simp

text \<open>
  In the second variant the later child is also lost to the next passes: it has a key, so
  the trimming of the children without a key passes it by, and it is not in
  \<^verbatim>\<open>childrenByKey\<close>, so the trimming of the keyed children does not reach it.  When the
  parent is then given no children, the \<^verbatim>\<open>div\<close> (element 1) is unmounted and the second
  \<^verbatim>\<open>span\<close> (element 2) is not.
\<close>

lemma duplicate_key_never_unmounted:
  "(case updateChildren flags0 sync_children []
           (snd (updateChildren flags0 sync_children
              [host_element ''div'' (JNum 1), host_element ''span'' (JNum 1)]
              (snd (updateChildren flags0 sync_children [host_element ''span'' JUndefined]
                      (new_element flags0))))) of
      (res, S) \<Rightarrow> (res, e_log S, children_of S, childrenByKey S,
                    has_flag (m_flags (elems S 2)) (Unmounted flags0)))
     = (Inr None,
        [Mount_called 0, Update_called2 0, Commit_called2 [Ref 0],
         Mount_called 1, Update_called2 1, Mount_called 2, Update_called2 2,
         Unmount_called2 0, Commit_called2 [Ref 1, Ref 2],
         Unmount_called2 1, Commit_called2 []],
        [], None, False)"
  by code_simp
section \<open>Properties of createElement\<close>

lemma map_of_copy_props:
  "map_of (copy_props ps ks acc) k =
     (if k \<in> set ks \<and> k \<noteq> ''crank-key'' \<and> k \<noteq> ''crank-ref'' then Some (obj_get ps k)
      else map_of acc k)"
  by (induction ks arbitrary: acc) (auto simp: obj_set_def update_conv')

lemma obj_get_in_dom: "k \<in> fst ` set ps \<Longrightarrow> map_of ps k = Some (obj_get ps k)"
  by (auto simp: obj_get_def map_of_eq_None_iff split: option.splits)

lemma obj_get_not_in_dom: "k \<notin> fst ` set ps \<Longrightarrow> obj_get ps k = JUndefined"
proof -
  assume "k \<notin> fst ` set ps"
  then have "map_of ps k = None" by (simp add: map_of_eq_None_iff)
  then show ?thesis by (simp add: obj_get_def)
qed

text \<open>The loop copies every entry but the two reserved ones.\<close>

lemma map_of_copy_all:
  "map_of (copy_props ps (map fst ps) []) = map_of ps |` (- {''crank-key'', ''crank-ref''})"
proof
  fix k
  show "map_of (copy_props ps (map fst ps) []) k
        = (map_of ps |` (- {''crank-key'', ''crank-ref''})) k"
  proof (cases "k \<in> fst ` set ps")
    case True
    then show ?thesis by (simp add: map_of_copy_props restrict_map_def obj_get_in_dom)
  next
    case False
    then have "map_of ps k = None" by (simp add: map_of_eq_None_iff)
    with False show ?thesis by (simp add: map_of_copy_props restrict_map_def)
  qed
qed

lemma replicate_Suc_update_last:
  "(replicate (Suc k) x)[k := v] = replicate k x @ [v]"
  by (induction k) auto

text \<open>
  The backwards loop fills the array from its last slot: once the slots from \<open>k\<close> on are
  written, the rest of the loop writes the first \<open>k\<close>.
\<close>

lemma collect_children_tail:
  "k < length rest \<Longrightarrow>
   collect_children (2 + k) rest (replicate k JUndefined @ drop k rest) = rest"
proof (induction k)
  case 0
  then show ?case by (simp add: collect_children.simps)
next
  case (Suc k)
  have "(replicate (Suc k) JUndefined @ drop (Suc k) rest)[k := rest ! k]
        = (replicate (Suc k) JUndefined)[k := rest ! k] @ drop (Suc k) rest"
    by (simp only: list_update_append length_replicate) simp
  also have "\<dots> = replicate k JUndefined @ rest ! k # drop (Suc k) rest"
    by (simp only: replicate_Suc_update_last) simp
  also have "\<dots> = replicate k JUndefined @ drop k rest"
    using Suc.prems by (simp add: Cons_nth_drop_Suc)
  finally have upd: "(replicate (Suc k) JUndefined @ drop (Suc k) rest)[k := rest ! k]
        = replicate k JUndefined @ drop k rest" .
  have "k < length (replicate (Suc k) JUndefined @ drop (Suc k) rest)"
    by simp
  then have "arr_set (replicate (Suc k) JUndefined @ drop (Suc k) rest) k (rest ! k)
        = replicate k JUndefined @ drop k rest"
    unfolding arr_set_def using upd by (simp only: if_True)
  with Suc show ?case
    by (subst collect_children.simps) simp
qed

lemma collect_children_all:
  assumes "rest \<noteq> []"
  shows "collect_children (2 + length rest) rest [] = rest"
proof -
  obtain n where n: "length rest = Suc n" using assms by (cases rest) auto
  have "arr_set [] n (rest ! n) = replicate n JUndefined @ drop n rest"
    using n by (simp add: arr_set_def flip: Cons_nth_drop_Suc)
  then show ?thesis
    using collect_children_tail [of n rest] n
    by (subst collect_children.simps) simp
qed

lemma map_of_set_children:
  "map_of (set_children props1 rest) =
     (case rest of [] \<Rightarrow> map_of props1
      | [c] \<Rightarrow> (map_of props1)(''children'' \<mapsto> c)
      | c # d # cs \<Rightarrow> (map_of props1)(''children'' \<mapsto> JArr rest))"
proof (cases rest)
  case Nil
  then show ?thesis by (simp add: set_children_def)
next
  case (Cons c cs)
  show ?thesis
  proof (cases cs)
    case Nil
    with Cons show ?thesis by (simp add: set_children_def obj_set_def update_conv')
  next
    case (Cons d ds)
    have "collect_children (2 + length rest) rest [] = rest"
      using \<open>rest = c # cs\<close> by (intro collect_children_all) simp
    with Cons \<open>rest = c # cs\<close> show ?thesis
      by (simp add: set_children_def obj_set_def update_conv')
  qed
qed

text \<open>The second variant extracts the key and the ref inside the loop, to the same effect.\<close>

lemma copy_props2_eq:
  "copy_props2 ps ks (p1, k1, r1) =
     (copy_props ps ks p1,
      (if ''crank-key'' \<in> set ks \<and> not_nullish (obj_get ps ''crank-key'')
       then obj_get ps ''crank-key'' else k1),
      (if ''crank-ref'' \<in> set ks \<and> is_function (obj_get ps ''crank-ref'')
       then obj_get ps ''crank-ref'' else r1))"
  by (induction ks arbitrary: p1 k1 r1) auto

lemma createElement2_eq: "createElement2 tg props0 rest = createElement tg props0 rest"
proof (cases props0)
  case None
  then show ?thesis by (simp add: createElement2_def createElement_def)
next
  case (Some ps)
  have k: "''crank-key'' \<notin> set (map fst ps) \<Longrightarrow> \<not> not_nullish (obj_get ps ''crank-key'')"
    by (simp add: obj_get_not_in_dom not_nullish_def)
  have r: "''crank-ref'' \<notin> set (map fst ps) \<Longrightarrow> \<not> is_function (obj_get ps ''crank-ref'')"
    by (simp add: obj_get_not_in_dom)
  show ?thesis
    using Some k r by (auto simp: createElement2_def createElement_def copy_props2_eq)
qed

text \<open>
  Claim C8, as stated, at the input
  \<^verbatim>\<open>createElement("div", {"crank-key": null, "crank-ref": "x", children: "a"}, "b")\<close>:
  the \<^verbatim>\<open>children\<close> entry of the input props is not the one of the element's props, and
  neither reserved entry reaches the field it is said to be extracted into.
\<close>

theorem createElement_reserved_counterexample:
  "map_of (props (createElement (HostTag ''div'')
      (Some [(''crank-key'', JNull), (''crank-ref'', JStr ''x''), (''children'', JStr ''a'')])
      [JStr ''b''])) ''children''
     \<noteq> map_of [(''crank-key'', JNull), (''crank-ref'', JStr ''x''), (''children'', JStr ''a'')]
         ''children''
   \<and> key (createElement (HostTag ''div'')
      (Some [(''crank-key'', JNull), (''crank-ref'', JStr ''x''), (''children'', JStr ''a'')])
      [JStr ''b''])
     \<noteq> obj_get [(''crank-key'', JNull), (''crank-ref'', JStr ''x''), (''children'', JStr ''a'')]
         ''crank-key''
   \<and> ref (createElement (HostTag ''div'')
      (Some [(''crank-key'', JNull), (''crank-ref'', JStr ''x''), (''children'', JStr ''a'')])
      [JStr ''b''])
     \<noteq> obj_get [(''crank-key'', JNull), (''crank-ref'', JStr ''x''), (''children'', JStr ''a'')]
         ''crank-ref''"
  by (simp add: createElement_def set_children_def obj_set_def obj_get_def not_nullish_def)

text \<open>
  Claim C8, amended.  For every tag, props and rest arguments, in both variants: the
  element's props hold the enumerable entries of the input props other than
  \<^verbatim>\<open>crank-key\<close> and \<^verbatim>\<open>crank-ref\<close>, except that with at least one rest argument the
  \<^verbatim>\<open>children\<close> entry is set from the arguments, replacing one of the input: to the argument
  itself when there is exactly one, to the array of the arguments in order when there are
  more.  The key is the \<^verbatim>\<open>crank-key\<close> entry when that is neither null nor undefined, the
  ref is the \<^verbatim>\<open>crank-ref\<close> entry when that is a function, and each is undefined otherwise.
\<close>

theorem createElement_props_children:
  "map_of (props (createElement tg props0 rest)) =
     (case rest of
        [] \<Rightarrow> (case props0 of None \<Rightarrow> Map.empty
               | Some ps \<Rightarrow> map_of ps |` (- {''crank-key'', ''crank-ref''}))
      | [c] \<Rightarrow> (case props0 of None \<Rightarrow> Map.empty
               | Some ps \<Rightarrow> map_of ps |` (- {''crank-key'', ''crank-ref''}))
                 (''children'' \<mapsto> c)
      | c # d # cs \<Rightarrow> (case props0 of None \<Rightarrow> Map.empty
               | Some ps \<Rightarrow> map_of ps |` (- {''crank-key'', ''crank-ref''}))
                 (''children'' \<mapsto> JArr rest))
   \<and> key (createElement tg props0 rest) =
     (case props0 of None \<Rightarrow> JUndefined
      | Some ps \<Rightarrow> if not_nullish (obj_get ps ''crank-key'')
                   then obj_get ps ''crank-key'' else JUndefined)
   \<and> ref (createElement tg props0 rest) =
     (case props0 of None \<Rightarrow> JUndefined
      | Some ps \<Rightarrow> if is_function (obj_get ps ''crank-ref'')
                   then obj_get ps ''crank-ref'' else JUndefined)
   \<and> tag (createElement tg props0 rest) = tg
   \<and> createElement2 tg props0 rest = createElement tg props0 rest"
proof -
  have "map_of (props (createElement tg props0 rest)) =
     (case rest of
        [] \<Rightarrow> (case props0 of None \<Rightarrow> Map.empty
               | Some ps \<Rightarrow> map_of ps |` (- {''crank-key'', ''crank-ref''}))
      | [c] \<Rightarrow> (case props0 of None \<Rightarrow> Map.empty
               | Some ps \<Rightarrow> map_of ps |` (- {''crank-key'', ''crank-ref''}))
                 (''children'' \<mapsto> c)
      | c # d # cs \<Rightarrow> (case props0 of None \<Rightarrow> Map.empty
               | Some ps \<Rightarrow> map_of ps |` (- {''crank-key'', ''crank-ref''}))
                 (''children'' \<mapsto> JArr rest))"
    by (cases props0)
       (simp_all add: createElement_def map_of_set_children map_of_copy_all
          split: list.splits)
  moreover have "key (createElement tg props0 rest) =
     (case props0 of None \<Rightarrow> JUndefined
      | Some ps \<Rightarrow> if not_nullish (obj_get ps ''crank-key'')
                   then obj_get ps ''crank-key'' else JUndefined)"
    by (simp add: createElement_def)
  moreover have "ref (createElement tg props0 rest) =
     (case props0 of None \<Rightarrow> JUndefined
      | Some ps \<Rightarrow> if is_function (obj_get ps ''crank-ref'')
                   then obj_get ps ''crank-ref'' else JUndefined)"
    by (simp add: createElement_def)
  moreover have "tag (createElement tg props0 rest) = tg"
    by (simp add: createElement_def)
  ultimately show ?thesis
    using createElement2_eq by simp
qed

section \<open>Properties of unmounting\<close>

subsection \<open>A second unmount does nothing\<close>










end
